(* ===== verification/Prelude.thy ===== *)
theory Prelude
  imports Main
begin

text \<open>
  Shared vocabulary of the development: the types that name the program's values
  (timestamps, ISO strings, identifiers), the JavaScript string primitives the backend
  relies on (\<open>String.prototype.toLowerCase\<close> on ASCII letters, \<open>split\<close> on a
  one-character separator, and its inverse \<open>join\<close>), the decimal rendering of numbers
  used in the token payload, and the generic lemmas about \<open>List.find\<close> that every
  repository lookup shares. The collection \<open>model_simps\<close> gathers the rewrite rules
  the component theories hand to \<open>simp\<close>.
\<close>

named_theorems model_simps "rewrite rules of the model shared by the component proofs"

type_synonym epoch_ms = nat       \<comment> \<open>\<open>Date.now()\<close>: milliseconds since the epoch\<close>
type_synonym epoch_s = nat        \<comment> \<open>JWT \<open>iat\<close>/\<open>exp\<close>: seconds since the epoch\<close>
type_synonym iso_time = string    \<comment> \<open>\<open>new Date().toISOString()\<close>\<close>

subsection \<open>\<open>toLowerCase\<close> on ASCII\<close>

definition js_lower_char :: "char \<Rightarrow> char" where
  "js_lower_char c =
     (let n = of_char c :: nat in if 65 \<le> n \<and> n \<le> 90 then char_of (n + 32) else c)"

definition js_lower :: "string \<Rightarrow> string" where
  "js_lower s = map js_lower_char s"

lemma js_lower_char_idem [simp]: "js_lower_char (js_lower_char c) = js_lower_char c"
  by (simp add: js_lower_char_def Let_def)

lemma js_lower_idem [simp, model_simps]: "js_lower (js_lower s) = js_lower s"
  by (simp add: js_lower_def comp_def)

lemma js_lower_Nil [simp]: "js_lower [] = []"
  by (simp add: js_lower_def)

lemma length_js_lower [simp]: "length (js_lower s) = length s"
  by (simp add: js_lower_def)

subsection \<open>\<open>split\<close> on a one-character separator, and \<open>join\<close>\<close>

text \<open>
  \<open>s.split(d)\<close> for a one-character \<open>d\<close>: never empty; \<open>''.split(d)\<close> is \<open>['']\<close>,
  and two adjacent separators give an empty piece between them.
\<close>

fun js_split :: "char \<Rightarrow> string \<Rightarrow> string list" where
  "js_split d [] = [[]]"
| "js_split d (c # cs) =
     (if c = d then [] # js_split d cs
      else (let r = js_split d cs in (c # hd r) # tl r))"

fun js_join :: "char \<Rightarrow> string list \<Rightarrow> string" where
  "js_join d [] = []"
| "js_join d [w] = w"
| "js_join d (w # v # ws) = w @ d # js_join d (v # ws)"

lemma js_split_not_Nil [simp]: "js_split d s \<noteq> []"
  by (induction s) (auto simp: Let_def)

lemma js_split_append_sep [simp]:
  "d \<notin> set w \<Longrightarrow> js_split d (w @ d # s) = w # js_split d s"
  by (induction w) (auto simp: Let_def)

lemma js_split_no_sep [simp]: "d \<notin> set w \<Longrightarrow> js_split d w = [w]"
  by (induction w) (auto simp: Let_def)

lemma js_split_join [model_simps]:
  "ws \<noteq> [] \<Longrightarrow> \<forall>w \<in> set ws. d \<notin> set w \<Longrightarrow> js_split d (js_join d ws) = ws"
  by (induction d ws rule: js_join.induct) auto

lemma js_join_Cons_Cons: "js_join d ((c # w) # ws) = c # js_join d (w # ws)"
  by (cases ws) auto

lemma js_join_Nil_Cons: "ws \<noteq> [] \<Longrightarrow> js_join d ([] # ws) = d # js_join d ws"
  by (cases ws) auto

lemma js_join_split [simp, model_simps]: "js_join d (js_split d s) = s"
proof (induction s)
  case Nil
  then show ?case by simp
next
  case (Cons c cs)
  have ne: "js_split d cs \<noteq> []" by simp
  then have "js_split d cs = hd (js_split d cs) # tl (js_split d cs)" by simp
  then have "js_join d ((c # hd (js_split d cs)) # tl (js_split d cs)) = c # cs"
    using Cons.IH by (metis js_join_Cons_Cons)
  with ne Cons.IH show ?case by (simp add: Let_def js_join_Nil_Cons)
qed

lemma set_js_join [model_simps]:
  "c \<noteq> d \<Longrightarrow> c \<in> set (js_join d ws) \<longleftrightarrow> (\<exists>w \<in> set ws. c \<in> set w)"
  by (induction d ws rule: js_join.induct) auto

lemma js_split_pieces: "w \<in> set (js_split d s) \<Longrightarrow> d \<notin> set w"
proof (induction s arbitrary: w)
  case Nil
  then show ?case by simp
next
  case (Cons c cs)
  then show ?case
    by (cases "js_split d cs") (auto simp: Let_def split: if_splits)
qed

subsection \<open>Decimal numbers\<close>

text \<open>\<open>String(n)\<close> and \<open>parseInt\<close> for the natural numbers of the token payload.\<close>

fun dec_digits :: "nat \<Rightarrow> string" where
  "dec_digits n =
     (if n < 10 then [char_of (48 + n)]
      else dec_digits (n div 10) @ [char_of (48 + n mod 10)])"

declare dec_digits.simps [simp del]

definition is_digit :: "char \<Rightarrow> bool" where
  "is_digit c \<longleftrightarrow> 48 \<le> (of_char c :: nat) \<and> (of_char c :: nat) \<le> 57"

definition parse_dec :: "string \<Rightarrow> nat option" where
  "parse_dec s =
     (if s \<noteq> [] \<and> list_all is_digit s
      then Some (foldl (\<lambda>a c. 10 * a + (of_char c - 48)) 0 s) else None)"

lemma dec_digits_is_digit: "list_all is_digit (dec_digits n)"
proof (induction n rule: dec_digits.induct)
  case (1 n)
  show ?case
    using 1 by (subst dec_digits.simps) (auto simp: is_digit_def list_all_iff)
qed

lemma dec_digits_not_Nil [simp]: "dec_digits n \<noteq> []"
  by (subst dec_digits.simps) simp

lemma foldl_dec_digits:
  "foldl (\<lambda>a c. 10 * a + (of_char c - 48)) 0 (dec_digits n) = n"
proof (induction n rule: dec_digits.induct)
  case (1 n)
  show ?case
  proof (cases "n < 10")
    case True
    then show ?thesis by (subst dec_digits.simps) simp
  next
    case False
    then have "foldl (\<lambda>a c. 10 * a + (of_char c - 48)) 0 (dec_digits (n div 10)) = n div 10"
      using "1.IH" by simp
    with False show ?thesis by (subst dec_digits.simps) simp
  qed
qed

lemma parse_dec_digits [simp, model_simps]: "parse_dec (dec_digits n) = Some n"
  by (simp add: parse_dec_def dec_digits_is_digit foldl_dec_digits)

lemma dec_digits_no_punct [simp]:
  "CHR ''.'' \<notin> set (dec_digits n)" "CHR '','' \<notin> set (dec_digits n)"
  "CHR '' '' \<notin> set (dec_digits n)"
  using dec_digits_is_digit [of n] by (auto simp: list_all_iff is_digit_def)

subsection \<open>\<open>x || []\<close>\<close>

text \<open>An optional array read with \<open>|| []\<close>: an absent field gives the empty array.\<close>

definition or_empty :: "'a list option \<Rightarrow> 'a list" where
  "or_empty x = (case x of None \<Rightarrow> [] | Some xs \<Rightarrow> xs)"

lemma or_empty_simps [simp]: "or_empty None = []" "or_empty (Some xs) = xs"
  by (simp_all add: or_empty_def)

subsection \<open>\<open>Array.prototype.find\<close>\<close>

text \<open>
  \<open>xs.find(p)\<close> returns the first element satisfying \<open>p\<close>, or \<open>undefined\<close>:
  exactly \<open>List.find\<close>. The repository's \<open>users.push\<close> appends at the end.
\<close>

lemma find_append_last [model_simps]:
  "List.find P (xs @ [x]) = (case List.find P xs of None \<Rightarrow> if P x then Some x else None | r \<Rightarrow> r)"
  by (induction xs) auto

lemma find_SomeD [dest]: "List.find P xs = Some x \<Longrightarrow> x \<in> set xs \<and> P x"
  by (induction xs) (auto split: if_splits)

lemma find_None_notin: "List.find P xs = None \<Longrightarrow> x \<in> set xs \<Longrightarrow> \<not> P x"
  by (auto simp: find_None_iff)

end
