(* ===== verification/UserModel.thy ===== *)
theory UserModel
  imports Prelude
begin

text \<open>
  The data model of \<open>src/src/models/user.ts\<close>: the role enum, the stored \<open>User\<close> and
  its public view \<open>UserResponse\<close>, the request bodies, and the zod schemas that
  validate them (\<open>createUserSchema\<close>, \<open>loginSchema\<close>), together with the error values
  the backend raises (\<open>CustomError\<close> of \<open>libs/error-handler\<close>, zod's \<open>ZodError\<close>, a
  plain \<open>Error\<close>). \<open>User\<close> is modelled as the extension of \<open>UserResponse\<close> by the
  \<open>password\<close> field, so that \<open>toUserResponse\<close> is record truncation.
\<close>

subsection \<open>Errors\<close>

text \<open>
  \<open>CustomError(message, statusCode)\<close> is the backend's own error class; \<open>ZodError\<close>
  carries the list of issue messages of a failed \<open>parse\<close>; \<open>JsError\<close> is any other
  \<open>Error\<close> (the error-handling middleware answers it with 500).
\<close>

datatype app_error =
    CustomError string nat
  | ZodError "string list"
  | JsError string

subsection \<open>Roles and users\<close>

datatype user_role = ADMIN | USER

primrec role_value :: "user_role \<Rightarrow> string" where
  "role_value ADMIN = ''admin''"
| "role_value USER = ''user''"

text \<open>\<open>z.nativeEnum(UserRole)\<close>: accepts exactly the enum's string values.\<close>

definition parse_role :: "string \<Rightarrow> user_role option" where
  "parse_role s =
     (if s = ''admin'' then Some ADMIN else if s = ''user'' then Some USER else None)"

lemma parse_role_value [simp, model_simps]: "parse_role (role_value r) = Some r"
  by (cases r) (simp_all add: parse_role_def)

lemma role_value_inj [simp]: "role_value r = role_value r' \<longleftrightarrow> r = r'"
  by (cases r; cases r') simp_all

text \<open>
  \<open>UserResponse\<close>: \<open>id\<close> is renamed \<open>user_id\<close> (\<open>id\<close> is the identity function of HOL).
  \<open>organizationId\<close> is not declared by the interface but is read by
  \<open>AuthService.generateToken\<close>; a stored JSON record may carry it, and the object rest
  spread of \<open>toUserResponse\<close> keeps it. \<open>None\<close> is \<open>undefined\<close>.
\<close>

record user_response =
  user_id :: string
  email :: string
  name :: string
  role :: user_role
  createdAt :: iso_time
  updatedAt :: iso_time
  organizationId :: "string option"

record user = user_response +
  password :: string

subsection \<open>Request bodies and their zod schemas\<close>

text \<open>
  A request body as parsed from JSON: a field the client left out is \<open>None\<close>.
  \<open>CreateUserRequest\<close> and \<open>LoginInput\<close> are the validated forms.
\<close>

record create_user_body =
  cb_email :: "string option"
  cb_name :: "string option"
  cb_password :: "string option"
  cb_role :: "string option"

record create_user_request =
  cr_email :: string
  cr_name :: string
  cr_password :: string
  cr_role :: user_role

record login_body =
  lb_email :: "string option"
  lb_password :: "string option"

record login_input =
  li_email :: string
  li_password :: string

subsubsection \<open>\<open>z.string().email()\<close>\<close>

text \<open>
  zod's e-mail pattern, case-insensitive:
  \<^verbatim>\<open>^(?!\.)(?!.*\.\.)([A-Z0-9_'+\-\.]*)[A-Z0-9_+-]@([A-Z0-9][A-Z0-9\-]*\.)+[A-Z]{2,}$\<close>.
  Neither side may contain \<open>@\<close>, so the address splits at its only \<open>@\<close>.
\<close>

definition is_alpha :: "char \<Rightarrow> bool" where
  "is_alpha c \<longleftrightarrow> (let n = of_char c :: nat in (65 \<le> n \<and> n \<le> 90) \<or> (97 \<le> n \<and> n \<le> 122))"

definition is_alnum :: "char \<Rightarrow> bool" where
  "is_alnum c \<longleftrightarrow> is_alpha c \<or> is_digit c"

fun has_dot_dot :: "string \<Rightarrow> bool" where
  "has_dot_dot (a # b # r) = ((a = CHR ''.'' \<and> b = CHR ''.'') \<or> has_dot_dot (b # r))"
| "has_dot_dot _ = False"

definition email_local_ok :: "string \<Rightarrow> bool" where
  "email_local_ok l \<longleftrightarrow>
     l \<noteq> [] \<and> hd l \<noteq> CHR ''.'' \<and>
     list_all (\<lambda>c. is_alnum c \<or> c \<in> set ''_'+-.'') (butlast l) \<and>
     (is_alnum (last l) \<or> last l \<in> set ''_+-'')"

definition email_label_ok :: "string \<Rightarrow> bool" where
  "email_label_ok w \<longleftrightarrow> w \<noteq> [] \<and> is_alnum (hd w) \<and> list_all (\<lambda>c. is_alnum c \<or> c = CHR ''-'') w"

definition email_domain_ok :: "string \<Rightarrow> bool" where
  "email_domain_ok d \<longleftrightarrow>
     (let ls = js_split (CHR ''.'') d in
      2 \<le> length ls \<and> list_all email_label_ok (butlast ls) \<and>
      2 \<le> length (last ls) \<and> list_all is_alpha (last ls))"

definition zod_email :: "string \<Rightarrow> bool" where
  "zod_email s \<longleftrightarrow>
     \<not> has_dot_dot s \<and>
     (case js_split (CHR ''@'') s of
        [l, d] \<Rightarrow> email_local_ok l \<and> email_domain_ok d
      | _ \<Rightarrow> False)"

subsubsection \<open>\<open>createUserSchema\<close> and \<open>loginSchema\<close>\<close>

text \<open>
  One check per field in the schema's order; zod reports every failed field
  (\<open>Required\<close> for a missing one) and throws a \<open>ZodError\<close> holding them all.
\<close>

definition check_field :: "string option \<Rightarrow> (string \<Rightarrow> string option) \<Rightarrow> string list" where
  "check_field v chk = (case v of None \<Rightarrow> [''Required''] | Some s \<Rightarrow>
     (case chk s of None \<Rightarrow> [] | Some msg \<Rightarrow> [msg]))"

definition email_check :: "string \<Rightarrow> string option" where
  "email_check s = (if zod_email s then None else Some ''Invalid email format'')"

definition min_check :: "nat \<Rightarrow> string \<Rightarrow> string \<Rightarrow> string option" where
  "min_check n msg s = (if n \<le> length s then None else Some msg)"

definition role_check :: "string \<Rightarrow> string option" where
  "role_check s = (case parse_role s of None \<Rightarrow> Some ''Invalid enum value'' | Some _ \<Rightarrow> None)"

definition createUserSchema_parse :: "create_user_body \<Rightarrow> app_error + create_user_request" where
  "createUserSchema_parse b =
     (let issues =
        check_field (cb_email b) email_check @
        check_field (cb_name b) (min_check 2 ''Name must be at least 2 characters'') @
        check_field (cb_password b) (min_check 8 ''Password must be at least 8 characters'') @
        check_field (cb_role b) role_check
      in if issues \<noteq> [] then Inl (ZodError issues)
         else (case (cb_email b, cb_name b, cb_password b, Option.bind (cb_role b) parse_role) of
                 (Some e, Some n, Some p, Some r) \<Rightarrow>
                   Inr \<lparr>cr_email = e, cr_name = n, cr_password = p, cr_role = r\<rparr>
               | _ \<Rightarrow> Inl (ZodError [''Required''])))"

definition loginSchema_parse :: "login_body \<Rightarrow> app_error + login_input" where
  "loginSchema_parse b =
     (let issues =
        check_field (lb_email b) email_check @
        check_field (lb_password b) (min_check 1 ''Password is required'')
      in if issues \<noteq> [] then Inl (ZodError issues)
         else (case (lb_email b, lb_password b) of
                 (Some e, Some p) \<Rightarrow> Inr \<lparr>li_email = e, li_password = p\<rparr>
               | _ \<Rightarrow> Inl (ZodError [''Required''])))"

subsubsection \<open>What the schemas accept\<close>

text \<open>
  C29. The schemas accept exactly the bodies of their type: \<open>createUserSchema\<close> returns a
  request iff the body has an e-mail zod accepts, a name of at least 2 characters, a
  password of at least 8 and a role of the enum, and the request holds exactly those
  fields; \<open>loginSchema\<close> likewise for an accepted e-mail and a non-empty password.
\<close>

theorem schemas_accept_exactly:
  "((createUserSchema_parse b = Inr v) \<longleftrightarrow>
      cb_email b = Some (cr_email v) \<and> zod_email (cr_email v) \<and>
      cb_name b = Some (cr_name v) \<and> 2 \<le> length (cr_name v) \<and>
      cb_password b = Some (cr_password v) \<and> 8 \<le> length (cr_password v) \<and>
      Option.bind (cb_role b) parse_role = Some (cr_role v)) \<and>
   ((loginSchema_parse lb = Inr lv) \<longleftrightarrow>
      lb_email lb = Some (li_email lv) \<and> zod_email (li_email lv) \<and>
      lb_password lb = Some (li_password lv) \<and> 1 \<le> length (li_password lv))"
proof
  show "(createUserSchema_parse b = Inr v) \<longleftrightarrow>
      cb_email b = Some (cr_email v) \<and> zod_email (cr_email v) \<and>
      cb_name b = Some (cr_name v) \<and> 2 \<le> length (cr_name v) \<and>
      cb_password b = Some (cr_password v) \<and> 8 \<le> length (cr_password v) \<and>
      Option.bind (cb_role b) parse_role = Some (cr_role v)"
    by (cases v) (auto simp: createUserSchema_parse_def check_field_def email_check_def min_check_def
        role_check_def Let_def split: option.splits)
  show "(loginSchema_parse lb = Inr lv) \<longleftrightarrow>
      lb_email lb = Some (li_email lv) \<and> zod_email (li_email lv) \<and>
      lb_password lb = Some (li_password lv) \<and> 1 \<le> length (li_password lv)"
    by (cases lv) (auto simp: loginSchema_parse_def check_field_def email_check_def min_check_def
        Let_def split: option.splits)
qed

end
