(* ===== verification/StatsModel.thy ===== *)
theory StatsModel
  imports Prelude
begin

text \<open>
  The dashboard records of \<open>src/src/models/stats.ts\<close>. The backend never computes
  with them (every statistics endpoint passes the stored arrays through), so a JSON
  number is modelled as an \<open>int\<close>: no claim depends on its arithmetic.
\<close>

type_synonym json_number = int

record monthly_data =
  md_month :: string
  md_income :: json_number
  md_expenses :: json_number

record company_stats =
  cs_id :: string
  cs_name :: string
  cs_value :: json_number
  cs_monthlyChange :: json_number

record developer_trends =
  dt_month :: string
  dt_react :: json_number
  dt_javascript :: json_number

record employee_distribution =
  ed_year :: json_number
  ed_coders :: json_number
  ed_designers :: json_number

record product_performance =
  pp_id :: string
  pp_name :: string
  pp_percentage :: json_number
  pp_period :: string

record normals_chart =
  nc_month :: string
  nc_expected :: json_number
  nc_actual :: json_number

text \<open>The object \<open>StatsService.getAllStats\<close> resolves to.\<close>

record all_stats =
  as_monthlyData :: "monthly_data list"
  as_companyStats :: "company_stats list"
  as_developerTrends :: "developer_trends list"
  as_employeeDistribution :: "employee_distribution list"
  as_productPerformance :: "product_performance list"

end
