(* ===== verification/Store.thy ===== *)
theory Store
  imports UserModel StatsModel
begin

text \<open>
  The flat-file pseudo-database of \<open>src/src/data-access/json-db.ts\<close>, the logger of
  \<open>src/src/libs/logger.ts\<close>, and the runtime the handlers read.

  \<^item> \<open>data.json\<close> is one JSON document; \<open>readDB\<close> parses all of it and \<open>writeDB\<close>
    replaces all of it. Since \<open>JSON.parse (JSON.stringify d) = d\<close> on the documents the
    backend writes, the file is modelled by the document it holds. The optional
    statistics arrays are \<open>option\<close>s (the repositories read them with \<open>|| []\<close>);
    \<open>users\<close> is assumed present, as every path that reads it dereferences it.
  \<^item> The file may be unreadable (missing, or not JSON): \<open>db_error\<close> holds the message
    of the plain \<open>Error\<close> that \<open>fs.readFile\<close> or \<open>JSON.parse\<close> rejects with while it is
    so, and every \<open>readDB\<close> fails with it. \<open>writeDB\<close> replaces the whole file with a readable document.
    Writes are assumed to succeed.
  \<^item> The logger is fire-and-forget: a log call appends an entry to \<open>log\<close>.
  \<^item> The runtime gathers what the handlers read from outside the program:
    \<open>process.env\<close>, \<open>Date.now()\<close> and its ISO rendering, the next \<open>uuidv4()\<close>,
    \<open>bcrypt.hash(_, 12)\<close> with its salt fixed for the request, and HMAC-SHA256 as
    used by \<open>jws\<close> (key, signing input, base64url signature).
\<close>

record db =
  users :: "user list"
  monthlyData :: "monthly_data list option"
  companyStats :: "company_stats list option"
  developerTrends :: "developer_trends list option"
  employeeDistribution :: "employee_distribution list option"
  productPerformance :: "product_performance list option"
  normalsChart :: "normals_chart list option"

datatype log_entry = LogInfo string | LogError string app_error

record sys =
  store :: db
  log :: "log_entry list"
  db_error :: "string option"

abbreviation db_ok :: "sys \<Rightarrow> bool" where
  "db_ok s \<equiv> db_error s = None"

definition readDB :: "sys \<Rightarrow> app_error + db" where
  "readDB s = (case db_error s of Some m \<Rightarrow> Inl (JsError m) | None \<Rightarrow> Inr (store s))"

definition writeDB :: "db \<Rightarrow> sys \<Rightarrow> sys" where
  "writeDB d s = s\<lparr>store := d, db_error := None\<rparr>"

definition log_info :: "string \<Rightarrow> sys \<Rightarrow> sys" where
  "log_info m s = s\<lparr>log := log s @ [LogInfo m]\<rparr>"

definition log_error :: "string \<Rightarrow> app_error \<Rightarrow> sys \<Rightarrow> sys" where
  "log_error m e s = s\<lparr>log := log s @ [LogError m e]\<rparr>"

record runtime =
  rt_env :: "string \<Rightarrow> string option"
  rt_now :: epoch_ms
  rt_iso :: iso_time
  rt_uuid :: string
  rt_bcrypt :: "string \<Rightarrow> string"
  rt_hmac :: "string \<Rightarrow> string \<Rightarrow> string"

primrec is_log_info :: "log_entry \<Rightarrow> bool" where
  "is_log_info (LogInfo m) = True"
| "is_log_info (LogError m e) = False"

lemma readDB_writeDB [simp, model_simps]: "readDB (writeDB d s) = Inr d"
  by (simp add: readDB_def writeDB_def)

lemma writeDB_ok: "db_ok s \<Longrightarrow> writeDB d s = s\<lparr>store := d\<rparr>"
  by (simp add: writeDB_def)

lemma readDB_cases [model_simps]:
  "db_ok s \<Longrightarrow> readDB s = Inr (store s)" "db_error s = Some m \<Longrightarrow> readDB s = Inl (JsError m)"
  by (simp_all add: readDB_def)

lemma store_log_ops [simp, model_simps]:
  "store (log_info m s) = store s" "store (log_error m e s) = store s"
  "log (log_info m s) = log s @ [LogInfo m]" "log (log_error m e s) = log s @ [LogError m e]"
  "log (writeDB d s) = log s" "store (writeDB d s) = d"
  "db_error (log_info m s) = db_error s" "db_error (log_error m e s) = db_error s"
  "db_error (writeDB d s) = None"
  by (simp_all add: log_info_def log_error_def writeDB_def)

end
