(* ===== verification/UserRepository.thy ===== *)
theory UserRepository
  imports Store
begin

text \<open>
  \<open>UserRepository\<close> of \<open>src/src/data-access/user-repository.ts\<close>, the credential
  store: registration (\<open>createUser\<close>), the two lookups, the stubs \<open>updateUser\<close> and
  \<open>deleteUser\<close>, \<open>verifyPassword\<close> (which compares the candidate with the stored
  field directly), and the public view \<open>toUserResponse\<close>. Every method that awaits
  \<open>readDB\<close> fails with the read's error when the data file cannot be read (\<open>Inl\<close>),
  and then writes and logs nothing.
  The store's well-formedness \<open>users_wf\<close> (stored e-mails lower-case and distinct,
  identifiers distinct) is kept by \<open>createUser\<close> whenever the caller's duplicate check
  passed and the identifier is fresh; lookups after a registration find the new user.
\<close>

definition new_user :: "runtime \<Rightarrow> create_user_request \<Rightarrow> user" where
  "new_user rt req =
     \<lparr>user_id = rt_uuid rt, email = js_lower (cr_email req), name = cr_name req,
      role = cr_role req, createdAt = rt_iso rt, updatedAt = rt_iso rt,
      organizationId = None, password = rt_bcrypt rt (cr_password req)\<rparr>"

definition createUser :: "runtime \<Rightarrow> create_user_request \<Rightarrow> sys \<Rightarrow> (app_error + user) \<times> sys" where
  "createUser rt req s =
     (let u = new_user rt req in
      case readDB s of
        Inl e \<Rightarrow> (Inl e, s)
      | Inr d \<Rightarrow>
          (let s' = writeDB (d\<lparr>users := users d @ [u]\<rparr>) s
           in (Inr u, log_info (''User created: '' @ user_id u) s')))"

definition findByEmail :: "string \<Rightarrow> sys \<Rightarrow> app_error + user option" where
  "findByEmail e s =
     (case readDB s of Inl x \<Rightarrow> Inl x | Inr d \<Rightarrow> Inr (List.find (\<lambda>u. email u = js_lower e) (users d)))"

definition findById :: "string \<Rightarrow> sys \<Rightarrow> app_error + user option" where
  "findById i s =
     (case readDB s of Inl x \<Rightarrow> Inl x | Inr d \<Rightarrow> Inr (List.find (\<lambda>u. user_id u = i) (users d)))"

record update_user_request =
  upd_name :: "string option"
  upd_role :: "user_role option"

definition updateUser :: "string \<Rightarrow> update_user_request \<Rightarrow> sys \<Rightarrow> user option \<times> sys" where
  "updateUser i upd s = (None, s)"

definition deleteUser :: "string \<Rightarrow> sys \<Rightarrow> bool \<times> sys" where
  "deleteUser i s = (False, s)"

definition verifyPassword :: "user \<Rightarrow> string \<Rightarrow> bool" where
  "verifyPassword u p \<longleftrightarrow> p = password u"

definition toUserResponse :: "user \<Rightarrow> user_response" where
  "toUserResponse u = user_response.truncate u"

subsection \<open>Well-formed stores\<close>

definition users_wf :: "db \<Rightarrow> bool" where
  "users_wf d \<longleftrightarrow>
     list_all (\<lambda>u. js_lower (email u) = email u) (users d) \<and>
     distinct (map email (users d)) \<and> distinct (map user_id (users d))"

lemma createUser_ok [model_simps]:
  "db_ok s \<Longrightarrow>
   createUser rt req s =
     (Inr (new_user rt req),
      log_info (''User created: '' @ rt_uuid rt) (s\<lparr>store := (store s)\<lparr>users := users (store s) @ [new_user rt req]\<rparr>\<rparr>))"
  by (simp add: createUser_def Let_def readDB_def writeDB_def new_user_def)

lemma createUser_fault [model_simps]: "db_error s = Some m \<Longrightarrow> createUser rt req s = (Inl (JsError m), s)"
  by (simp add: createUser_def readDB_def)

lemma createUser_store [simp, model_simps]:
  "store (snd (createUser rt req s)) =
     (if db_ok s then (store s)\<lparr>users := users (store s) @ [new_user rt req]\<rparr> else store s)"
  by (cases "db_error s") (simp_all add: createUser_ok createUser_fault log_info_def)

lemma createUser_db_error [simp]: "db_error (snd (createUser rt req s)) = db_error s"
  by (cases "db_error s") (simp_all add: createUser_ok createUser_fault log_info_def)

lemma new_user_sel [simp]:
  "user_id (new_user rt req) = rt_uuid rt" "email (new_user rt req) = js_lower (cr_email req)"
  "password (new_user rt req) = rt_bcrypt rt (cr_password req)"
  "role (new_user rt req) = cr_role req" "name (new_user rt req) = cr_name req"
  by (simp_all add: new_user_def)

lemma findByEmail_cases [model_simps]:
  "db_ok s \<Longrightarrow> findByEmail e s = Inr (List.find (\<lambda>u. email u = js_lower e) (users (store s)))"
  "db_error s = Some m \<Longrightarrow> findByEmail e s = Inl (JsError m)"
  by (simp_all add: findByEmail_def readDB_def)

lemma findById_cases [model_simps]:
  "db_ok s \<Longrightarrow> findById i s = Inr (List.find (\<lambda>u. user_id u = i) (users (store s)))"
  "db_error s = Some m \<Longrightarrow> findById i s = Inl (JsError m)"
  by (simp_all add: findById_def readDB_def)

lemma findByEmail_Inr_db_ok: "findByEmail e s = Inr r \<Longrightarrow> db_ok s"
  by (cases "db_error s") (simp_all add: findByEmail_cases)

lemma findById_Inr_db_ok: "findById i s = Inr r \<Longrightarrow> db_ok s"
  by (cases "db_error s") (simp_all add: findById_cases)

lemma findByEmail_Inl: "findByEmail e s = Inl x \<Longrightarrow> \<exists>m. db_error s = Some m \<and> x = JsError m"
  by (cases "db_error s") (simp_all add: findByEmail_cases)

lemma findById_Inl: "findById i s = Inl x \<Longrightarrow> \<exists>m. db_error s = Some m \<and> x = JsError m"
  by (cases "db_error s") (simp_all add: findById_cases)

lemma findByEmail_None_iff:
  "findByEmail e s = Inr None \<longleftrightarrow> db_ok s \<and> js_lower e \<notin> email ` set (users (store s))"
  by (cases "db_error s") (auto simp: findByEmail_cases find_None_iff image_iff)

lemma findById_None_iff:
  "findById i s = Inr None \<longleftrightarrow> db_ok s \<and> i \<notin> user_id ` set (users (store s))"
  by (cases "db_error s") (auto simp: findById_cases find_None_iff image_iff)

text \<open>Lookup by e-mail is case-insensitive in the query.\<close>

lemma findByEmail_lower [simp]: "findByEmail (js_lower e) s = findByEmail e s"
  by (simp add: findByEmail_def split: sum.split)

text \<open>
  Insert then look up: after registering a request whose e-mail no stored user has,
  every spelling of that e-mail that lower-cases to the same string finds the new user,
  and so does its identifier when that is fresh.
\<close>

lemma createUser_findByEmail:
  assumes "findByEmail (cr_email req) s = Inr None"
    and "js_lower e = js_lower (cr_email req)"
  shows "findByEmail e (snd (createUser rt req s)) = Inr (Some (new_user rt req))"
proof -
  have ok: "db_ok s" using assms(1) by (rule findByEmail_Inr_db_ok)
  with assms show ?thesis
    by (simp add: createUser_ok findByEmail_cases find_append_last log_info_def)
qed

lemma createUser_findById:
  assumes "findById (rt_uuid rt) s = Inr None"
  shows "findById (rt_uuid rt) (snd (createUser rt req s)) = Inr (Some (new_user rt req))"
proof -
  have ok: "db_ok s" using assms by (rule findById_Inr_db_ok)
  with assms show ?thesis
    by (simp add: createUser_ok findById_cases find_append_last log_info_def)
qed

lemma createUser_findByEmail_other:
  "js_lower e \<noteq> js_lower (cr_email req) \<Longrightarrow>
   findByEmail e (snd (createUser rt req s)) = findByEmail e s"
  by (cases "db_error s")
     (simp_all add: createUser_ok createUser_fault findByEmail_cases find_append_last log_info_def
       split: option.split)

lemma createUser_findById_other:
  "i \<noteq> rt_uuid rt \<Longrightarrow> findById i (snd (createUser rt req s)) = findById i s"
  by (cases "db_error s")
     (simp_all add: createUser_ok createUser_fault findById_cases find_append_last log_info_def
       split: option.split)

lemma createUser_users_wf:
  assumes "users_wf (store s)"
    and "js_lower (cr_email req) \<notin> email ` set (users (store s))"
    and "rt_uuid rt \<notin> user_id ` set (users (store s))"
  shows "users_wf (store (snd (createUser rt req s)))"
  using assms by (auto simp: users_wf_def)

text \<open>
  The public view: every field but the password, read from the user; two users that
  differ only in their password have the same view.
\<close>

lemma toUserResponse_fields [simp]:
  "user_id (toUserResponse u) = user_id u" "email (toUserResponse u) = email u"
  "name (toUserResponse u) = name u" "role (toUserResponse u) = role u"
  "createdAt (toUserResponse u) = createdAt u" "updatedAt (toUserResponse u) = updatedAt u"
  "organizationId (toUserResponse u) = organizationId u"
  by (simp_all add: toUserResponse_def user_response.truncate_def)

lemma toUserResponse_password_independent:
  "toUserResponse (u\<lparr>password := p\<rparr>) = toUserResponse u"
  by (simp add: toUserResponse_def user_response.truncate_def)

text \<open>The update and delete stubs report failure and leave the store as it was.\<close>

lemma updateUser_deleteUser_stubs:
  "updateUser i upd s = (None, s)" "deleteUser i s = (False, s)"
  by (simp_all add: updateUser_def deleteUser_def)

lemma findByEmail_in_users: "findByEmail e s = Inr (Some u) \<Longrightarrow> u \<in> set (users (store s))"
  by (cases "db_error s") (auto simp: findByEmail_cases)

lemma findById_in_users: "findById i s = Inr (Some u) \<Longrightarrow> u \<in> set (users (store s))"
  by (cases "db_error s") (auto simp: findById_cases)

end
