(* ===== verification/Jwt.thy ===== *)
theory Jwt
  imports UserModel
begin

text \<open>
  The token library the backend calls (\<open>jsonwebtoken\<close>'s \<open>sign\<close> and \<open>verify\<close> with
  HS256, and the \<open>ms\<close> duration parser behind \<open>expiresIn\<close>); it lives outside
  \<open>src/\<close> and is modelled from the spec (section 6: three dot-separated segments,
  header, payload, signature) and the library's documented behaviour.

  \<^item> The payload segment stands for base64url(JSON): the claims are written as
    comma-separated fields with \<open>%\<close>-escapes, so that the segment holds no \<open>.\<close>
    and no \<open>,\<close> and decodes back to the claims (\<open>decode_payload_encode\<close>).
    The header segment is the fixed base64url of \<open>{"alg":"HS256","typ":"JWT"}\<close>.
  \<^item> The signature is HMAC-SHA256 of \<open>header.payload\<close> under the secret, passed as a
    parameter \<open>hmac\<close>; theorems that need its base64url alphabet or its key
    dependence say so in a hypothesis about the one value they use.
  \<^item> \<open>verify\<close> checks in the library's order: token present, three parts, decodable,
    signature present, secret present, signature valid, then expiry
    (\<open>clockTimestamp >= exp\<close> is expired). \<open>TokenExpiredError\<close> is a subclass of
    \<open>JsonWebTokenError\<close>: \<open>instanceof_JsonWebTokenError\<close> holds for both.
  \<^item> \<open>ms\<close>: an integer amount, optional spaces, an optional unit (any case); no unit
    means milliseconds. Fractional and negative amounts, which \<open>ms\<close> also reads, are
    outside the model and rejected.
\<close>

subsection \<open>Claims\<close>

record token_payload =
  tp_userId :: string
  tp_email :: string
  tp_role :: string
  tp_organizationId :: "string option"

record jwt_claims = token_payload +
  jc_iat :: epoch_s
  jc_exp :: epoch_s

subsection \<open>Encoding of the payload segment\<close>

fun pct_esc :: "char \<Rightarrow> string" where
  "pct_esc c =
     (if c = CHR ''%'' then ''%p'' else if c = CHR '','' then ''%c''
      else if c = CHR ''.'' then ''%d'' else [c])"

definition pct_encode :: "string \<Rightarrow> string" where
  "pct_encode s = concat (map pct_esc s)"

definition pct_unesc :: "char \<Rightarrow> char option" where
  "pct_unesc d =
     (if d = CHR ''p'' then Some CHR ''%'' else if d = CHR ''c'' then Some CHR '',''
      else if d = CHR ''d'' then Some CHR ''.'' else None)"

fun pct_decode :: "string \<Rightarrow> string option" where
  "pct_decode [] = Some []"
| "pct_decode [c] = (if c = CHR ''%'' then None else Some [c])"
| "pct_decode (c # d # r) =
     (if c = CHR ''%''
      then (case pct_unesc d of None \<Rightarrow> None | Some e \<Rightarrow> map_option (Cons e) (pct_decode r))
      else map_option (Cons c) (pct_decode (d # r)))"

primrec encode_opt :: "string option \<Rightarrow> string" where
  "encode_opt None = ''-''"
| "encode_opt (Some s) = CHR ''+'' # pct_encode s"

fun decode_opt :: "string \<Rightarrow> string option option" where
  "decode_opt ''-'' = Some None"
| "decode_opt (c # r) = (if c = CHR ''+'' then map_option Some (pct_decode r) else None)"
| "decode_opt [] = None"

definition encode_payload :: "jwt_claims \<Rightarrow> string" where
  "encode_payload c =
     js_join (CHR '','')
       [pct_encode (tp_userId c), pct_encode (tp_email c), pct_encode (tp_role c),
        encode_opt (tp_organizationId c), dec_digits (jc_iat c), dec_digits (jc_exp c)]"

definition decode_payload :: "string \<Rightarrow> jwt_claims option" where
  "decode_payload p =
     (case js_split (CHR '','') p of
        [a, b, c, og, i, e] \<Rightarrow>
          (case (pct_decode a, pct_decode b, pct_decode c, decode_opt og, parse_dec i, parse_dec e) of
             (Some u, Some m, Some r, Some org, Some iat, Some exp) \<Rightarrow>
               Some \<lparr>tp_userId = u, tp_email = m, tp_role = r, tp_organizationId = org,
                     jc_iat = iat, jc_exp = exp\<rparr>
           | _ \<Rightarrow> None)
      | _ \<Rightarrow> None)"

definition jwt_header :: string where
  "jwt_header = ''eyJhbGciOiJIUzI1NiIsInR5cCI6IkpXVCJ9''"

subsection \<open>\<open>ms\<close> and \<open>timespan\<close>\<close>

definition ms_units :: "(string \<times> nat) list" where
  "ms_units =
     [(''milliseconds'', 1), (''millisecond'', 1), (''msecs'', 1), (''msec'', 1), (''ms'', 1),
      (''seconds'', 1000), (''second'', 1000), (''secs'', 1000), (''sec'', 1000), (''s'', 1000),
      (''minutes'', 60000), (''minute'', 60000), (''mins'', 60000), (''min'', 60000), (''m'', 60000),
      (''hours'', 3600000), (''hour'', 3600000), (''hrs'', 3600000), (''hr'', 3600000), (''h'', 3600000),
      (''days'', 86400000), (''day'', 86400000), (''d'', 86400000),
      (''weeks'', 604800000), (''week'', 604800000), (''w'', 604800000),
      (''years'', 31557600000), (''year'', 31557600000), (''yrs'', 31557600000),
      (''yr'', 31557600000), (''y'', 31557600000)]"

definition ms_parse :: "string \<Rightarrow> nat option" where
  "ms_parse s =
     (if 100 < length s then None
      else (let amount = takeWhile is_digit s;
                unit = dropWhile (\<lambda>c. c = CHR '' '') (dropWhile is_digit s)
            in case (parse_dec amount, if unit = [] then Some 1 else map_of ms_units (js_lower unit)) of
                 (Some n, Some k) \<Rightarrow> Some (n * k)
               | _ \<Rightarrow> None))"

definition timespan :: "string \<Rightarrow> epoch_s \<Rightarrow> epoch_s option" where
  "timespan t iat = map_option (\<lambda>ms. iat + ms div 1000) (ms_parse t)"

subsection \<open>\<open>sign\<close> and \<open>verify\<close>\<close>

datatype jwt_error =
    JsonWebTokenError string
  | TokenExpiredError string epoch_s

definition instanceof_JsonWebTokenError :: "jwt_error \<Rightarrow> bool" where
  "instanceof_JsonWebTokenError e = True"

primrec instanceof_TokenExpiredError :: "jwt_error \<Rightarrow> bool" where
  "instanceof_TokenExpiredError (JsonWebTokenError m) = False"
| "instanceof_TokenExpiredError (TokenExpiredError m t) = True"

definition signing_input :: "string \<Rightarrow> string" where
  "signing_input p = jwt_header @ CHR ''.'' # p"

definition jwt_token :: "(string \<Rightarrow> string \<Rightarrow> string) \<Rightarrow> string \<Rightarrow> jwt_claims \<Rightarrow> string" where
  "jwt_token hmac secret c =
     (let p = encode_payload c in signing_input p @ CHR ''.'' # hmac secret (signing_input p))"

definition jwt_sign ::
  "(string \<Rightarrow> string \<Rightarrow> string) \<Rightarrow> token_payload \<Rightarrow> string \<Rightarrow> string \<Rightarrow> epoch_ms \<Rightarrow> app_error + string" where
  "jwt_sign hmac pl secret expiresIn now =
     (if secret = [] then Inl (JsError ''secretOrPrivateKey must have a value'')
      else (let iat = now div 1000 in
            case timespan expiresIn iat of
              None \<Rightarrow> Inl (JsError ''expiresIn should be a number of seconds or string representing a timespan'')
            | Some exp \<Rightarrow>
                Inr (jwt_token hmac secret (token_payload.extend pl \<lparr>jc_iat = iat, jc_exp = exp\<rparr>))))"

definition jwt_verify ::
  "(string \<Rightarrow> string \<Rightarrow> string) \<Rightarrow> string \<Rightarrow> string \<Rightarrow> epoch_ms \<Rightarrow> jwt_error + jwt_claims" where
  "jwt_verify hmac tok secret now =
     (if tok = [] then Inl (JsonWebTokenError ''jwt must be provided'')
      else case js_split (CHR ''.'') tok of
        [h, p, sg] \<Rightarrow>
          (case (if h = jwt_header then decode_payload p else None) of
             None \<Rightarrow> Inl (JsonWebTokenError ''invalid token'')
           | Some c \<Rightarrow>
               if sg = [] then Inl (JsonWebTokenError ''jwt signature is required'')
               else if secret = [] then Inl (JsonWebTokenError ''secret or public key must be provided'')
               else if sg \<noteq> hmac secret (h @ CHR ''.'' # p) then Inl (JsonWebTokenError ''invalid signature'')
               else if jc_exp c \<le> now div 1000 then Inl (TokenExpiredError ''jwt expired'' (jc_exp c))
               else Inr c)
      | _ \<Rightarrow> Inl (JsonWebTokenError ''jwt malformed''))"

subsection \<open>Encoding lemmas\<close>

lemma pct_decode_Cons_plain [simp]:
  "c \<noteq> CHR ''%'' \<Longrightarrow> pct_decode (c # r) = map_option (Cons c) (pct_decode r)"
  by (cases r) auto

lemma pct_encode_simps [simp]:
  "pct_encode [] = []" "pct_encode (c # s) = pct_esc c @ pct_encode s"
  by (simp_all add: pct_encode_def)

lemma pct_decode_encode [simp, model_simps]: "pct_decode (pct_encode s) = Some s"
  by (induction s) (auto simp: pct_unesc_def)

lemma pct_encode_no_punct [simp]:
  "CHR ''.'' \<notin> set (pct_encode s)" "CHR '','' \<notin> set (pct_encode s)"
  by (induction s) auto

lemma decode_opt_encode [simp]: "decode_opt (encode_opt og) = Some og"
  by (cases og) auto

lemma encode_opt_no_punct [simp]:
  "CHR ''.'' \<notin> set (encode_opt og)" "CHR '','' \<notin> set (encode_opt og)"
  by (cases og; simp)+

text \<open>The payload segment decodes back to the claims it encodes, and holds no dot.\<close>

lemma decode_payload_encode [simp, model_simps]: "decode_payload (encode_payload c) = Some c"
  by (simp add: decode_payload_def encode_payload_def js_split_join)

lemma encode_payload_no_dot [simp]: "CHR ''.'' \<notin> set (encode_payload c)"
  by (simp add: encode_payload_def set_js_join)

lemma jwt_header_facts [simp]: "CHR ''.'' \<notin> set jwt_header" "jwt_header \<noteq> []"
  by (simp_all add: jwt_header_def)

subsection \<open>Verification of a signed token\<close>

text \<open>
  A base64url signature is non-empty and holds no dot; \<open>sig_ok\<close> is the hypothesis
  the token theorems put on the one HMAC value they use.
\<close>

definition sig_ok :: "string \<Rightarrow> bool" where
  "sig_ok sg \<longleftrightarrow> sg \<noteq> [] \<and> CHR ''.'' \<notin> set sg"

lemma jwt_token_ne [simp]: "jwt_token hmac k c \<noteq> []"
  by (simp add: jwt_token_def signing_input_def Let_def)

lemma js_split_jwt_token:
  "sig_ok (hmac k (signing_input (encode_payload c))) \<Longrightarrow>
   js_split (CHR ''.'') (jwt_token hmac k c) =
     [jwt_header, encode_payload c, hmac k (signing_input (encode_payload c))]"
  by (simp add: jwt_token_def signing_input_def sig_ok_def Let_def)

lemma jwt_verify_token [model_simps]:
  "secret \<noteq> [] \<Longrightarrow> sig_ok (hmac secret (signing_input (encode_payload c))) \<Longrightarrow>
   jwt_verify hmac (jwt_token hmac secret c) secret now =
     (if jc_exp c \<le> now div 1000 then Inl (TokenExpiredError ''jwt expired'' (jc_exp c)) else Inr c)"
  by (simp add: jwt_verify_def js_split_jwt_token) (auto simp: sig_ok_def jwt_token_def signing_input_def)

lemma jwt_verify_other_secret:
  "secret' \<noteq> [] \<Longrightarrow> sig_ok (hmac secret (signing_input (encode_payload c))) \<Longrightarrow>
   hmac secret' (signing_input (encode_payload c)) \<noteq> hmac secret (signing_input (encode_payload c)) \<Longrightarrow>
   jwt_verify hmac (jwt_token hmac secret c) secret' now = Inl (JsonWebTokenError ''invalid signature'')"
  by (simp add: jwt_verify_def js_split_jwt_token) (auto simp: sig_ok_def jwt_token_def signing_input_def)

lemma jwt_verify_Inr_exp: "jwt_verify hmac tok secret now = Inr c \<Longrightarrow> now div 1000 < jc_exp c"
  by (auto simp: jwt_verify_def split: if_splits list.splits option.splits)

text \<open>
  Soundness of \<open>verify\<close>: a token it accepts under a secret consists of a header
  and a payload that decodes to the returned claims, followed by the HMAC of both under
  that secret, and the claims have not expired. Forging a token thus means computing
  the HMAC without the secret.
\<close>

lemma jwt_verify_sound:
  assumes "jwt_verify hmac tok secret now = Inr c"
  shows "\<exists>p. tok = signing_input p @ CHR ''.'' # hmac secret (signing_input p) \<and>
             decode_payload p = Some c \<and> now div 1000 < jc_exp c"
proof -
  obtain h p sg where sp: "js_split (CHR ''.'') tok = [h, p, sg]"
    using assms by (auto simp: jwt_verify_def split: if_splits list.splits)
  have tok: "tok = h @ CHR ''.'' # p @ CHR ''.'' # sg"
    using js_join_split [of "CHR ''.''" tok] sp by simp
  from assms sp have "h = jwt_header" "decode_payload p = Some c"
      "sg = hmac secret (h @ CHR ''.'' # p)" "now div 1000 < jc_exp c"
    by (auto simp: jwt_verify_def split: if_splits option.splits)
  with tok show ?thesis by (auto simp: signing_input_def)
qed

subsection \<open>Durations\<close>

lemma timespan_24h [model_simps]: "timespan ''24h'' iat = Some (iat + 86400)"
  by (simp add: timespan_def ms_parse_def is_digit_def parse_dec_def js_lower_def
      js_lower_char_def ms_units_def)

text \<open>
  A bare number is read by \<open>ms\<close> as milliseconds: \<open>JWT_EXPIRES_IN=3600\<close> gives a
  token that lives 3 seconds, not an hour.
\<close>

lemma timespan_bare_number:
  assumes "s \<noteq> []" and "list_all is_digit s" and "length s \<le> 100"
  shows "timespan s iat = map_option (\<lambda>n. iat + n div 1000) (parse_dec s)"
proof -
  have t: "takeWhile is_digit s = s" and d: "dropWhile is_digit s = []"
    using assms(2) by (simp_all add: list_all_iff)
  have "\<not> 100 < length s" using assms(3) by simp
  then show ?thesis
    by (simp add: timespan_def ms_parse_def Let_def t d split: option.split)
qed

end
