(* ===== verification/Fixtures.thy ===== *)
theory Fixtures
  imports Store
begin

text \<open>
  Concrete values on which the theorems are instantiated, after the fixtures of
  \<open>src/src/services/__tests__/auth-service.test.ts\<close>: the secret \<open>test-secret\<close>, the
  user \<open>user-123\<close> / \<open>test@example.com\<close> with organisation \<open>org-123\<close>, and a store
  holding that user. \<open>demo_hmac\<close> stands for HMAC-SHA256: like it, its output is
  non-empty, dot-free, and depends on the key.
\<close>

definition demo_hmac :: "string \<Rightarrow> string \<Rightarrow> string" where
  "demo_hmac k m = CHR ''h'' # filter (\<lambda>c. c \<noteq> CHR ''.'') (k @ m)"

definition demo_env :: "string \<Rightarrow> string option" where
  "demo_env v = (if v = ''JWT_SECRET'' then Some ''test-secret'' else None)"

definition demo_rt :: runtime where
  "demo_rt =
     \<lparr>rt_env = demo_env, rt_now = 1700000000000, rt_iso = ''2024-01-01T00:00:00Z'',
      rt_uuid = ''user-456'', rt_bcrypt = (\<lambda>p. ''$2a$12$'' @ p), rt_hmac = demo_hmac\<rparr>"

definition demo_user :: user where
  "demo_user =
     \<lparr>user_id = ''user-123'', email = ''test@example.com'', name = ''Test User'', role = ADMIN,
      createdAt = ''2024-01-01T00:00:00Z'', updatedAt = ''2024-01-01T00:00:00Z'',
      organizationId = Some ''org-123'', password = ''password123''\<rparr>"

definition empty_db :: db where
  "empty_db =
     \<lparr>users = [], monthlyData = None, companyStats = None, developerTrends = None,
      employeeDistribution = None, productPerformance = None, normalsChart = None\<rparr>"

definition demo_sys :: sys where
  "demo_sys = \<lparr>store = empty_db\<lparr>users := [demo_user]\<rparr>, log = [], db_error = None\<rparr>"

definition empty_sys :: sys where
  "empty_sys = \<lparr>store = empty_db, log = [], db_error = None\<rparr>"

definition demo_rt2 :: runtime where
  "demo_rt2 = demo_rt\<lparr>rt_uuid := ''user-789''\<rparr>"

definition body_a :: create_user_body where
  "body_a = \<lparr>cb_email = Some ''a@x.com'', cb_name = Some ''Alice'', cb_password = Some ''longenough1'',
             cb_role = Some ''user''\<rparr>"

definition body_b :: create_user_body where
  "body_b = \<lparr>cb_email = Some ''b@x.com'', cb_name = Some ''Bob'', cb_password = Some ''longenough2'',
             cb_role = Some ''user''\<rparr>"

lemmas fixture_defs = demo_hmac_def demo_env_def demo_rt_def demo_user_def empty_db_def
  demo_sys_def empty_sys_def demo_rt2_def

end
