(* ===== verification/AuthService.thy ===== *)
theory AuthService
  imports UserRepository Jwt Fixtures
begin

text \<open>
  \<open>AuthService\<close> of \<open>src/src/services/auth-service.ts\<close>, the orchestrator that
  composes the credential store (\<open>UserRepository\<close>) and the token library (\<open>Jwt\<close>).
  Each operation takes the runtime and the system state and returns its result
  (\<open>Inl\<close> the thrown error) with the state after its log calls; the \<open>try/catch\<close>
  blocks that log and rethrow are the \<open>log_error\<close> on every \<open>Inl\<close> branch.
  The configuration is read per call: \<open>js_secret\<close> is \<open>process.env.JWT_SECRET\<close>
  under JavaScript truthiness, \<open>expires_in\<close> is \<open>JWT_EXPIRES_IN || '24h'\<close>.
\<close>

record auth_response =
  ar_token :: string
  ar_user :: user_response

definition js_secret :: "runtime \<Rightarrow> string option" where
  "js_secret rt = (case rt_env rt ''JWT_SECRET'' of None \<Rightarrow> None
                   | Some k \<Rightarrow> if k = [] then None else Some k)"

definition expires_in :: "runtime \<Rightarrow> string" where
  "expires_in rt = (case rt_env rt ''JWT_EXPIRES_IN'' of None \<Rightarrow> ''24h''
                    | Some x \<Rightarrow> if x = [] then ''24h'' else x)"

definition user_payload :: "user \<Rightarrow> token_payload" where
  "user_payload u =
     \<lparr>tp_userId = user_id u, tp_email = email u, tp_role = role_value (role u),
      tp_organizationId = organizationId u\<rparr>"

definition generateToken :: "runtime \<Rightarrow> user \<Rightarrow> app_error + string" where
  "generateToken rt u =
     (case js_secret rt of
        None \<Rightarrow> Inl (CustomError ''JWT secret not configured'' 500)
      | Some secret \<Rightarrow> jwt_sign (rt_hmac rt) (user_payload u) secret (expires_in rt) (rt_now rt))"

primrec jwt_error_message :: "jwt_error \<Rightarrow> string" where
  "jwt_error_message (JsonWebTokenError m) = m"
| "jwt_error_message (TokenExpiredError m t) = m"

definition verifyToken :: "runtime \<Rightarrow> string \<Rightarrow> app_error + jwt_claims" where
  "verifyToken rt tok =
     (case js_secret rt of
        None \<Rightarrow> Inl (CustomError ''JWT secret not configured'' 500)
      | Some secret \<Rightarrow>
          (case jwt_verify (rt_hmac rt) tok secret (rt_now rt) of
             Inr c \<Rightarrow> Inr c
           | Inl e \<Rightarrow>
               if instanceof_JsonWebTokenError e then Inl (CustomError ''Invalid token'' 401)
               else if instanceof_TokenExpiredError e then Inl (CustomError ''Token expired'' 401)
               else Inl (JsError (jwt_error_message e))))"

definition login :: "runtime \<Rightarrow> login_input \<Rightarrow> sys \<Rightarrow> (app_error + auth_response) \<times> sys" where
  "login rt li s =
     (let fail = (\<lambda>e. (Inl e, log_error ''Login error:'' e s)) in
      case findByEmail (li_email li) s of
        Inl e \<Rightarrow> fail e
      | Inr None \<Rightarrow> fail (CustomError ''Invalid email or password'' 401)
      | Inr (Some u) \<Rightarrow>
          if \<not> verifyPassword u (li_password li)
          then fail (CustomError ''Invalid email or password'' 401)
          else (case generateToken rt u of
                  Inl e \<Rightarrow> fail e
                | Inr tok \<Rightarrow>
                    (Inr \<lparr>ar_token = tok, ar_user = toUserResponse u\<rparr>,
                     log_info (''User logged in: '' @ email u) s)))"

definition getCurrentUser :: "runtime \<Rightarrow> string \<Rightarrow> sys \<Rightarrow> (app_error + user_response) \<times> sys" where
  "getCurrentUser rt tok s =
     (let fail = (\<lambda>e. (Inl e, log_error ''Get current user error:'' e s)) in
      case verifyToken rt tok of
        Inl e \<Rightarrow> fail e
      | Inr c \<Rightarrow>
          (case findById (tp_userId c) s of
             Inl e \<Rightarrow> fail e
           | Inr None \<Rightarrow> fail (CustomError ''User not found'' 404)
           | Inr (Some u) \<Rightarrow> (Inr (toUserResponse u), s)))"

definition refreshToken :: "runtime \<Rightarrow> string \<Rightarrow> sys \<Rightarrow> (app_error + auth_response) \<times> sys" where
  "refreshToken rt tok s =
     (let fail = (\<lambda>e. (Inl e, log_error ''Refresh token error:'' e s)) in
      case verifyToken rt tok of
        Inl e \<Rightarrow> fail e
      | Inr c \<Rightarrow>
          (case findById (tp_userId c) s of
             Inl e \<Rightarrow> fail e
           | Inr None \<Rightarrow> fail (CustomError ''User not found'' 404)
           | Inr (Some u) \<Rightarrow>
               (case generateToken rt u of
                  Inl e \<Rightarrow> fail e
                | Inr tok' \<Rightarrow>
                    (Inr \<lparr>ar_token = tok', ar_user = toUserResponse u\<rparr>,
                     log_info (''Token refreshed for user: '' @ email u) s))))"

text \<open>The claims \<open>generateToken\<close> signs for a user, issued at \<open>iat\<close>, expiring at \<open>exp\<close>.\<close>

definition user_claims :: "user \<Rightarrow> epoch_s \<Rightarrow> epoch_s \<Rightarrow> jwt_claims" where
  "user_claims u iat exp = token_payload.extend (user_payload u) \<lparr>jc_iat = iat, jc_exp = exp\<rparr>"

text \<open>
  The errors the authentication flow can log, and the log entries that carry no secret:
  a fixed error or the data file's read error under one of the three log messages, or a
  success line naming the e-mail of a stored user.
\<close>

definition auth_errors :: "app_error list" where
  "auth_errors =
     [CustomError ''Invalid email or password'' 401, CustomError ''JWT secret not configured'' 500,
      CustomError ''Invalid token'' 401, CustomError ''User not found'' 404,
      JsError ''secretOrPrivateKey must have a value'',
      JsError ''expiresIn should be a number of seconds or string representing a timespan'']"

primrec secret_free_entry :: "sys \<Rightarrow> log_entry \<Rightarrow> bool" where
  "secret_free_entry s (LogError m e) \<longleftrightarrow>
     m \<in> {''Login error:'', ''Get current user error:'', ''Refresh token error:''} \<and>
     (e \<in> set auth_errors \<or> (\<exists>m. db_error s = Some m \<and> e = JsError m))"
| "secret_free_entry s (LogInfo m) \<longleftrightarrow>
     (\<exists>u \<in> set (users (store s)). m = ''User logged in: '' @ email u \<or> m = ''Token refreshed for user: '' @ email u)"

subsection \<open>Configuration and tokens\<close>

lemma user_claims_sel [simp]:
  "tp_userId (user_claims u i e) = user_id u" "tp_email (user_claims u i e) = email u"
  "tp_role (user_claims u i e) = role_value (role u)"
  "tp_organizationId (user_claims u i e) = organizationId u"
  "jc_iat (user_claims u i e) = i" "jc_exp (user_claims u i e) = e"
  by (simp_all add: user_claims_def user_payload_def token_payload.defs)

lemma js_secret_ne: "js_secret rt = Some k \<Longrightarrow> k \<noteq> []"
  by (auto simp: js_secret_def split: option.splits if_splits)

lemma runtime_config_now [simp]:
  "js_secret (rt\<lparr>rt_now := t\<rparr>) = js_secret rt" "expires_in (rt\<lparr>rt_now := t\<rparr>) = expires_in rt"
  by (simp_all add: js_secret_def expires_in_def)

lemma expires_in_default: "rt_env rt ''JWT_EXPIRES_IN'' = None \<Longrightarrow> expires_in rt = ''24h''"
  by (simp add: expires_in_def)

lemma generateToken_signed:
  "js_secret rt = Some k \<Longrightarrow> timespan (expires_in rt) (rt_now rt div 1000) = Some exp \<Longrightarrow>
   generateToken rt u = Inr (jwt_token (rt_hmac rt) k (user_claims u (rt_now rt div 1000) exp))"
  by (simp add: generateToken_def jwt_sign_def user_claims_def js_secret_ne)

lemma generateToken_default_ttl [model_simps]:
  "js_secret rt = Some k \<Longrightarrow> rt_env rt ''JWT_EXPIRES_IN'' = None \<Longrightarrow>
   generateToken rt u =
     Inr (jwt_token (rt_hmac rt) k (user_claims u (rt_now rt div 1000) (rt_now rt div 1000 + 86400)))"
  by (simp add: generateToken_signed expires_in_default timespan_24h)

lemma generateToken_no_secret [model_simps]:
  "js_secret rt = None \<Longrightarrow> generateToken rt u = Inl (CustomError ''JWT secret not configured'' 500)"
  by (simp add: generateToken_def)

lemma verifyToken_no_secret [model_simps]:
  "js_secret rt = None \<Longrightarrow> verifyToken rt tok = Inl (CustomError ''JWT secret not configured'' 500)"
  by (simp add: verifyToken_def)

lemma verifyToken_signed [model_simps]:
  "js_secret rt = Some k \<Longrightarrow> sig_ok (rt_hmac rt k (signing_input (encode_payload c))) \<Longrightarrow>
   verifyToken rt (jwt_token (rt_hmac rt) k c) =
     (if jc_exp c \<le> rt_now rt div 1000 then Inl (CustomError ''Invalid token'' 401) else Inr c)"
  by (simp add: verifyToken_def jwt_verify_token js_secret_ne instanceof_JsonWebTokenError_def)

lemma verifyToken_Inl_cases:
  "verifyToken rt tok = Inl e \<Longrightarrow>
   e = CustomError ''JWT secret not configured'' 500 \<or> e = CustomError ''Invalid token'' 401"
  by (auto simp: verifyToken_def instanceof_JsonWebTokenError_def split: option.splits sum.splits)

lemma verifyToken_Inr:
  "verifyToken rt tok = Inr c \<Longrightarrow> \<exists>k. js_secret rt = Some k \<and> jwt_verify (rt_hmac rt) tok k (rt_now rt) = Inr c"
  by (auto simp: verifyToken_def instanceof_JsonWebTokenError_def split: option.splits sum.splits)

lemma generateToken_Inl_cases: "generateToken rt u = Inl e \<Longrightarrow> e \<in> set auth_errors"
  by (auto simp: generateToken_def jwt_sign_def auth_errors_def Let_def split: option.splits if_splits)

lemma verifyToken_Inl_auth_errors: "verifyToken rt tok = Inl e \<Longrightarrow> e \<in> set auth_errors"
  using verifyToken_Inl_cases by (auto simp: auth_errors_def)

subsection \<open>The operations on each branch\<close>

lemma login_unknown_email [model_simps]:
  "findByEmail (li_email li) s = Inr None \<Longrightarrow>
   login rt li s = (Inl (CustomError ''Invalid email or password'' 401),
                    log_error ''Login error:'' (CustomError ''Invalid email or password'' 401) s)"
  by (simp add: login_def)

lemma login_wrong_password [model_simps]:
  "findByEmail (li_email li) s = Inr (Some u) \<Longrightarrow> \<not> verifyPassword u (li_password li) \<Longrightarrow>
   login rt li s = (Inl (CustomError ''Invalid email or password'' 401),
                    log_error ''Login error:'' (CustomError ''Invalid email or password'' 401) s)"
  by (simp add: login_def)

lemma login_success [model_simps]:
  "findByEmail (li_email li) s = Inr (Some u) \<Longrightarrow> verifyPassword u (li_password li) \<Longrightarrow>
   generateToken rt u = Inr tok \<Longrightarrow>
   login rt li s = (Inr \<lparr>ar_token = tok, ar_user = toUserResponse u\<rparr>,
                    log_info (''User logged in: '' @ email u) s)"
  by (simp add: login_def)

lemma login_store [simp]: "store (snd (login rt li s)) = store s"
  by (auto simp: login_def Let_def split: option.splits sum.splits)

lemma getCurrentUser_store [simp]: "store (snd (getCurrentUser rt tok s)) = store s"
  by (auto simp: getCurrentUser_def Let_def split: option.splits sum.splits)

lemma refreshToken_store [simp]: "store (snd (refreshToken rt tok s)) = store s"
  by (auto simp: refreshToken_def Let_def split: option.splits sum.splits)

lemma login_default_token:
  assumes "js_secret rt = Some k" and "rt_env rt ''JWT_EXPIRES_IN'' = None"
    and "findByEmail (li_email li) s = Inr (Some u)" and "verifyPassword u (li_password li)"
  shows "fst (login rt li s) =
           Inr \<lparr>ar_token = jwt_token (rt_hmac rt) k
                              (user_claims u (rt_now rt div 1000) (rt_now rt div 1000 + 86400)),
                ar_user = toUserResponse u\<rparr>"
proof -
  have "generateToken rt u =
          Inr (jwt_token (rt_hmac rt) k (user_claims u (rt_now rt div 1000) (rt_now rt div 1000 + 86400)))"
    using assms(1,2) by (rule generateToken_default_ttl)
  with assms(3,4) show ?thesis by (simp add: login_success)
qed

lemma verifyToken_signed_at:
  assumes "js_secret rt = Some k" and "\<forall>m. sig_ok (rt_hmac rt k m)"
  shows "verifyToken (rt\<lparr>rt_now := t\<rparr>) (jwt_token (rt_hmac rt) k c) =
      (if jc_exp c \<le> t div 1000 then Inl (CustomError ''Invalid token'' 401) else Inr c)"
proof -
  have "js_secret (rt\<lparr>rt_now := t\<rparr>) = Some k" using assms(1) by simp
  moreover have "sig_ok (rt_hmac (rt\<lparr>rt_now := t\<rparr>) k (signing_input (encode_payload c)))"
    using assms(2) by simp
  ultimately have "verifyToken (rt\<lparr>rt_now := t\<rparr>) (jwt_token (rt_hmac (rt\<lparr>rt_now := t\<rparr>)) k c) =
      (if jc_exp c \<le> t div 1000 then Inl (CustomError ''Invalid token'' 401) else Inr c)"
    by (subst verifyToken_signed) simp_all
  then show ?thesis by simp
qed

lemma verifyToken_other_secret:
  assumes "js_secret rt = Some k'" and "sig_ok (rt_hmac rt k (signing_input (encode_payload c)))"
    and "rt_hmac rt k' (signing_input (encode_payload c)) \<noteq> rt_hmac rt k (signing_input (encode_payload c))"
  shows "verifyToken rt (jwt_token (rt_hmac rt) k c) = Inl (CustomError ''Invalid token'' 401)"
  using assms js_secret_ne [OF assms(1)]
  by (simp add: verifyToken_def jwt_verify_other_secret instanceof_JsonWebTokenError_def)

lemma getCurrentUser_rejected [model_simps]:
  "verifyToken rt tok = Inl e \<Longrightarrow> getCurrentUser rt tok s = (Inl e, log_error ''Get current user error:'' e s)"
  by (simp add: getCurrentUser_def)

lemma getCurrentUser_verified [model_simps]:
  "verifyToken rt tok = Inr c \<Longrightarrow>
   getCurrentUser rt tok s =
     (case findById (tp_userId c) s of
        Inl e \<Rightarrow> (Inl e, log_error ''Get current user error:'' e s)
      | Inr None \<Rightarrow> (Inl (CustomError ''User not found'' 404),
                 log_error ''Get current user error:'' (CustomError ''User not found'' 404) s)
      | Inr (Some u) \<Rightarrow> (Inr (toUserResponse u), s))"
  by (simp add: getCurrentUser_def split: option.split)

lemma refreshToken_rejected [model_simps]:
  "verifyToken rt tok = Inl e \<Longrightarrow> refreshToken rt tok s = (Inl e, log_error ''Refresh token error:'' e s)"
  by (simp add: refreshToken_def)

lemma refreshToken_verified [model_simps]:
  "verifyToken rt tok = Inr c \<Longrightarrow> findById (tp_userId c) s = Inr (Some u) \<Longrightarrow> generateToken rt u = Inr tok' \<Longrightarrow>
   refreshToken rt tok s = (Inr \<lparr>ar_token = tok', ar_user = toUserResponse u\<rparr>,
                            log_info (''Token refreshed for user: '' @ email u) s)"
  by (simp add: refreshToken_def)

subsection \<open>Properties of the authentication flow\<close>

text \<open>
  C1. Login issues a verifiable token: when the e-mail resolves to a user and the password
  check passes, \<open>login\<close> returns a token and the user's public view; the token carries
  the user's id, e-mail and role, expires 24 hours (86400 s) after issue under the default
  configuration, and \<open>verifyToken\<close> at any time \<open>t\<close> returns exactly these claims
  before the expiry and rejects the token with \<open>Invalid token\<close> (401) from then on.
\<close>

theorem login_issues_verifiable_token:
  assumes "js_secret rt = Some k" and "rt_env rt ''JWT_EXPIRES_IN'' = None"
    and "\<forall>m. sig_ok (rt_hmac rt k m)"
    and "findByEmail (li_email li) s = Inr (Some u)" and "verifyPassword u (li_password li)"
  shows "\<exists>tok c. fst (login rt li s) = Inr \<lparr>ar_token = tok, ar_user = toUserResponse u\<rparr> \<and>
           tp_userId c = user_id u \<and> tp_email c = email u \<and> tp_role c = role_value (role u) \<and>
           jc_exp c = rt_now rt div 1000 + 86400 \<and>
           (\<forall>t. verifyToken (rt\<lparr>rt_now := t\<rparr>) tok =
                  (if rt_now rt div 1000 + 86400 \<le> t div 1000
                   then Inl (CustomError ''Invalid token'' 401) else Inr c))"
proof -
  let ?c = "user_claims u (rt_now rt div 1000) (rt_now rt div 1000 + 86400)"
  have l: "fst (login rt li s) = Inr \<lparr>ar_token = jwt_token (rt_hmac rt) k ?c, ar_user = toUserResponse u\<rparr>"
    using assms(1,2,4,5) by (rule login_default_token)
  have v: "\<forall>t. verifyToken (rt\<lparr>rt_now := t\<rparr>) (jwt_token (rt_hmac rt) k ?c) =
      (if rt_now rt div 1000 + 86400 \<le> t div 1000 then Inl (CustomError ''Invalid token'' 401) else Inr ?c)"
    using verifyToken_signed_at [OF assms(1,3)] by simp
  show ?thesis
    by (rule exI [of _ "jwt_token (rt_hmac rt) k ?c"], rule exI [of _ ?c]) (simp add: l v)
qed

lemma demo_config:
  "js_secret demo_rt = Some ''test-secret''" "rt_env demo_rt ''JWT_EXPIRES_IN'' = None"
  "\<forall>m. sig_ok (rt_hmac demo_rt ''test-secret'' m)"
  by (simp_all add: fixture_defs js_secret_def sig_ok_def)

lemma demo_find_email: "findByEmail ''test@example.com'' demo_sys = Inr (Some demo_user)"
  by (simp add: fixture_defs findByEmail_def readDB_def js_lower_def js_lower_char_def)

lemma demo_find_id: "findById ''user-123'' demo_sys = Inr (Some demo_user)"
  by (simp add: fixture_defs findById_def readDB_def)

lemma login_issues_verifiable_token_witness:
  "\<exists>tok c. fst (login demo_rt \<lparr>li_email = ''test@example.com'', li_password = ''password123''\<rparr> demo_sys) =
       Inr \<lparr>ar_token = tok, ar_user = toUserResponse demo_user\<rparr> \<and>
     tp_userId c = user_id demo_user \<and> tp_email c = email demo_user \<and>
     tp_role c = role_value (role demo_user) \<and> jc_exp c = rt_now demo_rt div 1000 + 86400 \<and>
     (\<forall>t. verifyToken (demo_rt\<lparr>rt_now := t\<rparr>) tok =
            (if rt_now demo_rt div 1000 + 86400 \<le> t div 1000
             then Inl (CustomError ''Invalid token'' 401) else Inr c))"
proof -
  have f: "findByEmail (li_email \<lparr>li_email = ''test@example.com'', li_password = ''password123''\<rparr>) demo_sys = Inr (Some demo_user)"
    using demo_find_email by simp
  have p: "verifyPassword demo_user (li_password \<lparr>li_email = ''test@example.com'', li_password = ''password123''\<rparr>)"
    by (simp add: verifyPassword_def demo_user_def)
  show ?thesis by (rule login_issues_verifiable_token [OF demo_config(1,2,3) f p])
qed

text \<open>
  C2. The \<open>Token expired\<close> branch of \<open>verifyToken\<close> is dead: \<open>TokenExpiredError\<close>
  is an instance of \<open>JsonWebTokenError\<close>, which the first \<open>instanceof\<close> test catches,
  so no token, expired or not, is ever answered with \<open>Token expired\<close>; an expired token
  gets \<open>Invalid token\<close>, like a forged one.
\<close>

theorem verifyToken_never_token_expired:
  "verifyToken rt tok \<noteq> Inl (CustomError ''Token expired'' 401)"
  using verifyToken_Inl_cases [of rt tok] by auto

text \<open>
  C3. Refreshing a token signed with a different secret fails with \<open>Invalid token\<close>
  (401): no new token is issued, the store is untouched and the failure is logged.
\<close>

theorem refreshToken_other_secret:
  assumes "js_secret rt = Some k'" and "sig_ok (rt_hmac rt k (signing_input (encode_payload c)))"
    and "rt_hmac rt k' (signing_input (encode_payload c)) \<noteq> rt_hmac rt k (signing_input (encode_payload c))"
  shows "refreshToken rt (jwt_token (rt_hmac rt) k c) s =
           (Inl (CustomError ''Invalid token'' 401),
            log_error ''Refresh token error:'' (CustomError ''Invalid token'' 401) s)"
  using verifyToken_other_secret [OF assms] by (rule refreshToken_rejected)

lemma refreshToken_other_secret_witness:
  "refreshToken demo_rt (jwt_token demo_hmac ''other-secret'' (user_claims demo_user 1700000000 1700086400)) demo_sys =
     (Inl (CustomError ''Invalid token'' 401),
      log_error ''Refresh token error:'' (CustomError ''Invalid token'' 401) demo_sys)"
proof -
  have "sig_ok (rt_hmac demo_rt ''other-secret'' (signing_input (encode_payload (user_claims demo_user 1700000000 1700086400))))"
    by (simp add: fixture_defs sig_ok_def)
  moreover have "rt_hmac demo_rt ''test-secret'' (signing_input (encode_payload (user_claims demo_user 1700000000 1700086400))) \<noteq>
      rt_hmac demo_rt ''other-secret'' (signing_input (encode_payload (user_claims demo_user 1700000000 1700086400)))"
    by (simp add: fixture_defs)
  ultimately show ?thesis
    using refreshToken_other_secret [OF demo_config(1)] by (simp add: demo_rt_def)
qed

text \<open>
  C4. Login does not reveal which half of the credentials was wrong: an unknown e-mail
  and a known e-mail with a wrong password give the same error (\<open>Invalid email or
  password\<close>, 401), append the same log entry, and leave the store as it was.
\<close>

theorem login_non_enumeration:
  assumes "findByEmail (li_email a) s = Inr None"
    and "findByEmail (li_email b) s' = Inr (Some u)" and "\<not> verifyPassword u (li_password b)"
  shows "fst (login rt a s) = fst (login rt' b s') \<and>
         log (snd (login rt a s)) = log s @ [LogError ''Login error:'' (CustomError ''Invalid email or password'' 401)] \<and>
         log (snd (login rt' b s')) = log s' @ [LogError ''Login error:'' (CustomError ''Invalid email or password'' 401)] \<and>
         store (snd (login rt a s)) = store s \<and> store (snd (login rt' b s')) = store s'"
  using login_unknown_email [OF assms(1)] login_wrong_password [OF assms(2,3)] by simp

lemma login_non_enumeration_witness:
  "fst (login demo_rt \<lparr>li_email = ''nobody@example.com'', li_password = ''password123''\<rparr> demo_sys) =
   fst (login demo_rt \<lparr>li_email = ''test@example.com'', li_password = ''wrong''\<rparr> demo_sys)"
proof -
  have "findByEmail ''nobody@example.com'' demo_sys = Inr None"
    by (simp add: fixture_defs findByEmail_def readDB_def js_lower_def js_lower_char_def)
  moreover have "\<not> verifyPassword demo_user ''wrong''"
    by (simp add: verifyPassword_def demo_user_def)
  ultimately show ?thesis
    using login_non_enumeration [of "\<lparr>li_email = ''nobody@example.com'', li_password = ''password123''\<rparr>"
        demo_sys "\<lparr>li_email = ''test@example.com'', li_password = ''wrong''\<rparr>" demo_sys demo_user demo_rt demo_rt]
      demo_find_email by simp
qed

text \<open>
  C5. A still-valid token whose user no longer resolves (a deleted account) makes
  \<open>getCurrentUser\<close> fail with \<open>User not found\<close> (404), logged, store unchanged.
\<close>

theorem getCurrentUser_deleted_user:
  assumes "verifyToken rt tok = Inr c" and "findById (tp_userId c) s = Inr None"
  shows "getCurrentUser rt tok s =
           (Inl (CustomError ''User not found'' 404),
            log_error ''Get current user error:'' (CustomError ''User not found'' 404) s)"
  using assms by (simp add: getCurrentUser_verified)

lemma getCurrentUser_deleted_user_witness:
  "getCurrentUser demo_rt (jwt_token demo_hmac ''test-secret'' (user_claims demo_user 1700000000 1700086400)) empty_sys =
     (Inl (CustomError ''User not found'' 404),
      log_error ''Get current user error:'' (CustomError ''User not found'' 404) empty_sys)"
proof -
  have "verifyToken demo_rt (jwt_token (rt_hmac demo_rt) ''test-secret'' (user_claims demo_user 1700000000 1700086400)) =
        Inr (user_claims demo_user 1700000000 1700086400)"
    using verifyToken_signed_at [OF demo_config(1,3), of "rt_now demo_rt"] by (simp add: demo_rt_def)
  moreover have "findById (tp_userId (user_claims demo_user 1700000000 1700086400)) empty_sys = Inr None"
    by (simp add: fixture_defs findById_def readDB_def)
  ultimately show ?thesis
    using getCurrentUser_deleted_user by (simp add: demo_rt_def)
qed

text \<open>
  C6. Refreshing a still-valid token whose user exists re-issues a token for that user,
  with a fresh expiry 24 hours after the refresh, and logs the refresh.
\<close>

theorem refreshToken_reissues:
  assumes "js_secret rt = Some k" and "rt_env rt ''JWT_EXPIRES_IN'' = None"
    and "\<forall>m. sig_ok (rt_hmac rt k m)" and "rt_now rt div 1000 < jc_exp c"
    and "findById (tp_userId c) s = Inr (Some u)"
  shows "refreshToken rt (jwt_token (rt_hmac rt) k c) s =
           (Inr \<lparr>ar_token = jwt_token (rt_hmac rt) k
                              (user_claims u (rt_now rt div 1000) (rt_now rt div 1000 + 86400)),
                 ar_user = toUserResponse u\<rparr>,
            log_info (''Token refreshed for user: '' @ email u) s)"
proof -
  have "verifyToken rt (jwt_token (rt_hmac rt) k c) = Inr c"
    using verifyToken_signed_at [OF assms(1,3), of "rt_now rt" c] assms(4) by simp
  moreover have "generateToken rt u =
      Inr (jwt_token (rt_hmac rt) k (user_claims u (rt_now rt div 1000) (rt_now rt div 1000 + 86400)))"
    using assms(1,2) by (rule generateToken_default_ttl)
  ultimately show ?thesis using assms(5) by (simp add: refreshToken_verified)
qed

lemma refreshToken_reissues_witness:
  "refreshToken demo_rt (jwt_token demo_hmac ''test-secret'' (user_claims demo_user 1699990000 1700076400)) demo_sys =
     (Inr \<lparr>ar_token = jwt_token demo_hmac ''test-secret'' (user_claims demo_user 1700000000 1700086400),
           ar_user = toUserResponse demo_user\<rparr>,
      log_info ''Token refreshed for user: test@example.com'' demo_sys)"
proof -
  have "findById (tp_userId (user_claims demo_user 1699990000 1700076400)) demo_sys = Inr (Some demo_user)"
    using demo_find_id by (simp add: demo_user_def)
  moreover have "rt_now demo_rt div 1000 < jc_exp (user_claims demo_user 1699990000 1700076400)"
    by (simp add: demo_rt_def)
  ultimately show ?thesis
    using refreshToken_reissues [OF demo_config(1,2,3)] by (simp add: demo_rt_def demo_user_def)
qed

text \<open>
  C7. There is no grace period: a token at or past its expiry cannot be refreshed; the
  refresh fails with \<open>Invalid token\<close> (401) and issues nothing.
\<close>

theorem refreshToken_expired_rejected:
  assumes "js_secret rt = Some k" and "sig_ok (rt_hmac rt k (signing_input (encode_payload c)))"
    and "jc_exp c \<le> rt_now rt div 1000"
  shows "refreshToken rt (jwt_token (rt_hmac rt) k c) s =
           (Inl (CustomError ''Invalid token'' 401),
            log_error ''Refresh token error:'' (CustomError ''Invalid token'' 401) s)"
  using verifyToken_signed [OF assms(1,2)] assms(3) by (simp add: refreshToken_rejected)

lemma refreshToken_expired_rejected_witness:
  "refreshToken demo_rt (jwt_token demo_hmac ''test-secret'' (user_claims demo_user 1699900000 1699986400)) demo_sys =
     (Inl (CustomError ''Invalid token'' 401),
      log_error ''Refresh token error:'' (CustomError ''Invalid token'' 401) demo_sys)"
proof -
  have "sig_ok (rt_hmac demo_rt ''test-secret'' (signing_input (encode_payload (user_claims demo_user 1699900000 1699986400))))"
    using demo_config(3) by simp
  moreover have "jc_exp (user_claims demo_user 1699900000 1699986400) \<le> rt_now demo_rt div 1000"
    by (simp add: demo_rt_def)
  ultimately show ?thesis
    using refreshToken_expired_rejected [OF demo_config(1)] by (simp add: demo_rt_def)
qed

text \<open>
  C8. Without a configured signing secret (absent or empty \<open>JWT_SECRET\<close>), a login
  with correct credentials fails with the operator-facing \<open>JWT secret not configured\<close>
  (500) instead of issuing a token.
\<close>

theorem login_requires_secret:
  assumes "js_secret rt = None"
    and "findByEmail (li_email li) s = Inr (Some u)" and "verifyPassword u (li_password li)"
  shows "login rt li s =
           (Inl (CustomError ''JWT secret not configured'' 500),
            log_error ''Login error:'' (CustomError ''JWT secret not configured'' 500) s)"
  using assms by (simp add: login_def generateToken_no_secret)

lemma login_requires_secret_witness:
  "login (demo_rt\<lparr>rt_env := (\<lambda>v. if v = ''JWT_SECRET'' then Some [] else None)\<rparr>)
     \<lparr>li_email = ''test@example.com'', li_password = ''password123''\<rparr> demo_sys =
   (Inl (CustomError ''JWT secret not configured'' 500),
    log_error ''Login error:'' (CustomError ''JWT secret not configured'' 500) demo_sys)"
proof -
  have "js_secret (demo_rt\<lparr>rt_env := (\<lambda>v. if v = ''JWT_SECRET'' then Some [] else None)\<rparr>) = None"
    by (simp add: js_secret_def)
  moreover have "verifyPassword demo_user ''password123''"
    by (simp add: verifyPassword_def demo_user_def)
  ultimately show ?thesis
    using login_requires_secret demo_find_email by simp
qed

text \<open>
  C13. \<open>JWT_EXPIRES_IN\<close> holding a bare number is read as milliseconds: the token
  \<open>generateToken\<close> issues expires \<open>n div 1000\<close> seconds after issue, so
  \<open>JWT_EXPIRES_IN=3600\<close> yields a token that lives 3 seconds.
\<close>

theorem generateToken_numeric_ttl:
  assumes "js_secret rt = Some k" and "rt_env rt ''JWT_EXPIRES_IN'' = Some x"
    and "x \<noteq> []" and "list_all is_digit x" and "length x \<le> 100" and "parse_dec x = Some n"
  shows "generateToken rt u =
           Inr (jwt_token (rt_hmac rt) k (user_claims u (rt_now rt div 1000) (rt_now rt div 1000 + n div 1000)))"
proof -
  have "expires_in rt = x" using assms(2,3) by (simp add: expires_in_def)
  moreover have "timespan x (rt_now rt div 1000) = Some (rt_now rt div 1000 + n div 1000)"
    using timespan_bare_number [OF assms(3,4,5)] assms(6) by simp
  ultimately show ?thesis using assms(1) by (simp add: generateToken_signed)
qed

lemma generateToken_numeric_ttl_witness:
  "generateToken (demo_rt\<lparr>rt_env := (\<lambda>v. if v = ''JWT_SECRET'' then Some ''test-secret''
                                    else if v = ''JWT_EXPIRES_IN'' then Some ''3600'' else None)\<rparr>) demo_user =
   Inr (jwt_token demo_hmac ''test-secret'' (user_claims demo_user 1700000000 1700000003))"
proof -
  let ?rt = "demo_rt\<lparr>rt_env := (\<lambda>v. if v = ''JWT_SECRET'' then Some ''test-secret''
                                    else if v = ''JWT_EXPIRES_IN'' then Some ''3600'' else None)\<rparr>"
  have "js_secret ?rt = Some ''test-secret''" by (simp add: js_secret_def)
  moreover have "list_all is_digit ''3600''" "parse_dec ''3600'' = Some 3600"
    by (simp_all add: is_digit_def parse_dec_def)
  ultimately show ?thesis
    using generateToken_numeric_ttl [of ?rt "''test-secret''" "''3600''" 3600 demo_user]
    by (simp add: demo_rt_def)
qed


end
