(* ===== verification/Middleware.thy ===== *)
theory Middleware
  imports AuthService
begin

text \<open>
  The Express middleware of \<open>src/src/libs/auth-middleware.ts\<close>. A request carries its
  \<open>Authorization\<close> header and the \<open>req.user\<close> slot the middleware fills with the
  verified claims; a middleware ends either in \<open>next()\<close> with the (updated) request or
  in \<open>next(error)\<close>. The token is \<open>authHeader.split(' ')[1]\<close> under JavaScript
  truthiness (\<open>header_token\<close>); the scheme word before it is not inspected.
\<close>

record request =
  authorization :: "string option"
  req_user :: "jwt_claims option"

datatype mw_outcome = Next request | NextError app_error

definition header_token :: "string option \<Rightarrow> string option" where
  "header_token h =
     (case h of
        None \<Rightarrow> None
      | Some a \<Rightarrow> (case js_split (CHR '' '') a of
                    _ # t # _ \<Rightarrow> if t = [] then None else Some t
                  | _ \<Rightarrow> None))"

definition authenticateToken :: "runtime \<Rightarrow> request \<Rightarrow> mw_outcome" where
  "authenticateToken rt req =
     (case header_token (authorization req) of
        None \<Rightarrow> NextError (CustomError ''Access token required'' 401)
      | Some t \<Rightarrow>
          (case verifyToken rt t of
             Inl e \<Rightarrow> NextError e
           | Inr c \<Rightarrow> Next (req\<lparr>req_user := Some c\<rparr>)))"

definition requireRole :: "string \<Rightarrow> request \<Rightarrow> mw_outcome" where
  "requireRole r req =
     (case req_user req of
        None \<Rightarrow> NextError (CustomError ''Authentication required'' 401)
      | Some c \<Rightarrow>
          if tp_role c \<noteq> r then NextError (CustomError ''Insufficient permissions'' 403)
          else Next req)"

definition requireAnyRole :: "string list \<Rightarrow> request \<Rightarrow> mw_outcome" where
  "requireAnyRole rs req =
     (case req_user req of
        None \<Rightarrow> NextError (CustomError ''Authentication required'' 401)
      | Some c \<Rightarrow>
          if tp_role c \<notin> set rs then NextError (CustomError ''Insufficient permissions'' 403)
          else Next req)"

definition optionalAuth :: "runtime \<Rightarrow> request \<Rightarrow> mw_outcome" where
  "optionalAuth rt req =
     (case header_token (authorization req) of
        None \<Rightarrow> Next req
      | Some t \<Rightarrow>
          (case verifyToken rt t of
             Inl e \<Rightarrow> Next req
           | Inr c \<Rightarrow> Next (req\<lparr>req_user := Some c\<rparr>)))"

text \<open>Running a middleware and then the next one, as Express chains them.\<close>

definition mw_then :: "mw_outcome \<Rightarrow> (request \<Rightarrow> mw_outcome) \<Rightarrow> mw_outcome" where
  "mw_then r f = (case r of Next req \<Rightarrow> f req | NextError e \<Rightarrow> NextError e)"

subsection \<open>Lemmas\<close>

lemma header_token_scheme [model_simps]:
  "CHR '' '' \<notin> set w \<Longrightarrow> CHR '' '' \<notin> set t \<Longrightarrow> t \<noteq> [] \<Longrightarrow>
   header_token (Some (w @ CHR '' '' # t)) = Some t"
  by (simp add: header_token_def)

lemma header_token_Some:
  assumes "header_token h = Some t"
  shows "t \<noteq> [] \<and> CHR '' '' \<notin> set t"
proof -
  obtain a w ws where "h = Some a" "js_split (CHR '' '') a = w # t # ws" "t \<noteq> []"
    using assms by (auto simp: header_token_def split: option.splits list.splits if_splits)
  then have "t \<in> set (js_split (CHR '' '') a)" by simp
  then show ?thesis using \<open>t \<noteq> []\<close> by (auto dest: js_split_pieces)
qed

lemma authenticateToken_Next_iff:
  "authenticateToken rt req = Next req' \<longleftrightarrow>
   (\<exists>t c. header_token (authorization req) = Some t \<and> verifyToken rt t = Inr c \<and>
          req' = req\<lparr>req_user := Some c\<rparr>)"
  by (auto simp: authenticateToken_def split: option.splits sum.splits)

lemma authenticateToken_NextError:
  "authenticateToken rt req = NextError e \<Longrightarrow>
   e = CustomError ''Access token required'' 401 \<or>
   e = CustomError ''JWT secret not configured'' 500 \<or> e = CustomError ''Invalid token'' 401"
  by (auto simp: authenticateToken_def split: option.splits sum.splits dest: verifyToken_Inl_cases)

lemma optionalAuth_Next: "\<exists>req'. optionalAuth rt req = Next req'"
  by (simp add: optionalAuth_def split: option.split sum.split)

subsection \<open>Properties of the middleware\<close>

text \<open>
  C14. A request that passes \<open>authenticateToken\<close> and then \<open>requireRole r\<close> carried a
  token made of a payload decoding to the attached claims and the HMAC of header and
  payload under the configured secret; the claims have not expired and name role \<open>r\<close>,
  and they are what the request passes on in \<open>req.user\<close>.
\<close>

theorem role_admission_requires_signed_token:
  assumes "mw_then (authenticateToken rt req) (requireRole r) = Next req'"
  shows "\<exists>t c k p. header_token (authorization req) = Some t \<and> js_secret rt = Some k \<and>
           t = signing_input p @ CHR ''.'' # rt_hmac rt k (signing_input p) \<and>
           decode_payload p = Some c \<and> rt_now rt div 1000 < jc_exp c \<and> tp_role c = r \<and>
           req' = req\<lparr>req_user := Some c\<rparr>"
proof -
  obtain req1 where a: "authenticateToken rt req = Next req1" and rr: "requireRole r req1 = Next req'"
    using assms by (auto simp: mw_then_def split: mw_outcome.splits)
  then obtain t c where t: "header_token (authorization req) = Some t" and v: "verifyToken rt t = Inr c"
      and req1: "req1 = req\<lparr>req_user := Some c\<rparr>"
    by (auto simp: authenticateToken_Next_iff)
  from rr req1 have role: "tp_role c = r" and req': "req' = req1"
    by (auto simp: requireRole_def split: if_splits)
  obtain k where k: "js_secret rt = Some k" and jv: "jwt_verify (rt_hmac rt) t k (rt_now rt) = Inr c"
    using verifyToken_Inr [OF v] by blast
  obtain p where "t = signing_input p @ CHR ''.'' # rt_hmac rt k (signing_input p)"
      "decode_payload p = Some c" "rt_now rt div 1000 < jc_exp c"
    using jwt_verify_sound [OF jv] by blast
  with t k role req' req1 show ?thesis by blast
qed

lemma demo_admin_token:
  "verifyToken demo_rt (jwt_token demo_hmac ''test-secret'' (user_claims demo_user 1700000000 1700086400)) =
   Inr (user_claims demo_user 1700000000 1700086400)"
  using verifyToken_signed_at [OF demo_config(1,3), of "rt_now demo_rt"] by (simp add: demo_rt_def)

lemma role_admission_requires_signed_token_witness:
  "\<exists>t c k p. header_token (Some (''Bearer '' @ jwt_token demo_hmac ''test-secret'' (user_claims demo_user 1700000000 1700086400))) = Some t \<and>
     js_secret demo_rt = Some k \<and> t = signing_input p @ CHR ''.'' # rt_hmac demo_rt k (signing_input p) \<and>
     decode_payload p = Some c \<and> rt_now demo_rt div 1000 < jc_exp c \<and> tp_role c = ''admin'' \<and>
     \<lparr>authorization = Some (''Bearer '' @ jwt_token demo_hmac ''test-secret'' (user_claims demo_user 1700000000 1700086400)),
      req_user = Some (user_claims demo_user 1700000000 1700086400)\<rparr> =
     \<lparr>authorization = Some (''Bearer '' @ jwt_token demo_hmac ''test-secret'' (user_claims demo_user 1700000000 1700086400)),
      req_user = None\<rparr>\<lparr>req_user := Some c\<rparr>"
proof -
  let ?tok = "jwt_token demo_hmac ''test-secret'' (user_claims demo_user 1700000000 1700086400)"
  let ?req = "\<lparr>authorization = Some (''Bearer '' @ ?tok), req_user = None\<rparr>"
  have "CHR '' '' \<notin> set ?tok"
    by (simp add: jwt_token_def signing_input_def jwt_header_def demo_hmac_def Let_def encode_payload_def
        set_js_join demo_user_def pct_encode_def)
  then have h: "header_token (authorization ?req) = Some ?tok"
    using header_token_scheme [of "''Bearer''" ?tok] by simp
  have "authenticateToken demo_rt ?req = Next (?req\<lparr>req_user := Some (user_claims demo_user 1700000000 1700086400)\<rparr>)"
    using h demo_admin_token by (simp add: authenticateToken_def)
  then have "mw_then (authenticateToken demo_rt ?req) (requireRole ''admin'') =
             Next (?req\<lparr>req_user := Some (user_claims demo_user 1700000000 1700086400)\<rparr>)"
    by (simp add: mw_then_def requireRole_def demo_user_def)
  from role_admission_requires_signed_token [OF this] show ?thesis by simp
qed

text \<open>
  C15. \<open>optionalAuth\<close> never fails a request: it always calls \<open>next()\<close>, with the
  header untouched and \<open>req.user\<close> either as it was or set to claims the token verifies to.
\<close>

theorem optionalAuth_never_fails:
  "\<exists>req'. optionalAuth rt req = Next req' \<and> authorization req' = authorization req \<and>
     (req_user req' = req_user req \<or>
      (\<exists>t c. header_token (authorization req) = Some t \<and> verifyToken rt t = Inr c \<and> req_user req' = Some c))"
  by (auto simp: optionalAuth_def split: option.split sum.split)

text \<open>
  C16. The authentication scheme is not checked: a header \<open>Basic <token>\<close> is treated
  exactly like \<open>Bearer <token>\<close> (any one word before the space would do).
\<close>

theorem authenticateToken_ignores_scheme:
  assumes "CHR '' '' \<notin> set t" and "t \<noteq> []"
  shows "authenticateToken rt \<lparr>authorization = Some (''Basic '' @ t), req_user = u\<rparr> =
         mw_then (authenticateToken rt \<lparr>authorization = Some (''Bearer '' @ t), req_user = u\<rparr>)
                 (\<lambda>r. Next (r\<lparr>authorization := Some (''Basic '' @ t)\<rparr>))"
proof -
  have "header_token (Some (''Basic '' @ t)) = Some t" "header_token (Some (''Bearer '' @ t)) = Some t"
    using assms header_token_scheme [of "''Basic''" t] header_token_scheme [of "''Bearer''" t] by simp_all
  then show ?thesis
    by (simp add: authenticateToken_def mw_then_def split: sum.split)
qed

lemma authenticateToken_ignores_scheme_witness:
  "authenticateToken demo_rt \<lparr>authorization = Some (''Basic '' @ ''abc''), req_user = None\<rparr> =
   mw_then (authenticateToken demo_rt \<lparr>authorization = Some (''Bearer '' @ ''abc''), req_user = None\<rparr>)
           (\<lambda>r. Next (r\<lparr>authorization := Some (''Basic '' @ ''abc'')\<rparr>))"
  by (rule authenticateToken_ignores_scheme) simp_all

text \<open>
  C31. \<open>requireRole r\<close> behaves exactly as \<open>requireAnyRole [r]\<close>, and
  \<open>requireAnyRole rs\<close> passes a request on, unchanged, exactly when it carries verified
  claims whose role is one of \<open>rs\<close>.
\<close>

theorem requireRole_is_requireAnyRole:
  "requireRole r = requireAnyRole [r] \<and>
   (requireAnyRole rs req = Next req' \<longleftrightarrow> (\<exists>c. req_user req = Some c \<and> tp_role c \<in> set rs) \<and> req' = req)"
  by (auto simp: requireRole_def requireAnyRole_def fun_eq_iff split: option.splits)

end
