(* ===== verification/Routes.thy ===== *)
theory Routes
  imports Middleware
begin

text \<open>
  The authentication routes of \<open>src/src/handlers/auth-routes.ts\<close> and the HTTP
  responses they produce. Each route is a function of the runtime, the request (its
  body or its \<open>Authorization\<close> header) and the system state, returning the response
  and the state after it. \<open>asyncHandler\<close> forwards a thrown error to the
  error-handling middleware; that middleware lives in \<open>libs/error-handler\<close>, which is
  not in the repository, and is modelled from the spec (section 7): a \<open>CustomError\<close>
  answers with its own status and message, a validation error with 400, anything else
  (a failed read of the data file included) with 500.
\<close>

datatype json_body =
    JUser user_response            \<comment> \<open>\<open>{ user: ... }\<close>\<close>
  | JUserFields user_response      \<comment> \<open>\<open>{ ...user }\<close>\<close>
  | JAuth auth_response            \<comment> \<open>\<open>{ token, user }\<close>\<close>
  | JError string                  \<comment> \<open>\<open>{ error: message }\<close>\<close>
  | JIssues "string list"          \<comment> \<open>a validation error's issues\<close>
  | JMonthlyData "monthly_data list"                   \<comment> \<open>\<open>{ data }\<close> of a stats route\<close>
  | JCompanyStats "company_stats list"
  | JDeveloperTrends "developer_trends list"
  | JEmployeeDistribution "employee_distribution list"
  | JProductPerformance "product_performance list"
  | JNormalsChart "normals_chart list"
  | JAllStats all_stats

record response =
  status :: nat
  body :: json_body

definition error_response :: "app_error \<Rightarrow> response" where
  "error_response e =
     (case e of
        CustomError m st \<Rightarrow> \<lparr>status = st, body = JError m\<rparr>
      | ZodError is \<Rightarrow> \<lparr>status = 400, body = JIssues is\<rparr>
      | JsError m \<Rightarrow> \<lparr>status = 500, body = JError ''Internal server error''\<rparr>)"

definition route_register :: "runtime \<Rightarrow> create_user_body \<Rightarrow> sys \<Rightarrow> response \<times> sys" where
  "route_register rt b s =
     (case createUserSchema_parse b of
        Inl e \<Rightarrow> (error_response e, s)
      | Inr v \<Rightarrow>
          (case findByEmail (cr_email v) s of
             Inl e \<Rightarrow> (error_response e, s)
           | Inr (Some _) \<Rightarrow> (error_response (CustomError ''Email already registered'' 409), s)
           | Inr None \<Rightarrow>
               (case createUser rt v s of
                  (Inl e, s') \<Rightarrow> (error_response e, s')
                | (Inr u, s') \<Rightarrow> (\<lparr>status = 201, body = JUser (toUserResponse u)\<rparr>, s'))))"

definition route_login :: "runtime \<Rightarrow> login_body \<Rightarrow> sys \<Rightarrow> response \<times> sys" where
  "route_login rt b s =
     (case loginSchema_parse b of
        Inl e \<Rightarrow> (error_response e, s)
      | Inr v \<Rightarrow>
          (case login rt v s of
             (Inl e, s') \<Rightarrow> (error_response e, s')
           | (Inr r, s') \<Rightarrow> (\<lparr>status = 200, body = JAuth r\<rparr>, s')))"

definition me_handler :: "runtime \<Rightarrow> request \<Rightarrow> sys \<Rightarrow> response \<times> sys" where
  "me_handler rt req s =
     (case authorization req of
        None \<Rightarrow> (\<lparr>status = 401, body = JError ''Authorization header required''\<rparr>, s)
      | Some h \<Rightarrow>
          (case header_token (Some h) of
             None \<Rightarrow> (\<lparr>status = 401, body = JError ''Token required''\<rparr>, s)
           | Some t \<Rightarrow>
               (case getCurrentUser rt t s of
                  (Inl e, s') \<Rightarrow> (error_response e, s')
                | (Inr u, s') \<Rightarrow> (\<lparr>status = 200, body = JUserFields u\<rparr>, s'))))"

definition refresh_handler :: "runtime \<Rightarrow> request \<Rightarrow> sys \<Rightarrow> response \<times> sys" where
  "refresh_handler rt req s =
     (case authorization req of
        None \<Rightarrow> (\<lparr>status = 401, body = JError ''Authorization header required''\<rparr>, s)
      | Some h \<Rightarrow>
          (case header_token (Some h) of
             None \<Rightarrow> (\<lparr>status = 401, body = JError ''Token required''\<rparr>, s)
           | Some t \<Rightarrow>
               (case refreshToken rt t s of
                  (Inl e, s') \<Rightarrow> (error_response e, s')
                | (Inr r, s') \<Rightarrow> (\<lparr>status = 200, body = JAuth r\<rparr>, s'))))"

text \<open>A route guarded by \<open>authenticateToken\<close>: the handler runs on the request it passes on.\<close>

definition authenticated ::
  "runtime \<Rightarrow> (request \<Rightarrow> sys \<Rightarrow> response \<times> sys) \<Rightarrow> request \<Rightarrow> sys \<Rightarrow> response \<times> sys" where
  "authenticated rt handler req s =
     (case authenticateToken rt req of
        NextError e \<Rightarrow> (error_response e, s)
      | Next req' \<Rightarrow> handler req' s)"

definition route_me :: "runtime \<Rightarrow> request \<Rightarrow> sys \<Rightarrow> response \<times> sys" where
  "route_me rt = authenticated rt (me_handler rt)"

definition route_refresh :: "runtime \<Rightarrow> request \<Rightarrow> sys \<Rightarrow> response \<times> sys" where
  "route_refresh rt = authenticated rt (refresh_handler rt)"

subsection \<open>Route lemmas\<close>

lemmas schema_defs = createUserSchema_parse_def loginSchema_parse_def check_field_def email_check_def
  min_check_def role_check_def parse_role_def zod_email_def email_local_ok_def email_domain_ok_def
  email_label_ok_def is_alnum_def is_alpha_def is_digit_def

lemma route_register_created [model_simps]:
  "createUserSchema_parse b = Inr v \<Longrightarrow> findByEmail (cr_email v) s = Inr None \<Longrightarrow>
   route_register rt b s = (\<lparr>status = 201, body = JUser (toUserResponse (new_user rt v))\<rparr>, snd (createUser rt v s))"
  by (frule findByEmail_Inr_db_ok) (simp add: route_register_def createUser_ok)

lemma route_register_read_error [model_simps]:
  "createUserSchema_parse b = Inr v \<Longrightarrow> db_error s = Some m \<Longrightarrow>
   route_register rt b s = (\<lparr>status = 500, body = JError ''Internal server error''\<rparr>, s)"
  by (simp add: route_register_def findByEmail_cases error_response_def)

lemma route_register_conflict [model_simps]:
  "createUserSchema_parse b = Inr v \<Longrightarrow> findByEmail (cr_email v) s = Inr (Some u) \<Longrightarrow>
   route_register rt b s = (\<lparr>status = 409, body = JError ''Email already registered''\<rparr>, s)"
  by (simp add: route_register_def error_response_def)

lemma route_register_invalid [model_simps]:
  "createUserSchema_parse b = Inl e \<Longrightarrow> route_register rt b s = (error_response e, s)"
  by (simp add: route_register_def)

lemma route_login_valid [model_simps]:
  "loginSchema_parse b = Inr v \<Longrightarrow>
   route_login rt b s = (case fst (login rt v s) of Inl e \<Rightarrow> error_response e
                         | Inr r \<Rightarrow> \<lparr>status = 200, body = JAuth r\<rparr>, snd (login rt v s))"
  by (simp add: route_login_def split: prod.split sum.split)

lemma createUserSchema_parse_Inr:
  "createUserSchema_parse b = Inr v \<Longrightarrow>
   cb_email b = Some (cr_email v) \<and> cb_password b = Some (cr_password v) \<and> cb_name b = Some (cr_name v)"
  by (auto simp: createUserSchema_parse_def Let_def split: if_splits option.splits)

lemma createUserSchema_parse_valid:
  "zod_email e \<Longrightarrow> 2 \<le> length n \<Longrightarrow> 8 \<le> length p \<Longrightarrow>
   createUserSchema_parse \<lparr>cb_email = Some e, cb_name = Some n, cb_password = Some p, cb_role = Some (role_value r)\<rparr> =
     Inr \<lparr>cr_email = e, cr_name = n, cr_password = p, cr_role = r\<rparr>"
  by (simp add: createUserSchema_parse_def check_field_def email_check_def min_check_def role_check_def)

lemma loginSchema_parse_valid:
  "zod_email e \<Longrightarrow> p \<noteq> [] \<Longrightarrow>
   loginSchema_parse \<lparr>lb_email = Some e, lb_password = Some p\<rparr> = Inr \<lparr>li_email = e, li_password = p\<rparr>"
  by (simp add: loginSchema_parse_def check_field_def email_check_def min_check_def Suc_le_eq)

lemma authenticated_Next [model_simps]:
  "authenticateToken rt req = Next req' \<Longrightarrow> authenticated rt h req s = h req' s"
  by (simp add: authenticated_def)

lemma authenticated_NextError [model_simps]:
  "authenticateToken rt req = NextError e \<Longrightarrow> authenticated rt h req s = (error_response e, s)"
  by (simp add: authenticated_def)

lemma error_response_status:
  "e = CustomError m st \<Longrightarrow> status (error_response e) = st"
  by (simp add: error_response_def)

lemma demo_body_parse:
  "createUserSchema_parse \<lparr>cb_email = Some ''a@x.com'', cb_name = Some ''Alice'',
      cb_password = Some ''longenough1'', cb_role = Some ''user''\<rparr> =
   Inr \<lparr>cr_email = ''a@x.com'', cr_name = ''Alice'', cr_password = ''longenough1'', cr_role = USER\<rparr>"
  "createUserSchema_parse \<lparr>cb_email = Some ''A@X.com'', cb_name = Some ''Al'',
      cb_password = Some ''different9'', cb_role = Some ''admin''\<rparr> =
   Inr \<lparr>cr_email = ''A@X.com'', cr_name = ''Al'', cr_password = ''different9'', cr_role = ADMIN\<rparr>"
  by (simp_all add: schema_defs)

lemma demo_empty_find: "findByEmail e empty_sys = Inr None"
  by (simp add: findByEmail_def readDB_def fixture_defs)

lemma js_lower_demo: "js_lower ''A@X.com'' = js_lower ''a@x.com''"
  by code_simp

subsection \<open>Properties of the routes\<close>

text \<open>
  C9. Registering the same e-mail twice, one request after the other, is refused the
  second time: whatever the second request's case, name or password, once the first has
  stored its user the second gets \<open>Email already registered\<close> (409) and writes nothing.
\<close>

theorem register_twice_conflict:
  assumes "createUserSchema_parse b = Inr v" and "findByEmail (cr_email v) s = Inr None"
    and "createUserSchema_parse b' = Inr v'" and "js_lower (cr_email v') = js_lower (cr_email v)"
  shows "route_register rt' b' (snd (route_register rt b s)) =
           (\<lparr>status = 409, body = JError ''Email already registered''\<rparr>, snd (route_register rt b s))"
proof -
  have s1: "snd (route_register rt b s) = snd (createUser rt v s)"
    using assms(1,2) by (simp add: route_register_created)
  have "findByEmail (cr_email v') (snd (createUser rt v s)) = Inr (Some (new_user rt v))"
    using assms(2,4) by (rule createUser_findByEmail)
  with assms(3) s1 show ?thesis by (simp add: route_register_conflict)
qed

lemma register_twice_conflict_witness:
  "route_register demo_rt
     \<lparr>cb_email = Some ''A@X.com'', cb_name = Some ''Al'', cb_password = Some ''different9'', cb_role = Some ''admin''\<rparr>
     (snd (route_register demo_rt
        \<lparr>cb_email = Some ''a@x.com'', cb_name = Some ''Alice'', cb_password = Some ''longenough1'', cb_role = Some ''user''\<rparr>
        empty_sys)) =
   (\<lparr>status = 409, body = JError ''Email already registered''\<rparr>,
    snd (route_register demo_rt
        \<lparr>cb_email = Some ''a@x.com'', cb_name = Some ''Alice'', cb_password = Some ''longenough1'', cb_role = Some ''user''\<rparr>
        empty_sys))"
  using register_twice_conflict [OF demo_body_parse(1) _ demo_body_parse(2)] demo_empty_find js_lower_demo
  by simp

text \<open>
  C10. A first registration succeeds: it answers 201 with the public view of the new
  user (the generated id, the e-mail lower-cased), stores the user with the bcrypt hash of
  the password, and from then on the user is found by any spelling of the e-mail that
  lower-cases to it, and by its id.
\<close>

theorem register_creates_user:
  assumes "createUserSchema_parse b = Inr v" and "findByEmail (cr_email v) s = Inr None"
    and "findById (rt_uuid rt) s = Inr None" and "js_lower e = js_lower (cr_email v)"
  shows "fst (route_register rt b s) = \<lparr>status = 201, body = JUser (toUserResponse (new_user rt v))\<rparr> \<and>
         user_id (new_user rt v) = rt_uuid rt \<and> email (new_user rt v) = js_lower (cr_email v) \<and>
         password (new_user rt v) = rt_bcrypt rt (cr_password v) \<and>
         findByEmail e (snd (route_register rt b s)) = Inr (Some (new_user rt v)) \<and>
         findById (rt_uuid rt) (snd (route_register rt b s)) = Inr (Some (new_user rt v))"
  using assms route_register_created [OF assms(1,2)]
    createUser_findByEmail [OF assms(2,4)] createUser_findById [OF assms(3)]
  by simp

lemma register_creates_user_witness:
  "fst (route_register demo_rt
        \<lparr>cb_email = Some ''a@x.com'', cb_name = Some ''Alice'', cb_password = Some ''longenough1'', cb_role = Some ''user''\<rparr>
        empty_sys) =
     \<lparr>status = 201, body = JUser (toUserResponse (new_user demo_rt
        \<lparr>cr_email = ''a@x.com'', cr_name = ''Alice'', cr_password = ''longenough1'', cr_role = USER\<rparr>))\<rparr> \<and>
   findByEmail ''A@X.com'' (snd (route_register demo_rt
        \<lparr>cb_email = Some ''a@x.com'', cb_name = Some ''Alice'', cb_password = Some ''longenough1'', cb_role = Some ''user''\<rparr>
        empty_sys)) =
     Inr (Some (new_user demo_rt \<lparr>cr_email = ''a@x.com'', cr_name = ''Alice'', cr_password = ''longenough1'', cr_role = USER\<rparr>))"
proof -
  have "findById (rt_uuid demo_rt) empty_sys = Inr None"
    by (simp add: findById_def readDB_def fixture_defs)
  then show ?thesis
    using register_creates_user [OF demo_body_parse(1) demo_empty_find, of demo_rt "''A@X.com''"]
      js_lower_demo by simp
qed

text \<open>
  C11. The handlers of \<open>/me\<close> and \<open>/refresh\<close> re-check the header they are given,
  but \<open>authenticateToken\<close> runs first and passes on only requests whose header holds a
  token, so their own 401 answers (\<open>Authorization header required\<close>,
  \<open>Token required\<close>) are never sent.
\<close>

theorem me_refresh_header_checks_dead:
  "fst (route_me rt req s) \<notin> {\<lparr>status = 401, body = JError ''Authorization header required''\<rparr>,
                                \<lparr>status = 401, body = JError ''Token required''\<rparr>} \<and>
   fst (route_refresh rt req s) \<notin> {\<lparr>status = 401, body = JError ''Authorization header required''\<rparr>,
                                     \<lparr>status = 401, body = JError ''Token required''\<rparr>}"
proof (cases "authenticateToken rt req")
  case (Next req')
  then obtain t c where t: "header_token (authorization req) = Some t" and req': "req' = req\<lparr>req_user := Some c\<rparr>"
    by (auto simp: authenticateToken_Next_iff)
  then obtain h where h: "authorization req = Some h" by (cases "authorization req") (auto simp: header_token_def)
  have "fst (me_handler rt req' s) \<noteq> \<lparr>status = 401, body = JError m\<rparr>"
    if "m \<in> {''Authorization header required'', ''Token required''}" for m
    using t h req' that
    by (auto simp: me_handler_def getCurrentUser_def error_response_def Let_def
             split: sum.splits option.splits app_error.splits dest!: verifyToken_Inl_cases findById_Inl)
  moreover have "fst (refresh_handler rt req' s) \<noteq> \<lparr>status = 401, body = JError m\<rparr>"
    if "m \<in> {''Authorization header required'', ''Token required''}" for m
    using t h req' that
    by (auto simp: refresh_handler_def refreshToken_def error_response_def Let_def generateToken_def jwt_sign_def
             split: sum.splits option.splits app_error.splits if_splits dest!: verifyToken_Inl_cases findById_Inl)
  ultimately show ?thesis using Next by (simp add: route_me_def route_refresh_def authenticated_Next)
next
  case (NextError e)
  then show ?thesis
    by (auto simp: route_me_def route_refresh_def authenticated_NextError error_response_def
             dest!: authenticateToken_NextError)
qed

text \<open>
  C33. An unreadable data file ends every user request in the error handler: with
  \<open>data.json\<close> missing or corrupt, a valid registration answers 500 and stores
  nothing, and a valid login answers 500 and logs the file error under
  \<open>Login error:\<close>; neither reports a duplicate e-mail or bad credentials.
\<close>

theorem user_routes_read_error:
  assumes "db_error s = Some m"
    and "createUserSchema_parse b = Inr v" and "loginSchema_parse lb = Inr li"
  shows "route_register rt b s = (\<lparr>status = 500, body = JError ''Internal server error''\<rparr>, s) \<and>
         route_login rt lb s =
           (\<lparr>status = 500, body = JError ''Internal server error''\<rparr>, log_error ''Login error:'' (JsError m) s)"
  using assms
  by (simp add: route_register_read_error route_login_valid login_def findByEmail_cases error_response_def)

lemma user_routes_read_error_witness:
  "route_register demo_rt
     \<lparr>cb_email = Some ''a@x.com'', cb_name = Some ''Alice'', cb_password = Some ''longenough1'', cb_role = Some ''user''\<rparr>
     (demo_sys\<lparr>db_error := Some ''ENOENT: no such file or directory''\<rparr>) =
     (\<lparr>status = 500, body = JError ''Internal server error''\<rparr>, demo_sys\<lparr>db_error := Some ''ENOENT: no such file or directory''\<rparr>) \<and>
   route_login demo_rt \<lparr>lb_email = Some ''a@x.com'', lb_password = Some ''longenough1''\<rparr>
     (demo_sys\<lparr>db_error := Some ''ENOENT: no such file or directory''\<rparr>) =
     (\<lparr>status = 500, body = JError ''Internal server error''\<rparr>,
      log_error ''Login error:'' (JsError ''ENOENT: no such file or directory'')
        (demo_sys\<lparr>db_error := Some ''ENOENT: no such file or directory''\<rparr>))"
proof -
  have "loginSchema_parse \<lparr>lb_email = Some ''a@x.com'', lb_password = Some ''longenough1''\<rparr> =
      Inr \<lparr>li_email = ''a@x.com'', li_password = ''longenough1''\<rparr>"
    by (simp add: schema_defs)
  then show ?thesis
    using user_routes_read_error [of "demo_sys\<lparr>db_error := Some ''ENOENT: no such file or directory''\<rparr>"
        "''ENOENT: no such file or directory''", OF _ demo_body_parse(1)]
    by simp
qed

end
