(* ===== verification/Stats.thy ===== *)
theory Stats
  imports Routes
begin

text \<open>
  The statistics side of the dashboard: the six repositories of
  \<open>src/src/data-access/*-repository.ts\<close> (each reads one optional array of the store
  with \<open>|| []\<close>), \<open>StatsService\<close> of \<open>src/src/services/stats-service.ts\<close> (each getter
  logs and delegates; \<open>getAllStats\<close> starts the five getters in order through
  \<open>Promise.all\<close>, so their log lines follow its own in that order), and the routes of
  \<open>src/src/handlers/stats-routes.ts\<close>, every one guarded by \<open>authenticateToken\<close>.
\<close>

subsection \<open>Repositories\<close>

text \<open>Each \<open>getAll\<close> awaits \<open>readDB\<close> (which rejects when the file cannot be read) and
  returns the array or \<open>[]\<close>.\<close>

definition MonthlyStatsRepository_getAll :: "sys \<Rightarrow> app_error + monthly_data list" where
  "MonthlyStatsRepository_getAll s = (case readDB s of Inl e \<Rightarrow> Inl e | Inr d \<Rightarrow> Inr (or_empty (monthlyData d)))"

definition CompanyStatsRepository_getAll :: "sys \<Rightarrow> app_error + company_stats list" where
  "CompanyStatsRepository_getAll s = (case readDB s of Inl e \<Rightarrow> Inl e | Inr d \<Rightarrow> Inr (or_empty (companyStats d)))"

definition DeveloperTrendsRepository_getAll :: "sys \<Rightarrow> app_error + developer_trends list" where
  "DeveloperTrendsRepository_getAll s = (case readDB s of Inl e \<Rightarrow> Inl e | Inr d \<Rightarrow> Inr (or_empty (developerTrends d)))"

definition EmployeeDistributionRepository_getAll :: "sys \<Rightarrow> app_error + employee_distribution list" where
  "EmployeeDistributionRepository_getAll s = (case readDB s of Inl e \<Rightarrow> Inl e | Inr d \<Rightarrow> Inr (or_empty (employeeDistribution d)))"

definition ProductPerformanceRepository_getAll :: "sys \<Rightarrow> app_error + product_performance list" where
  "ProductPerformanceRepository_getAll s = (case readDB s of Inl e \<Rightarrow> Inl e | Inr d \<Rightarrow> Inr (or_empty (productPerformance d)))"

definition NormalsChartRepository_getAll :: "sys \<Rightarrow> app_error + normals_chart list" where
  "NormalsChartRepository_getAll s = (case readDB s of Inl e \<Rightarrow> Inl e | Inr d \<Rightarrow> Inr (or_empty (normalsChart d)))"

subsection \<open>StatsService\<close>

text \<open>
  Each getter logs, then \<open>return\<close>s the repository's promise without awaiting it: a
  rejection settles after the getter has returned, outside its \<open>try\<close>, so the
  \<open>catch\<close> that would log \<open>Error fetching ...\<close> never runs and the getter's result is
  the repository's. \<open>getAllStats\<close> calls the five getters in order (each logs at once),
  awaits \<open>Promise.all\<close>, and on a rejection logs \<open>Error fetching all stats:\<close> and
  rethrows. All five read the same state, so they fail with one and the same error and
  the order of the rejections does not matter.
\<close>

definition getMonthlyData :: "sys \<Rightarrow> (app_error + monthly_data list) \<times> sys" where
  "getMonthlyData s = (let s' = log_info ''Fetching monthly data'' s in (MonthlyStatsRepository_getAll s', s'))"

definition getCompanyStats :: "sys \<Rightarrow> (app_error + company_stats list) \<times> sys" where
  "getCompanyStats s = (let s' = log_info ''Fetching company stats'' s in (CompanyStatsRepository_getAll s', s'))"

definition getDeveloperTrends :: "sys \<Rightarrow> (app_error + developer_trends list) \<times> sys" where
  "getDeveloperTrends s = (let s' = log_info ''Fetching developer trends'' s in (DeveloperTrendsRepository_getAll s', s'))"

definition getEmployeeDistribution :: "sys \<Rightarrow> (app_error + employee_distribution list) \<times> sys" where
  "getEmployeeDistribution s = (let s' = log_info ''Fetching employee distribution'' s in (EmployeeDistributionRepository_getAll s', s'))"

definition getProductPerformance :: "sys \<Rightarrow> (app_error + product_performance list) \<times> sys" where
  "getProductPerformance s = (let s' = log_info ''Fetching product performance'' s in (ProductPerformanceRepository_getAll s', s'))"

definition getAllStats :: "sys \<Rightarrow> (app_error + all_stats) \<times> sys" where
  "getAllStats s =
     (let s0 = log_info ''Fetching all dashboard statistics'' s;
          (md, s1) = getMonthlyData s0;
          (cs, s2) = getCompanyStats s1;
          (dt, s3) = getDeveloperTrends s2;
          (ed, s4) = getEmployeeDistribution s3;
          (pp, s5) = getProductPerformance s4;
          fail = (\<lambda>e. (Inl e, log_error ''Error fetching all stats:'' e s5))
      in case md of Inl e \<Rightarrow> fail e | Inr md \<Rightarrow>
         case cs of Inl e \<Rightarrow> fail e | Inr cs \<Rightarrow>
         case dt of Inl e \<Rightarrow> fail e | Inr dt \<Rightarrow>
         case ed of Inl e \<Rightarrow> fail e | Inr ed \<Rightarrow>
         case pp of Inl e \<Rightarrow> fail e | Inr pp \<Rightarrow>
           (Inr \<lparr>as_monthlyData = md, as_companyStats = cs, as_developerTrends = dt,
                 as_employeeDistribution = ed, as_productPerformance = pp\<rparr>, s5))"

subsection \<open>Routes\<close>

datatype stats_endpoint =
    MonthlyDataEp | CompanyStatsEp | DeveloperTrendsEp | EmployeeDistributionEp
  | ProductPerformanceEp | AllEp | NormalsChartEp

definition ok_data :: "json_body \<Rightarrow> sys \<Rightarrow> response \<times> sys" where
  "ok_data b s = (\<lparr>status = 200, body = b\<rparr>, s)"

text \<open>A handler's reply: \<open>res.status(200).json(...)\<close> on a result, the error handler's
  answer (through \<open>asyncHandler\<close>) on a rejection.\<close>

definition stats_reply :: "('a \<Rightarrow> json_body) \<Rightarrow> (app_error + 'a) \<times> sys \<Rightarrow> response \<times> sys" where
  "stats_reply f r = (case r of (Inl e, s') \<Rightarrow> (error_response e, s') | (Inr d, s') \<Rightarrow> ok_data (f d) s')"

primrec stats_handler :: "stats_endpoint \<Rightarrow> sys \<Rightarrow> response \<times> sys" where
  "stats_handler MonthlyDataEp s = stats_reply JMonthlyData (getMonthlyData s)"
| "stats_handler CompanyStatsEp s = stats_reply JCompanyStats (getCompanyStats s)"
| "stats_handler DeveloperTrendsEp s = stats_reply JDeveloperTrends (getDeveloperTrends s)"
| "stats_handler EmployeeDistributionEp s = stats_reply JEmployeeDistribution (getEmployeeDistribution s)"
| "stats_handler ProductPerformanceEp s = stats_reply JProductPerformance (getProductPerformance s)"
| "stats_handler AllEp s = stats_reply JAllStats (getAllStats s)"
| "stats_handler NormalsChartEp s = stats_reply JNormalsChart (NormalsChartRepository_getAll s, s)"

definition route_stats :: "runtime \<Rightarrow> stats_endpoint \<Rightarrow> request \<Rightarrow> sys \<Rightarrow> response \<times> sys" where
  "route_stats rt ep = authenticated rt (\<lambda>req. stats_handler ep)"

subsection \<open>Lemmas\<close>

lemmas stats_repo_defs = MonthlyStatsRepository_getAll_def CompanyStatsRepository_getAll_def
  DeveloperTrendsRepository_getAll_def EmployeeDistributionRepository_getAll_def
  ProductPerformanceRepository_getAll_def NormalsChartRepository_getAll_def

lemmas stats_getter_defs = getMonthlyData_def getCompanyStats_def getDeveloperTrends_def
  getEmployeeDistribution_def getProductPerformance_def

lemma stats_getters [model_simps]:
  "db_ok s \<Longrightarrow> getMonthlyData s = (Inr (or_empty (monthlyData (store s))), log_info ''Fetching monthly data'' s)"
  "db_ok s \<Longrightarrow> getCompanyStats s = (Inr (or_empty (companyStats (store s))), log_info ''Fetching company stats'' s)"
  "db_ok s \<Longrightarrow>
   getDeveloperTrends s = (Inr (or_empty (developerTrends (store s))), log_info ''Fetching developer trends'' s)"
  "db_ok s \<Longrightarrow>
   getEmployeeDistribution s =
     (Inr (or_empty (employeeDistribution (store s))), log_info ''Fetching employee distribution'' s)"
  "db_ok s \<Longrightarrow>
   getProductPerformance s =
     (Inr (or_empty (productPerformance (store s))), log_info ''Fetching product performance'' s)"
  by (simp_all add: stats_getter_defs stats_repo_defs readDB_def)

lemma stats_getters_error [model_simps]:
  "db_error s = Some m \<Longrightarrow> getMonthlyData s = (Inl (JsError m), log_info ''Fetching monthly data'' s)"
  "db_error s = Some m \<Longrightarrow> getCompanyStats s = (Inl (JsError m), log_info ''Fetching company stats'' s)"
  "db_error s = Some m \<Longrightarrow> getDeveloperTrends s = (Inl (JsError m), log_info ''Fetching developer trends'' s)"
  "db_error s = Some m \<Longrightarrow>
   getEmployeeDistribution s = (Inl (JsError m), log_info ''Fetching employee distribution'' s)"
  "db_error s = Some m \<Longrightarrow>
   getProductPerformance s = (Inl (JsError m), log_info ''Fetching product performance'' s)"
  by (simp_all add: stats_getter_defs stats_repo_defs readDB_def)

lemma getAllStats_eq [model_simps]:
  "db_ok s \<Longrightarrow>
   getAllStats s =
     (Inr \<lparr>as_monthlyData = or_empty (monthlyData (store s)), as_companyStats = or_empty (companyStats (store s)),
       as_developerTrends = or_empty (developerTrends (store s)),
       as_employeeDistribution = or_empty (employeeDistribution (store s)),
       as_productPerformance = or_empty (productPerformance (store s))\<rparr>,
      s\<lparr>log := log s @ [LogInfo ''Fetching all dashboard statistics'', LogInfo ''Fetching monthly data'',
                        LogInfo ''Fetching company stats'', LogInfo ''Fetching developer trends'',
                        LogInfo ''Fetching employee distribution'', LogInfo ''Fetching product performance'']\<rparr>)"
  by (simp add: getAllStats_def stats_getters log_info_def)

lemma getAllStats_error [model_simps]:
  "db_error s = Some m \<Longrightarrow>
   getAllStats s =
     (Inl (JsError m),
      s\<lparr>log := log s @ [LogInfo ''Fetching all dashboard statistics'', LogInfo ''Fetching monthly data'',
                        LogInfo ''Fetching company stats'', LogInfo ''Fetching developer trends'',
                        LogInfo ''Fetching employee distribution'', LogInfo ''Fetching product performance''] @
                      [LogError ''Error fetching all stats:'' (JsError m)]\<rparr>)"
  by (simp add: getAllStats_def stats_getters_error log_info_def log_error_def)

lemma NormalsChartRepository_getAll_cases [model_simps]:
  "db_ok s \<Longrightarrow> NormalsChartRepository_getAll s = Inr (or_empty (normalsChart (store s)))"
  "db_error s = Some m \<Longrightarrow> NormalsChartRepository_getAll s = Inl (JsError m)"
  by (simp_all add: stats_repo_defs readDB_def)

lemma stats_handler_ok_status: "db_ok s \<Longrightarrow> status (fst (stats_handler ep s)) = 200"
  by (cases ep) (simp_all add: stats_reply_def ok_data_def stats_getters getAllStats_eq
      NormalsChartRepository_getAll_cases)

lemma stats_handler_frame:
  "store (snd (stats_handler ep s)) = store s \<and>
   (\<exists>es. log (snd (stats_handler ep s)) = log s @ es \<and>
         list_all (\<lambda>x. is_log_info x \<or> (\<exists>e. x = LogError ''Error fetching all stats:'' e)) es)"
  by (cases "db_error s"; cases ep)
     (auto simp: stats_reply_def ok_data_def stats_getters stats_getters_error getAllStats_eq getAllStats_error
        NormalsChartRepository_getAll_cases)

lemma authenticateToken_error_status:
  "authenticateToken rt req = NextError e \<Longrightarrow> status (error_response e) \<noteq> 200"
  by (auto simp: error_response_def dest!: authenticateToken_NextError)

subsection \<open>Properties of the statistics routes\<close>

text \<open>
  C17. Every statistics endpoint answers 200 only to a request whose header holds a token
  that \<open>verifyToken\<close> accepts; without one the answer is the middleware's error.
\<close>

theorem stats_route_requires_token:
  assumes "status (fst (route_stats rt ep req s)) = 200"
  shows "\<exists>t c. header_token (authorization req) = Some t \<and> verifyToken rt t = Inr c"
proof (cases "authenticateToken rt req")
  case (Next req')
  then show ?thesis by (auto simp: authenticateToken_Next_iff)
next
  case (NextError e)
  with assms show ?thesis
    by (simp add: route_stats_def authenticated_NextError authenticateToken_error_status)
qed

lemma stats_route_requires_token_witness:
  "\<exists>t c. header_token (authorization \<lparr>authorization = Some (''Bearer '' @ jwt_token demo_hmac ''test-secret''
              (user_claims demo_user 1700000000 1700086400)), req_user = None\<rparr>) = Some t \<and>
         verifyToken demo_rt t = Inr c"
proof -
  let ?tok = "jwt_token demo_hmac ''test-secret'' (user_claims demo_user 1700000000 1700086400)"
  let ?req = "\<lparr>authorization = Some (''Bearer '' @ ?tok), req_user = None\<rparr>"
  have "CHR '' '' \<notin> set ?tok"
    by (simp add: jwt_token_def signing_input_def jwt_header_def demo_hmac_def Let_def encode_payload_def
        set_js_join demo_user_def pct_encode_def)
  then have "header_token (authorization ?req) = Some ?tok"
    using header_token_scheme [of "''Bearer''" ?tok] by simp
  then have "status (fst (route_stats demo_rt AllEp ?req demo_sys)) = 200"
    using demo_admin_token
    using stats_handler_ok_status [of demo_sys AllEp]
    by (simp add: route_stats_def authenticated_def authenticateToken_def demo_sys_def del: stats_handler.simps)
  then show ?thesis by (rule stats_route_requires_token)
qed

text \<open>
  C18. The statistics are passed through unchanged, and \<open>/all\<close> agrees with the five
  individual endpoints: for an authenticated request, while the data file reads, each
  endpoint answers 200 with the stored array (the empty array when the store has none),
  and \<open>/all\<close> answers with exactly those five arrays.
\<close>

theorem all_stats_agrees_with_endpoints:
  assumes "authenticateToken rt req = Next req'" and "db_ok s"
  shows "fst (route_stats rt MonthlyDataEp req s) = \<lparr>status = 200, body = JMonthlyData (or_empty (monthlyData (store s)))\<rparr> \<and>
         fst (route_stats rt CompanyStatsEp req s) = \<lparr>status = 200, body = JCompanyStats (or_empty (companyStats (store s)))\<rparr> \<and>
         fst (route_stats rt DeveloperTrendsEp req s) =
           \<lparr>status = 200, body = JDeveloperTrends (or_empty (developerTrends (store s)))\<rparr> \<and>
         fst (route_stats rt EmployeeDistributionEp req s) =
           \<lparr>status = 200, body = JEmployeeDistribution (or_empty (employeeDistribution (store s)))\<rparr> \<and>
         fst (route_stats rt ProductPerformanceEp req s) =
           \<lparr>status = 200, body = JProductPerformance (or_empty (productPerformance (store s)))\<rparr> \<and>
         fst (route_stats rt AllEp req s) =
           \<lparr>status = 200, body = JAllStats
              \<lparr>as_monthlyData = or_empty (monthlyData (store s)), as_companyStats = or_empty (companyStats (store s)),
               as_developerTrends = or_empty (developerTrends (store s)),
               as_employeeDistribution = or_empty (employeeDistribution (store s)),
               as_productPerformance = or_empty (productPerformance (store s))\<rparr>\<rparr>"
  using assms by (simp add: route_stats_def authenticated_Next stats_reply_def ok_data_def stats_getters getAllStats_eq)

lemma all_stats_agrees_with_endpoints_witness:
  "fst (route_stats demo_rt AllEp \<lparr>authorization = Some (''Bearer '' @ jwt_token demo_hmac ''test-secret''
              (user_claims demo_user 1700000000 1700086400)), req_user = None\<rparr> demo_sys) =
   \<lparr>status = 200, body = JAllStats \<lparr>as_monthlyData = [], as_companyStats = [], as_developerTrends = [],
     as_employeeDistribution = [], as_productPerformance = []\<rparr>\<rparr>"
proof -
  let ?tok = "jwt_token demo_hmac ''test-secret'' (user_claims demo_user 1700000000 1700086400)"
  let ?req = "\<lparr>authorization = Some (''Bearer '' @ ?tok), req_user = None\<rparr>"
  have "CHR '' '' \<notin> set ?tok"
    by (simp add: jwt_token_def signing_input_def jwt_header_def demo_hmac_def Let_def encode_payload_def
        set_js_join demo_user_def pct_encode_def)
  then have "header_token (authorization ?req) = Some ?tok"
    using header_token_scheme [of "''Bearer''" ?tok] by simp
  then have "authenticateToken demo_rt ?req = Next (?req\<lparr>req_user := Some (user_claims demo_user 1700000000 1700086400)\<rparr>)"
    using demo_admin_token by (simp add: authenticateToken_def)
  moreover have "db_ok demo_sys" by (simp add: demo_sys_def)
  ultimately show ?thesis
    using all_stats_agrees_with_endpoints [of demo_rt ?req _ demo_sys] by (simp add: fixture_defs)
qed

text \<open>
  C19. The statistics routes are read-only: whatever the request and whether or not the
  data file reads, they leave the store as it was, and every log entry they append is
  informational except the \<open>Error fetching all stats:\<close> line of \<open>/all\<close>.
\<close>

theorem stats_routes_read_only:
  "store (snd (route_stats rt ep req s)) = store s \<and>
   (\<exists>es. log (snd (route_stats rt ep req s)) = log s @ es \<and>
         list_all (\<lambda>x. is_log_info x \<or> (\<exists>e. x = LogError ''Error fetching all stats:'' e)) es)"
proof (cases "authenticateToken rt req")
  case (Next req')
  then show ?thesis by (simp add: route_stats_def authenticated_Next stats_handler_frame)
next
  case (NextError e)
  then show ?thesis by (simp add: route_stats_def authenticated_NextError)
qed

text \<open>
  C32. A failed read of the data file is logged only by \<open>/all\<close>: when the file cannot
  be read, every statistics endpoint answers 500, but only \<open>getAllStats\<close>, which awaits,
  logs the error; the other getters return the repository's promise without awaiting it,
  so their \<open>catch\<close> never logs \<open>Error fetching ...\<close> and the failure leaves only their
  informational line.
\<close>

theorem stats_read_error_logged_only_by_all:
  assumes "authenticateToken rt req = Next req'" and "db_error s = Some m"
  shows "\<exists>es. route_stats rt ep req s =
                 (\<lparr>status = 500, body = JError ''Internal server error''\<rparr>, s\<lparr>log := log s @ es\<rparr>) \<and>
              (list_all is_log_info es \<longleftrightarrow> ep \<noteq> AllEp)"
proof (cases ep)
  case NormalsChartEp
  with assms show ?thesis
    by (intro exI [of _ "[]"])
       (simp add: route_stats_def authenticated_Next stats_reply_def error_response_def
        NormalsChartRepository_getAll_cases)
qed (use assms in \<open>auto simp: route_stats_def authenticated_Next stats_reply_def error_response_def log_info_def
        stats_getters_error getAllStats_error\<close>)

lemma stats_read_error_logged_only_by_all_witness:
  "\<exists>es. route_stats demo_rt MonthlyDataEp
          \<lparr>authorization = Some (''Bearer '' @ jwt_token demo_hmac ''test-secret''
              (user_claims demo_user 1700000000 1700086400)), req_user = None\<rparr>
          (demo_sys\<lparr>db_error := Some ''Unexpected end of JSON input''\<rparr>) =
        (\<lparr>status = 500, body = JError ''Internal server error''\<rparr>,
         (demo_sys\<lparr>db_error := Some ''Unexpected end of JSON input''\<rparr>)\<lparr>log :=
            log (demo_sys\<lparr>db_error := Some ''Unexpected end of JSON input''\<rparr>) @ es\<rparr>) \<and>
        (list_all is_log_info es \<longleftrightarrow> MonthlyDataEp \<noteq> AllEp)"
proof -
  let ?tok = "jwt_token demo_hmac ''test-secret'' (user_claims demo_user 1700000000 1700086400)"
  let ?req = "\<lparr>authorization = Some (''Bearer '' @ ?tok), req_user = None\<rparr>"
  have "CHR '' '' \<notin> set ?tok"
    by (simp add: jwt_token_def signing_input_def jwt_header_def demo_hmac_def Let_def encode_payload_def
        set_js_join demo_user_def pct_encode_def)
  then have "header_token (authorization ?req) = Some ?tok"
    using header_token_scheme [of "''Bearer''" ?tok] by simp
  then have "authenticateToken demo_rt ?req = Next (?req\<lparr>req_user := Some (user_claims demo_user 1700000000 1700086400)\<rparr>)"
    using demo_admin_token by (simp add: authenticateToken_def)
  then show ?thesis
    using stats_read_error_logged_only_by_all [of demo_rt ?req _ "demo_sys\<lparr>db_error := Some ''Unexpected end of JSON input''\<rparr>"
        "''Unexpected end of JSON input''" MonthlyDataEp]
    by simp
qed

end
