(* ===== verification/System.thy ===== *)
theory System
  imports Stats
begin

text \<open>
  The backend as a state machine over the system state (store and log): one step is one
  HTTP request handled to completion by one of the routes. \<open>reach\<close> holds of every
  state obtained from a well-formed store by such steps, where each registration draws an
  identifier no stored user has (the \<open>uuidv4\<close> uniqueness the code relies on).
  Handled one at a time, requests keep the store well-formed: e-mails lower-case and
  unique, identifiers unique. Concurrent handling is the subject of \<open>Concurrency\<close>.
\<close>

datatype api_call =
    Register runtime create_user_body
  | Login runtime login_body
  | Me runtime request
  | Refresh runtime request
  | StatsCall runtime stats_endpoint request

fun api_step :: "sys \<Rightarrow> api_call \<Rightarrow> response \<times> sys" where
  "api_step s (Register rt b) = route_register rt b s"
| "api_step s (Login rt b) = route_login rt b s"
| "api_step s (Me rt req) = route_me rt req s"
| "api_step s (Refresh rt req) = route_refresh rt req s"
| "api_step s (StatsCall rt ep req) = route_stats rt ep req s"

fun uuid_fresh :: "sys \<Rightarrow> api_call \<Rightarrow> bool" where
  "uuid_fresh s (Register rt b) = (rt_uuid rt \<notin> user_id ` set (users (store s)))"
| "uuid_fresh s _ = True"

inductive reach :: "sys \<Rightarrow> bool" where
  start: "users_wf (store s) \<Longrightarrow> reach s"
| step: "reach s \<Longrightarrow> uuid_fresh s c \<Longrightarrow> reach (snd (api_step s c))"

subsection \<open>One step\<close>

lemma route_login_store [simp]: "store (snd (route_login rt b s)) = store s"
  by (auto simp: route_login_def split: sum.split prod.split) (metis login_store snd_conv)+

lemma route_me_store [simp]: "store (snd (route_me rt req s)) = store s"
  by (auto simp: route_me_def authenticated_def me_handler_def
           split: mw_outcome.split option.split prod.split sum.split)
     (metis getCurrentUser_store snd_conv)+

lemma route_refresh_store [simp]: "store (snd (route_refresh rt req s)) = store s"
  by (auto simp: route_refresh_def authenticated_def refresh_handler_def
           split: mw_outcome.split option.split prod.split sum.split)
     (metis refreshToken_store snd_conv)+

lemma route_stats_store [simp]: "store (snd (route_stats rt ep req s)) = store s"
  by (cases "authenticateToken rt req")
     (simp_all add: route_stats_def authenticated_Next authenticated_NextError stats_handler_frame)

lemma route_register_users_wf:
  assumes "users_wf (store s)" and "rt_uuid rt \<notin> user_id ` set (users (store s))"
  shows "users_wf (store (snd (route_register rt b s)))"
proof (cases "createUserSchema_parse b")
  case (Inl e)
  with assms show ?thesis by (simp add: route_register_invalid)
next
  case (Inr v)
  show ?thesis
  proof (cases "findByEmail (cr_email v) s")
    case (Inl e)
    with Inr assms show ?thesis by (simp add: route_register_def)
  next
    case (Inr r)
    show ?thesis
    proof (cases r)
      case None
      with Inr \<open>createUserSchema_parse b = Inr v\<close> assms show ?thesis
        by (simp add: route_register_created createUser_users_wf findByEmail_None_iff del: createUser_store)
    next
      case (Some u)
      with Inr \<open>createUserSchema_parse b = Inr v\<close> assms show ?thesis by (simp add: route_register_conflict)
    qed
  qed
qed

lemma api_step_users_wf:
  "users_wf (store s) \<Longrightarrow> uuid_fresh s c \<Longrightarrow> users_wf (store (snd (api_step s c)))"
  by (cases c) (simp_all add: route_register_users_wf)

subsection \<open>The invariant\<close>

text \<open>
  C20. Handled one request at a time, the backend keeps its store well-formed: in every
  state reached from a well-formed store, the stored e-mails are lower-case and pairwise
  distinct and the user identifiers are pairwise distinct.
\<close>

theorem reach_users_wf:
  assumes "reach s"
  shows "users_wf (store s)"
  using assms
proof (induction rule: reach.induct)
  case (start s)
  then show ?case .
next
  case (step s c)
  then show ?case by (simp add: api_step_users_wf)
qed

lemma reach_users_wf_witness:
  "users_wf (store (snd (api_step empty_sys (Register demo_rt
     \<lparr>cb_email = Some ''a@x.com'', cb_name = Some ''Alice'', cb_password = Some ''longenough1'',
      cb_role = Some ''user''\<rparr>))))"
proof -
  have "reach empty_sys" by (rule reach.start) (simp add: users_wf_def fixture_defs)
  moreover have "uuid_fresh empty_sys (Register demo_rt
     \<lparr>cb_email = Some ''a@x.com'', cb_name = Some ''Alice'', cb_password = Some ''longenough1'',
      cb_role = Some ''user''\<rparr>)"
    by (simp add: fixture_defs)
  ultimately show ?thesis by (intro reach_users_wf reach.step)
qed

end
