(* ===== verification/Concurrency.thy ===== *)
theory Concurrency
  imports System
begin

text \<open>
  Concurrent registrations. Node runs request handlers interleaved at their \<open>await\<close>s,
  and the registration route awaits three times on the store: the duplicate check
  (\<open>findByEmail\<close>, which reads the file), \<open>createUser\<close>'s \<open>readDB\<close>, and its
  \<open>writeDB\<close> (the file is replaced with the snapshot read before plus the new user).
  A thread is one registration request at one of these points; a step advances one
  thread past one await. Interleaved, two registrations of one e-mail can both pass the
  check and both be stored, and a registration can overwrite another's write (spec
  section 5).
\<close>

datatype reg_thread =
    Pending runtime create_user_body
  | Checked runtime create_user_request
  | HasRead runtime create_user_request db
  | Finished response

type_synonym conf = "sys \<times> reg_thread list"

inductive conc_step :: "conf \<Rightarrow> conf \<Rightarrow> bool" where
  parse_fail:
    "i < length ts \<Longrightarrow> ts ! i = Pending rt b \<Longrightarrow> createUserSchema_parse b = Inl e \<Longrightarrow>
     conc_step (s, ts) (s, ts[i := Finished (error_response e)])"
| check_fail:
    "i < length ts \<Longrightarrow> ts ! i = Pending rt b \<Longrightarrow> createUserSchema_parse b = Inr v \<Longrightarrow>
     findByEmail (cr_email v) s = Inl e \<Longrightarrow> conc_step (s, ts) (s, ts[i := Finished (error_response e)])"
| check_dup:
    "i < length ts \<Longrightarrow> ts ! i = Pending rt b \<Longrightarrow> createUserSchema_parse b = Inr v \<Longrightarrow>
     findByEmail (cr_email v) s = Inr (Some u) \<Longrightarrow>
     conc_step (s, ts) (s, ts[i := Finished (error_response (CustomError ''Email already registered'' 409))])"
| check_ok:
    "i < length ts \<Longrightarrow> ts ! i = Pending rt b \<Longrightarrow> createUserSchema_parse b = Inr v \<Longrightarrow>
     findByEmail (cr_email v) s = Inr None \<Longrightarrow> conc_step (s, ts) (s, ts[i := Checked rt v])"
| read_fail:
    "i < length ts \<Longrightarrow> ts ! i = Checked rt v \<Longrightarrow> readDB s = Inl e \<Longrightarrow>
     conc_step (s, ts) (s, ts[i := Finished (error_response e)])"
| read_db:
    "i < length ts \<Longrightarrow> ts ! i = Checked rt v \<Longrightarrow> readDB s = Inr d \<Longrightarrow>
     conc_step (s, ts) (s, ts[i := HasRead rt v d])"
| write_db:
    "i < length ts \<Longrightarrow> ts ! i = HasRead rt v d \<Longrightarrow>
     conc_step (s, ts)
       (log_info (''User created: '' @ rt_uuid rt) (writeDB (d\<lparr>users := users d @ [new_user rt v]\<rparr>) s),
        ts[i := Finished \<lparr>status = 201, body = JUser (toUserResponse (new_user rt v))\<rparr>])"

subsection \<open>Steps at a given thread\<close>

lemma two_checks:
  assumes "createUserSchema_parse b1 = Inr v1" and "createUserSchema_parse b2 = Inr v2"
    and "findByEmail (cr_email v1) s = Inr None" and "findByEmail (cr_email v2) s = Inr None"
  shows "conc_step\<^sup>*\<^sup>* (s, [Pending rt1 b1, Pending rt2 b2]) (s, [Checked rt1 v1, Checked rt2 v2])"
proof -
  have "conc_step (s, [Pending rt1 b1, Pending rt2 b2]) (s, [Pending rt1 b1, Pending rt2 b2][0 := Checked rt1 v1])"
    by (rule conc_step.check_ok [OF _ _ assms(1,3)]) simp_all
  then have 1: "conc_step (s, [Pending rt1 b1, Pending rt2 b2]) (s, [Checked rt1 v1, Pending rt2 b2])" by simp
  have "conc_step (s, [Checked rt1 v1, Pending rt2 b2]) (s, [Checked rt1 v1, Pending rt2 b2][1 := Checked rt2 v2])"
    by (rule conc_step.check_ok [OF _ _ assms(2,4)]) simp_all
  then have 2: "conc_step (s, [Checked rt1 v1, Pending rt2 b2]) (s, [Checked rt1 v1, Checked rt2 v2])" by simp
  from 1 2 show ?thesis by (simp add: converse_rtranclp_into_rtranclp)
qed

lemma read_at:
  "db_ok s \<Longrightarrow> i < length ts \<Longrightarrow> ts ! i = Checked rt v \<Longrightarrow>
   conc_step (s, ts) (s, ts[i := HasRead rt v (store s)])"
  using conc_step.read_db [of i ts rt v s] by (simp add: readDB_def)

lemma write_at:
  "db_ok s \<Longrightarrow> i < length ts \<Longrightarrow> ts ! i = HasRead rt v d \<Longrightarrow>
   conc_step (s, ts) (log_info (''User created: '' @ rt_uuid rt) (s\<lparr>store := d\<lparr>users := users d @ [new_user rt v]\<rparr>\<rparr>),
                      ts[i := Finished \<lparr>status = 201, body = JUser (toUserResponse (new_user rt v))\<rparr>])"
  using conc_step.write_db [of i ts rt v d s] by (simp add: writeDB_ok)

lemma body_b_parse:
  "createUserSchema_parse body_b =
   Inr \<lparr>cr_email = ''b@x.com'', cr_name = ''Bob'', cr_password = ''longenough2'', cr_role = USER\<rparr>"
  by (simp add: body_b_def schema_defs)

subsection \<open>Races between registrations\<close>

text \<open>
  C21. Two registrations of the same e-mail (up to case) that both start before either
  has written can both pass the duplicate check and both be stored: there is an
  interleaving in which both answer 201 and the store afterwards holds two users with
  one e-mail, so the invariant \<open>users_wf\<close> that sequential handling keeps is broken.
\<close>

theorem register_race_duplicate_email:
  assumes "createUserSchema_parse b1 = Inr v1" and "createUserSchema_parse b2 = Inr v2"
    and "findByEmail (cr_email v1) s = Inr None" and "findByEmail (cr_email v2) s = Inr None"
    and "js_lower (cr_email v1) = js_lower (cr_email v2)"
  shows "\<exists>s'. conc_step\<^sup>*\<^sup>* (s, [Pending rt1 b1, Pending rt2 b2])
                 (s', [Finished \<lparr>status = 201, body = JUser (toUserResponse (new_user rt1 v1))\<rparr>,
                       Finished \<lparr>status = 201, body = JUser (toUserResponse (new_user rt2 v2))\<rparr>]) \<and>
              users (store s') = users (store s) @ [new_user rt1 v1, new_user rt2 v2] \<and>
              \<not> users_wf (store s')"
proof -
  have ok: "db_ok s" using assms(3) by (rule findByEmail_Inr_db_ok)
  let ?r1 = "Finished \<lparr>status = 201, body = JUser (toUserResponse (new_user rt1 v1))\<rparr>"
  let ?r2 = "Finished \<lparr>status = 201, body = JUser (toUserResponse (new_user rt2 v2))\<rparr>"
  define s4 where "s4 = log_info (''User created: '' @ rt_uuid rt1)
                          (s\<lparr>store := (store s)\<lparr>users := users (store s) @ [new_user rt1 v1]\<rparr>\<rparr>)"
  define s6 where "s6 = log_info (''User created: '' @ rt_uuid rt2)
                          (s4\<lparr>store := (store s4)\<lparr>users := users (store s4) @ [new_user rt2 v2]\<rparr>\<rparr>)"
  have 3: "conc_step (s, [Checked rt1 v1, Checked rt2 v2]) (s, [HasRead rt1 v1 (store s), Checked rt2 v2])"
    using ok read_at [of s 0 "[Checked rt1 v1, Checked rt2 v2]" rt1 v1] by simp
  have 4: "conc_step (s, [HasRead rt1 v1 (store s), Checked rt2 v2]) (s4, [?r1, Checked rt2 v2])"
    using ok write_at [of s 0 "[HasRead rt1 v1 (store s), Checked rt2 v2]" rt1 v1 "store s"] by (simp add: s4_def)
  have 5: "conc_step (s4, [?r1, Checked rt2 v2]) (s4, [?r1, HasRead rt2 v2 (store s4)])"
    using ok read_at [of s4 1 "[?r1, Checked rt2 v2]" rt2 v2] by (simp add: s4_def)
  have 6: "conc_step (s4, [?r1, HasRead rt2 v2 (store s4)]) (s6, [?r1, ?r2])"
    using ok write_at [of s4 1 "[?r1, HasRead rt2 v2 (store s4)]" rt2 v2 "store s4"] by (simp add: s4_def s6_def)
  have run: "conc_step\<^sup>*\<^sup>* (s, [Pending rt1 b1, Pending rt2 b2]) (s6, [?r1, ?r2])"
    using two_checks [OF assms(1-4)] 3 4 5 6
    by (meson rtranclp.rtrancl_into_rtrancl)
  have us: "users (store s6) = users (store s) @ [new_user rt1 v1, new_user rt2 v2]"
    by (simp add: s6_def s4_def log_info_def)
  have "\<not> users_wf (store s6)"
    using assms(5) by (simp add: us users_wf_def)
  with run us show ?thesis by blast
qed

lemma register_race_duplicate_email_witness:
  "\<exists>s'. conc_step\<^sup>*\<^sup>* (empty_sys, [Pending demo_rt body_a, Pending demo_rt2 body_a])
            (s', [Finished \<lparr>status = 201, body = JUser (toUserResponse (new_user demo_rt
                    \<lparr>cr_email = ''a@x.com'', cr_name = ''Alice'', cr_password = ''longenough1'', cr_role = USER\<rparr>))\<rparr>,
                  Finished \<lparr>status = 201, body = JUser (toUserResponse (new_user demo_rt2
                    \<lparr>cr_email = ''a@x.com'', cr_name = ''Alice'', cr_password = ''longenough1'', cr_role = USER\<rparr>))\<rparr>]) \<and>
         \<not> users_wf (store s')"
  using register_race_duplicate_email [OF demo_body_parse(1) demo_body_parse(1) demo_empty_find demo_empty_find,
          of demo_rt demo_rt2]
  by (auto simp: body_a_def)

text \<open>
  C22. Two registrations of different e-mails can lose one user: when both read the
  file before either writes, the second write replaces the file with its own snapshot
  plus its user, so both requests answer 201 but only the second user is stored.
\<close>

theorem register_race_lost_update:
  assumes "createUserSchema_parse b1 = Inr v1" and "createUserSchema_parse b2 = Inr v2"
    and "findByEmail (cr_email v1) s = Inr None" and "findByEmail (cr_email v2) s = Inr None"
  shows "\<exists>s'. conc_step\<^sup>*\<^sup>* (s, [Pending rt1 b1, Pending rt2 b2])
                 (s', [Finished \<lparr>status = 201, body = JUser (toUserResponse (new_user rt1 v1))\<rparr>,
                       Finished \<lparr>status = 201, body = JUser (toUserResponse (new_user rt2 v2))\<rparr>]) \<and>
              users (store s') = users (store s) @ [new_user rt2 v2]"
proof -
  have ok: "db_ok s" using assms(3) by (rule findByEmail_Inr_db_ok)
  let ?r1 = "Finished \<lparr>status = 201, body = JUser (toUserResponse (new_user rt1 v1))\<rparr>"
  let ?r2 = "Finished \<lparr>status = 201, body = JUser (toUserResponse (new_user rt2 v2))\<rparr>"
  define s5 where "s5 = log_info (''User created: '' @ rt_uuid rt1)
                          (s\<lparr>store := (store s)\<lparr>users := users (store s) @ [new_user rt1 v1]\<rparr>\<rparr>)"
  define s6 where "s6 = log_info (''User created: '' @ rt_uuid rt2)
                          (s5\<lparr>store := (store s)\<lparr>users := users (store s) @ [new_user rt2 v2]\<rparr>\<rparr>)"
  have 3: "conc_step (s, [Checked rt1 v1, Checked rt2 v2]) (s, [HasRead rt1 v1 (store s), Checked rt2 v2])"
    using ok read_at [of s 0 "[Checked rt1 v1, Checked rt2 v2]" rt1 v1] by simp
  have 4: "conc_step (s, [HasRead rt1 v1 (store s), Checked rt2 v2])
                     (s, [HasRead rt1 v1 (store s), HasRead rt2 v2 (store s)])"
    using ok read_at [of s 1 "[HasRead rt1 v1 (store s), Checked rt2 v2]" rt2 v2] by simp
  have 5: "conc_step (s, [HasRead rt1 v1 (store s), HasRead rt2 v2 (store s)]) (s5, [?r1, HasRead rt2 v2 (store s)])"
    using ok write_at [of s 0 "[HasRead rt1 v1 (store s), HasRead rt2 v2 (store s)]" rt1 v1 "store s"]
    by (simp add: s5_def)
  have 6: "conc_step (s5, [?r1, HasRead rt2 v2 (store s)]) (s6, [?r1, ?r2])"
    using ok write_at [of s5 1 "[?r1, HasRead rt2 v2 (store s)]" rt2 v2 "store s"] by (simp add: s5_def s6_def)
  have run: "conc_step\<^sup>*\<^sup>* (s, [Pending rt1 b1, Pending rt2 b2]) (s6, [?r1, ?r2])"
    using two_checks [OF assms(1-4)] 3 4 5 6
    by (meson rtranclp.rtrancl_into_rtrancl)
  have "users (store s6) = users (store s) @ [new_user rt2 v2]"
    by (simp add: s6_def log_info_def)
  with run show ?thesis by blast
qed

lemma register_race_lost_update_witness:
  "\<exists>s'. conc_step\<^sup>*\<^sup>* (empty_sys, [Pending demo_rt body_a, Pending demo_rt2 body_b])
            (s', [Finished \<lparr>status = 201, body = JUser (toUserResponse (new_user demo_rt
                    \<lparr>cr_email = ''a@x.com'', cr_name = ''Alice'', cr_password = ''longenough1'', cr_role = USER\<rparr>))\<rparr>,
                  Finished \<lparr>status = 201, body = JUser (toUserResponse (new_user demo_rt2
                    \<lparr>cr_email = ''b@x.com'', cr_name = ''Bob'', cr_password = ''longenough2'', cr_role = USER\<rparr>))\<rparr>]) \<and>
         ''a@x.com'' \<notin> email ` set (users (store s'))"
proof -
  from register_race_lost_update [OF demo_body_parse(1) body_b_parse demo_empty_find demo_empty_find,
          of demo_rt demo_rt2]
  obtain s' where run: "conc_step\<^sup>*\<^sup>* (empty_sys, [Pending demo_rt body_a, Pending demo_rt2 body_b])
            (s', [Finished \<lparr>status = 201, body = JUser (toUserResponse (new_user demo_rt
                    \<lparr>cr_email = ''a@x.com'', cr_name = ''Alice'', cr_password = ''longenough1'', cr_role = USER\<rparr>))\<rparr>,
                  Finished \<lparr>status = 201, body = JUser (toUserResponse (new_user demo_rt2
                    \<lparr>cr_email = ''b@x.com'', cr_name = ''Bob'', cr_password = ''longenough2'', cr_role = USER\<rparr>))\<rparr>])"
    and us: "users (store s') = users (store empty_sys) @ [new_user demo_rt2
                    \<lparr>cr_email = ''b@x.com'', cr_name = ''Bob'', cr_password = ''longenough2'', cr_role = USER\<rparr>]"
    by (auto simp: body_a_def)
  have "''a@x.com'' \<notin> email ` set (users (store s'))"
    by (simp add: us new_user_def fixture_defs js_lower_def js_lower_char_def)
  with run show ?thesis by blast
qed

end
