(* ===== verification/App.thy ===== *)
theory App
  imports System
begin

text \<open>
  The Express application of \<open>src/src/index.ts\<close>: the configuration it reads from the
  environment, the rate limiter it installs first, and the dispatch of a request to the
  health check, to the Swagger UI, to the two routers (\<open>/api/auth\<close>, \<open>/api/stats\<close>) or
  to the 404 handler. One call of \<open>app_handle\<close> is one HTTP request handled to
  completion; its state is the system state and the limiter's store of clients.

  \<^item> \<open>process.env[X] || d\<close> is \<open>env_or\<close>; \<open>parseInt\<close> (no radix) is \<open>js_parseInt\<close>, with
    \<open>NaN\<close> as \<open>None\<close>.
  \<^item> The limiter is \<open>express-rate-limit\<close> with its default in-memory store (library code,
    modelled from its documented behaviour): per client key (\<open>req.ip\<close>) a hit count and
    a reset time; a hit at or after the reset time starts a new window of \<open>windowMs\<close>;
    a request whose count exceeds \<open>max\<close> is answered 429 with the configured message and
    goes no further. A \<open>NaN\<close> reset time never passes, and no count exceeds a \<open>NaN\<close>
    limit, as JavaScript's comparisons with \<open>NaN\<close> are false.
  \<^item> Express matches paths without the query string, case-insensitively, with an
    optional trailing slash (\<open>express_path\<close>); a \<open>get\<close> route also answers \<open>HEAD\<close>.
  \<^item> \<open>cors\<close> runs before the limiter and answers every preflight (\<open>OPTIONS\<close>) with 204
    itself, so preflights neither reach the limiter nor count as its hits
    (\<open>is_preflight\<close>); on other requests it only adds headers. \<open>helmet\<close> only adds
    headers. \<open>morgan\<close> writes one \<open>logger.info\<close> line per request, which the model
    does not append to the log (no claim reads the request log). \<open>express.json\<close> is
    modelled by the body's string-valued fields, which is all the schemas read.
  \<^item> The limiter follows \<open>express-rate-limit\<close> version 7, whose memory store keeps a
    window per client that restarts at the client's first hit after its reset time; the
    repository pins no version, and version 6's store instead resets all clients together
    on one interval.
\<close>

subsection \<open>Configuration\<close>

definition env_or :: "runtime \<Rightarrow> string \<Rightarrow> string \<Rightarrow> string" where
  "env_or rt v d = (case rt_env rt v of None \<Rightarrow> d | Some x \<Rightarrow> if x = [] then d else x)"

definition is_js_space :: "char \<Rightarrow> bool" where
  "is_js_space c \<longleftrightarrow> of_char c \<in> {9, 10, 11, 12, 13, 32 :: nat}"

definition hex_val :: "char \<Rightarrow> nat option" where
  "hex_val c =
     (let n = of_char c :: nat in
      if 48 \<le> n \<and> n \<le> 57 then Some (n - 48)
      else if 97 \<le> n \<and> n \<le> 102 then Some (n - 87)
      else if 65 \<le> n \<and> n \<le> 70 then Some (n - 55) else None)"

definition parse_hex :: "string \<Rightarrow> nat option" where
  "parse_hex s =
     (let ds = takeWhile (\<lambda>c. hex_val c \<noteq> None) s in
      if ds = [] then None else Some (foldl (\<lambda>a c. 16 * a + the (hex_val c)) 0 ds))"

definition js_parseInt :: "string \<Rightarrow> int option" where
  "js_parseInt s =
     (let t = dropWhile is_js_space s;
          (sg, u) = (case t of
                       c # r \<Rightarrow> if c = CHR ''-'' then (-1, r) else if c = CHR ''+'' then (1, r) else (1, t)
                     | [] \<Rightarrow> (1, t));
          n = (case u of
                 z # x # r \<Rightarrow> if z = CHR ''0'' \<and> (x = CHR ''x'' \<or> x = CHR ''X'') then parse_hex r
                             else parse_dec (takeWhile is_digit u)
               | _ \<Rightarrow> parse_dec (takeWhile is_digit u))
      in map_option (\<lambda>k. sg * int k) n)"

definition cors_origins :: "runtime \<Rightarrow> string list" where
  "cors_origins rt =
     (case rt_env rt ''CORS_ORIGIN'' of None \<Rightarrow> [''http://localhost:3000''] | Some x \<Rightarrow> js_split (CHR '','') x)"

definition rate_limit_window :: "runtime \<Rightarrow> int option" where
  "rate_limit_window rt = js_parseInt (env_or rt ''RATE_LIMIT_WINDOW_MS'' ''3600000'')"

definition rate_limit_max :: "runtime \<Rightarrow> int option" where
  "rate_limit_max rt = js_parseInt (env_or rt ''RATE_LIMIT_MAX_REQUESTS'' ''500'')"

definition rate_limit_message :: string where
  "rate_limit_message = ''Too many requests from this IP, please try again later.''"

subsection \<open>The rate limiter\<close>

record rl_client =
  rl_hits :: nat
  rl_reset :: "int option"

type_synonym rl_store = "string \<Rightarrow> rl_client option"

definition rl_fresh :: "int option \<Rightarrow> epoch_ms \<Rightarrow> rl_client" where
  "rl_fresh win now = \<lparr>rl_hits = 0, rl_reset = map_option (\<lambda>w. int now + w) win\<rparr>"

definition rl_expired :: "rl_client \<Rightarrow> epoch_ms \<Rightarrow> bool" where
  "rl_expired c now = (case rl_reset c of None \<Rightarrow> False | Some r \<Rightarrow> r \<le> int now)"

definition rl_increment :: "int option \<Rightarrow> epoch_ms \<Rightarrow> string \<Rightarrow> rl_store \<Rightarrow> rl_client \<times> rl_store" where
  "rl_increment win now key m =
     (let c0 = (case m key of None \<Rightarrow> rl_fresh win now | Some c \<Rightarrow> c);
          c1 = (if rl_expired c0 now then rl_fresh win now else c0);
          c2 = c1\<lparr>rl_hits := rl_hits c1 + 1\<rparr>
      in (c2, m(key \<mapsto> c2)))"

definition rl_exceeded :: "nat \<Rightarrow> int option \<Rightarrow> bool" where
  "rl_exceeded h lim = (case lim of None \<Rightarrow> False | Some l \<Rightarrow> l < int h)"

fun rl_run :: "int option \<Rightarrow> int option \<Rightarrow> (epoch_ms \<times> string) list \<Rightarrow> rl_store \<Rightarrow> bool list \<times> rl_store" where
  "rl_run win lim [] m = ([], m)"
| "rl_run win lim ((t, k) # hs) m =
     (let (c, m') = rl_increment win t k m; (bs, m'') = rl_run win lim hs m'
      in ((\<not> rl_exceeded (rl_hits c) lim) # bs, m''))"

subsection \<open>Requests and dispatch\<close>

record http_request =
  hr_method :: string
  hr_path :: string
  hr_ip :: string
  hr_authorization :: "string option"
  hr_body :: "string \<Rightarrow> string option"   \<comment> \<open>the string-valued fields of the JSON body\<close>

datatype http_body =
    JsonBody json_body
  | HealthBody string iso_time string string   \<comment> \<open>\<open>{ status, timestamp, environment, version }\<close>\<close>
  | TextBody string

record http_response =
  hs_status :: nat
  hs_body :: http_body

datatype app_outcome = Respond http_response | SwaggerUi

datatype endpoint = HealthE | RegisterE | LoginE | MeE | RefreshE | StatsE stats_endpoint

definition auth_routes :: "(string \<times> string \<times> endpoint) list" where
  "auth_routes =
     [(''POST'', ''/register'', RegisterE), (''POST'', ''/login'', LoginE),
      (''GET'', ''/me'', MeE), (''POST'', ''/refresh'', RefreshE)]"

definition stats_routes :: "(string \<times> string \<times> endpoint) list" where
  "stats_routes =
     [(''GET'', ''/monthly-data'', StatsE MonthlyDataEp), (''GET'', ''/company-stats'', StatsE CompanyStatsEp),
      (''GET'', ''/developer-trends'', StatsE DeveloperTrendsEp),
      (''GET'', ''/employee-distribution'', StatsE EmployeeDistributionEp),
      (''GET'', ''/product-performance'', StatsE ProductPerformanceEp), (''GET'', ''/all'', StatsE AllEp),
      (''GET'', ''/normals-chart'', StatsE NormalsChartEp)]"

definition mount :: "string \<Rightarrow> string \<times> string \<times> endpoint \<Rightarrow> string \<times> string \<times> endpoint" where
  "mount pfx r = (case r of (m, p, e) \<Rightarrow> (m, pfx @ p, e))"

definition app_routes :: "(string \<times> string \<times> endpoint) list" where
  "app_routes =
     (''GET'', ''/health'', HealthE) # map (mount ''/api/auth'') auth_routes @ map (mount ''/api/stats'') stats_routes"

definition express_path :: "string \<Rightarrow> string" where
  "express_path p =
     (let q = js_lower (takeWhile (\<lambda>c. c \<noteq> CHR ''?'') p)
      in if 1 < length q \<and> last q = CHR ''/'' then butlast q else q)"

definition method_matches :: "string \<Rightarrow> string \<Rightarrow> bool" where
  "method_matches m rm \<longleftrightarrow> m = rm \<or> (m = ''HEAD'' \<and> rm = ''GET'')"

definition is_docs_path :: "string \<Rightarrow> bool" where
  "is_docs_path q \<longleftrightarrow> q = ''/api-docs'' \<or> take 10 q = ''/api-docs/''"

definition resolve :: "string \<Rightarrow> string \<Rightarrow> endpoint option" where
  "resolve m p =
     map_option (\<lambda>(rm, rp, e). e) (find (\<lambda>(rm, rp, e). method_matches m rm \<and> express_path p = rp) app_routes)"

definition create_user_body_of :: "(string \<Rightarrow> string option) \<Rightarrow> create_user_body" where
  "create_user_body_of f =
     \<lparr>cb_email = f ''email'', cb_name = f ''name'', cb_password = f ''password'', cb_role = f ''role''\<rparr>"

definition login_body_of :: "(string \<Rightarrow> string option) \<Rightarrow> login_body" where
  "login_body_of f = \<lparr>lb_email = f ''email'', lb_password = f ''password''\<rparr>"

definition mk_request :: "http_request \<Rightarrow> request" where
  "mk_request r = \<lparr>authorization = hr_authorization r, req_user = None\<rparr>"

definition as_http :: "response \<times> sys \<Rightarrow> app_outcome \<times> sys" where
  "as_http rs = (case rs of (r, s) \<Rightarrow> (Respond \<lparr>hs_status = status r, hs_body = JsonBody (body r)\<rparr>, s))"

definition health_check :: "runtime \<Rightarrow> http_response" where
  "health_check rt =
     \<lparr>hs_status = 200, hs_body = HealthBody ''OK'' (rt_iso rt) (env_or rt ''NODE_ENV'' ''development'') ''1.0.0''\<rparr>"

definition not_found :: http_response where
  "not_found = \<lparr>hs_status = 404, hs_body = JsonBody (JError ''Route not found'')\<rparr>"

primrec endpoint_handler :: "endpoint \<Rightarrow> runtime \<Rightarrow> http_request \<Rightarrow> sys \<Rightarrow> app_outcome \<times> sys" where
  "endpoint_handler HealthE rt r s = (Respond (health_check rt), s)"
| "endpoint_handler RegisterE rt r s = as_http (route_register rt (create_user_body_of (hr_body r)) s)"
| "endpoint_handler LoginE rt r s = as_http (route_login rt (login_body_of (hr_body r)) s)"
| "endpoint_handler MeE rt r s = as_http (route_me rt (mk_request r) s)"
| "endpoint_handler RefreshE rt r s = as_http (route_refresh rt (mk_request r) s)"
| "endpoint_handler (StatsE ep) rt r s = as_http (route_stats rt ep (mk_request r) s)"

definition app_dispatch :: "runtime \<Rightarrow> http_request \<Rightarrow> sys \<Rightarrow> app_outcome \<times> sys" where
  "app_dispatch rt r s =
     (if is_docs_path (express_path (hr_path r)) then (SwaggerUi, s)
      else case resolve (hr_method r) (hr_path r) of
             None \<Rightarrow> (Respond not_found, s)
           | Some e \<Rightarrow> endpoint_handler e rt r s)"

record app_state =
  app_sys :: sys
  app_limiter :: rl_store

text \<open>
  \<open>cors(...)\<close>, installed before the limiter, ends every preflight request itself: for
  the method \<open>OPTIONS\<close> it sets its headers and answers 204 with an empty body (its
  defaults \<open>preflightContinue: false\<close>, \<open>optionsSuccessStatus: 204\<close>), whatever the
  origin; every other request goes on to the limiter.
\<close>

definition is_preflight :: "http_request \<Rightarrow> bool" where
  "is_preflight r = (js_lower (hr_method r) = ''options'')"

definition cors_preflight_response :: http_response where
  "cors_preflight_response = \<lparr>hs_status = 204, hs_body = TextBody []\<rparr>"

definition app_handle :: "runtime \<Rightarrow> http_request \<Rightarrow> app_state \<Rightarrow> app_outcome \<times> app_state" where
  "app_handle rt r st =
    (if is_preflight r then (Respond cors_preflight_response, st) else
     let (c, lim) = rl_increment (rate_limit_window rt) (rt_now rt) (hr_ip r) (app_limiter st);
          st' = st\<lparr>app_limiter := lim\<rparr>
      in if rl_exceeded (rl_hits c) (rate_limit_max rt)
         then (Respond \<lparr>hs_status = 429, hs_body = TextBody rate_limit_message\<rparr>, st')
         else (case app_dispatch rt r (app_sys st') of (o', s') \<Rightarrow> (o', st'\<lparr>app_sys := s'\<rparr>)))"

subsection \<open>Runs of requests\<close>

text \<open>
  A run is a sequence of requests, each with the runtime of its arrival, handled one after
  the other; \<open>dispatch_run\<close> handles them without the limiter. A limiter hit is the
  arrival time and client key of a request; \<open>rl_admitted k\<close> counts the hits of client
  \<open>k\<close> that the limiter let through.
\<close>

definition count_key :: "string \<Rightarrow> (epoch_ms \<times> string) list \<Rightarrow> nat" where
  "count_key k hs = length (filter (\<lambda>(t, k'). k' = k) hs)"

definition rl_admitted :: "string \<Rightarrow> bool list \<Rightarrow> (epoch_ms \<times> string) list \<Rightarrow> nat" where
  "rl_admitted k bs hs = length (filter (\<lambda>(b, t, k'). b \<and> k' = k) (zip bs hs))"

fun app_run :: "(runtime \<times> http_request) list \<Rightarrow> app_state \<Rightarrow> app_outcome list \<times> app_state" where
  "app_run [] st = ([], st)"
| "app_run ((rt, r) # rs) st =
     (let (o', st') = app_handle rt r st; (os, st'') = app_run rs st' in (o' # os, st''))"

fun dispatch_run :: "(runtime \<times> http_request) list \<Rightarrow> sys \<Rightarrow> sys" where
  "dispatch_run [] s = s"
| "dispatch_run ((rt, r) # rs) s = dispatch_run rs (snd (app_dispatch rt r s))"

text \<open>The limiter's own answer: 429 with the configured message.\<close>

definition rate_limited :: "app_outcome \<Rightarrow> bool" where
  "rate_limited o' = (o' = Respond \<lparr>hs_status = 429, hs_body = TextBody rate_limit_message\<rparr>)"

definition hit_of :: "runtime \<times> http_request \<Rightarrow> epoch_ms \<times> string" where
  "hit_of q = (case q of (rt, r) \<Rightarrow> (rt_now rt, hr_ip r))"

text \<open>Example requests, with the client address \<open>10.0.0.1\<close>.\<close>

definition health_req :: http_request where
  "health_req = \<lparr>hr_method = ''GET'', hr_path = ''/health'', hr_ip = ''10.0.0.1'', hr_authorization = None,
                 hr_body = Map.empty\<rparr>"

definition register_req :: http_request where
  "register_req = \<lparr>hr_method = ''POST'', hr_path = ''/api/auth/register'', hr_ip = ''10.0.0.1'',
     hr_authorization = None,
     hr_body = [''email'' \<mapsto> ''a@x.com'', ''name'' \<mapsto> ''Alice'', ''password'' \<mapsto> ''longenough1'', ''role'' \<mapsto> ''user'']\<rparr>"

text \<open>A runtime whose environment sets a window of one hour and a limit of two requests.\<close>

definition limit_rt :: "epoch_ms \<Rightarrow> runtime" where
  "limit_rt t = demo_rt\<lparr>rt_now := t,
     rt_env := (\<lambda>v. if v = ''RATE_LIMIT_WINDOW_MS'' then Some (dec_digits 3600000)
                    else if v = ''RATE_LIMIT_MAX_REQUESTS'' then Some (dec_digits 2) else rt_env demo_rt v)\<rparr>"

subsection \<open>The limiter\<close>

lemma rl_increment_store:
  "snd (rl_increment win t k m) = m(k \<mapsto> fst (rl_increment win t k m))"
  by (simp add: rl_increment_def Let_def)

lemma rl_increment_live:
  "m k = Some c \<Longrightarrow> \<not> rl_expired c t \<Longrightarrow> fst (rl_increment win t k m) = c\<lparr>rl_hits := rl_hits c + 1\<rparr>"
  by (simp add: rl_increment_def Let_def)

lemma rl_increment_new:
  "m k = None \<or> (\<exists>c. m k = Some c \<and> rl_expired c t) \<Longrightarrow>
   fst (rl_increment win t k m) = \<lparr>rl_hits = 1, rl_reset = map_option (\<lambda>w. int t + w) win\<rparr>"
  by (auto simp: rl_increment_def rl_fresh_def rl_expired_def Let_def)

lemma rl_run_Cons:
  "rl_run win lim ((t, k) # hs) m =
     ((\<not> rl_exceeded (rl_hits (fst (rl_increment win t k m))) lim) # fst (rl_run win lim hs (snd (rl_increment win t k m))),
      snd (rl_run win lim hs (snd (rl_increment win t k m))))"
  by (simp add: split_def Let_def)

lemma rl_admitted_Cons:
  "rl_admitted k (b # bs) ((t, k') # hs) = (if b \<and> k' = k then 1 else 0) + rl_admitted k bs hs"
  by (simp add: rl_admitted_def)

lemma count_key_Cons:
  "count_key k ((t, k') # hs) = (if k' = k then 1 else 0) + count_key k hs"
  by (simp add: count_key_def)

lemma rl_run_window:
  assumes "m k = Some c" and "rl_reset c = Some r" and "\<forall>(t, k') \<in> set hs. k' = k \<longrightarrow> int t < r"
  shows "rl_admitted k (fst (rl_run win (Some l) hs m)) hs = min (count_key k hs) (nat l - rl_hits c)"
  using assms
proof (induction hs arbitrary: m c)
  case Nil then show ?case by (simp add: rl_admitted_def count_key_def)
next
  case (Cons h hs)
  obtain t k' where h: "h = (t, k')" by fastforce
  let ?m' = "snd (rl_increment win t k' m)"
  show ?case
  proof (cases "k' = k")
    case False
    then have "?m' k = Some c" using Cons.prems(1) by (simp add: rl_increment_store)
    with Cons.IH [of ?m' c] Cons.prems(2,3) False show ?thesis
      by (simp add: h rl_run_Cons rl_admitted_Cons count_key_Cons del: rl_run.simps)
  next
    case True
    have nexp: "\<not> rl_expired c t" using Cons.prems h True by (auto simp: rl_expired_def)
    let ?c' = "c\<lparr>rl_hits := rl_hits c + 1\<rparr>"
    have c': "fst (rl_increment win t k m) = ?c'" using Cons.prems(1) nexp by (rule rl_increment_live)
    have "?m' k = Some ?c'" using True c' by (simp add: rl_increment_store)
    with Cons.IH [of ?m' ?c'] Cons.prems(2,3)
    have ih: "rl_admitted k (fst (rl_run win (Some l) hs ?m')) hs = min (count_key k hs) (nat l - (rl_hits c + 1))"
      by simp
    show ?thesis
      using ih c' True by (auto simp: h rl_run_Cons rl_admitted_Cons count_key_Cons rl_exceeded_def simp del: rl_run.simps)
  qed
qed

lemma app_handle_preflight: "is_preflight r \<Longrightarrow> app_handle rt r st = (Respond cors_preflight_response, st)"
  by (simp add: app_handle_def)

lemma app_handle_limit:
  "\<not> is_preflight r \<Longrightarrow>
   app_handle rt r st =
     (let (c, lim) = rl_increment (rate_limit_window rt) (rt_now rt) (hr_ip r) (app_limiter st)
      in if rl_exceeded (rl_hits c) (rate_limit_max rt)
         then (Respond \<lparr>hs_status = 429, hs_body = TextBody rate_limit_message\<rparr>, st\<lparr>app_limiter := lim\<rparr>)
         else (fst (app_dispatch rt r (app_sys st)), \<lparr>app_sys = snd (app_dispatch rt r (app_sys st)), app_limiter = lim\<rparr>))"
  by (simp add: app_handle_def split_def Let_def)

lemma app_run_Cons_parts:
  "fst (app_run ((rt, r) # rs) st) = fst (app_handle rt r st) # fst (app_run rs (snd (app_handle rt r st)))"
  "snd (app_run ((rt, r) # rs) st) = snd (app_run rs (snd (app_handle rt r st)))"
  by (simp_all add: split_def Let_def)

lemma as_http_snd [simp]: "snd (as_http x) = snd x"
  by (simp add: as_http_def split: prod.split)

subsection \<open>parseInt\<close>

lemma dec_digits_hd_nonzero: "0 < n \<Longrightarrow> hd (dec_digits n) \<noteq> CHR ''0''"
proof (induction n rule: dec_digits.induct)
  case (1 n)
  show ?case
  proof (cases "n < 10")
    case True
    have "char_of (48 + n) \<noteq> CHR ''0''"
    proof
      assume "char_of (48 + n) = CHR ''0''"
      then have "(of_char (char_of (48 + n)) :: nat) = of_char CHR ''0''" by simp
      with True "1.prems" show False by (simp add: of_char_of)
    qed
    with True show ?thesis by (subst dec_digits.simps) simp
  next
    case False
    with "1.IH" show ?thesis by (subst dec_digits.simps) simp
  qed
qed

lemma js_parseInt_digits:
  assumes ds: "list_all is_digit ds" "ds \<noteq> []" and u: "takeWhile is_digit u = []"
    and z: "hd ds \<noteq> CHR ''0'' \<or> u = []"
  shows "js_parseInt (ds @ u) = map_option int (parse_dec ds)"
proof -
  obtain d ds' where d: "ds = d # ds'" using ds(2) by (cases ds) auto
  have dig: "is_digit d" "list_all is_digit ds'" using ds(1) d by auto
  have nsp: "\<not> is_js_space d" using dig(1) by (auto simp: is_digit_def is_js_space_def)
  have nsg: "d \<noteq> CHR ''-''" "d \<noteq> CHR ''+''" using dig(1) by (auto simp: is_digit_def)
  have tw: "takeWhile is_digit (ds @ u) = ds"
    using ds(1) u by (simp add: takeWhile_append2 list_all_iff)
  have xd: "\<not> is_digit CHR ''x''" "\<not> is_digit CHR ''X''" by (simp_all add: is_digit_def)
  have nohex: "\<not> (d = CHR ''0'' \<and> (case ds' @ u of x # r \<Rightarrow> x = CHR ''x'' \<or> x = CHR ''X'' | [] \<Rightarrow> False))"
  proof (cases ds')
    case Nil
    then show ?thesis using z d u xd by (cases u) auto
  next
    case (Cons e es)
    then show ?thesis using dig(2) xd by auto
  qed
  have "js_parseInt (d # ds' @ u) = map_option int (parse_dec (takeWhile is_digit (d # ds' @ u)))"
  proof (cases "ds' @ u")
    case Nil
    with nsp nsg show ?thesis by (simp add: js_parseInt_def del: takeWhile.simps)
  next
    case (Cons x r)
    with nsp nsg nohex show ?thesis by (auto simp: js_parseInt_def simp del: takeWhile.simps)
  qed
  with tw show ?thesis by (simp add: d)
qed

lemma js_parseInt_dec_digits: "js_parseInt (dec_digits n) = Some (int n)"
  using js_parseInt_digits [of "dec_digits n" "[]"] by (simp add: dec_digits_is_digit)

lemma demo_rate_limits: "rate_limit_window demo_rt = Some 3600000" "rate_limit_max demo_rt = Some 500"
proof -
  have "js_parseInt (''3600000'' @ []) = map_option int (parse_dec ''3600000'')"
    by (rule js_parseInt_digits) (simp_all add: is_digit_def)
  moreover have "js_parseInt (''500'' @ []) = map_option int (parse_dec ''500'')"
    by (rule js_parseInt_digits) (simp_all add: is_digit_def)
  ultimately show "rate_limit_window demo_rt = Some 3600000" "rate_limit_max demo_rt = Some 500"
    by (simp_all add: rate_limit_window_def rate_limit_max_def env_or_def fixture_defs parse_dec_def is_digit_def)
qed

lemma app_dispatch_not_limited: "\<not> rate_limited (fst (app_dispatch rt r s))"
proof -
  have "\<not> rate_limited (fst (endpoint_handler e rt r s))" for e
    by (cases e) (simp_all add: rate_limited_def as_http_def health_check_def split: prod.split)
  then show ?thesis
    by (simp add: app_dispatch_def rate_limited_def not_found_def split: option.split)
qed

lemma app_run_length: "length (fst (app_run rs st)) = length rs"
  by (induction rs arbitrary: st) (auto simp: split_def Let_def)

lemma app_run_served:
  assumes "\<forall>(rt, r) \<in> set rs. rate_limit_window rt = win \<and> rate_limit_max rt = lim \<and> \<not> is_preflight r"
  shows "map (\<lambda>o'. \<not> rate_limited o') (fst (app_run rs st)) = fst (rl_run win lim (map hit_of rs) (app_limiter st))"
  using assms
proof (induction rs arbitrary: st)
  case Nil then show ?case by simp
next
  case (Cons q rs)
  obtain rt r where q: "q = (rt, r)" by fastforce
  with Cons.prems have cfg: "rate_limit_window rt = win" "rate_limit_max rt = lim" "\<not> is_preflight r" by auto
  from Cons.prems have rest: "\<forall>(rt, r) \<in> set rs. rate_limit_window rt = win \<and> rate_limit_max rt = lim \<and> \<not> is_preflight r"
    by simp
  let ?i = "rl_increment win (rt_now rt) (hr_ip r) (app_limiter st)"
  show ?case
  proof (cases "rl_exceeded (rl_hits (fst ?i)) lim")
    case True
    with Cons.IH [OF rest, of "st\<lparr>app_limiter := snd ?i\<rparr>"] show ?thesis
      by (simp add: q cfg app_handle_limit app_run_Cons_parts split_def hit_of_def rl_run_Cons rate_limited_def
          del: rl_run.simps app_run.simps)
  next
    case False
    with Cons.IH [OF rest, of "\<lparr>app_sys = snd (app_dispatch rt r (app_sys st)), app_limiter = snd ?i\<rparr>"]
    show ?thesis
      by (simp add: q cfg app_handle_limit app_run_Cons_parts split_def hit_of_def rl_run_Cons app_dispatch_not_limited
          del: rl_run.simps app_run.simps)
  qed
qed

lemma served_count:
  "length os = length rs \<Longrightarrow>
   length (filter (\<lambda>(o', rt, r). hr_ip r = k \<and> \<not> rate_limited o') (zip os rs)) =
   rl_admitted k (map (\<lambda>o'. \<not> rate_limited o') os) (map hit_of rs)"
proof (induction os rs rule: list_induct2)
  case (Cons o' os q rs)
  then show ?case by (cases q) (simp add: rl_admitted_Cons hit_of_def)
qed (simp add: rl_admitted_def)

lemma rl_run_window_open:
  assumes "m k = None \<or> (\<exists>c. m k = Some c \<and> rl_expired c t0)"
    and "\<forall>(t, k') \<in> set hs. k' = k \<longrightarrow> int t < int t0 + w"
  shows "rl_admitted k (fst (rl_run (Some w) (Some l) ((t0, k) # hs) m)) ((t0, k) # hs) =
           min (count_key k ((t0, k) # hs)) (nat l)"
proof -
  let ?c = "\<lparr>rl_hits = 1, rl_reset = Some (int t0 + w)\<rparr> :: rl_client"
  have c: "fst (rl_increment (Some w) t0 k m) = ?c" using assms(1) by (simp add: rl_increment_new)
  then have "snd (rl_increment (Some w) t0 k m) k = Some ?c" by (simp add: rl_increment_store)
  from rl_run_window [of "snd (rl_increment (Some w) t0 k m)" k ?c "int t0 + w" hs "Some w" l, OF this _ assms(2)]
  have "rl_admitted k (fst (rl_run (Some w) (Some l) hs (snd (rl_increment (Some w) t0 k m)))) hs =
          min (count_key k hs) (nat l - 1)" by simp
  with c show ?thesis
    by (auto simp: rl_run_Cons rl_admitted_Cons count_key_Cons rl_exceeded_def simp del: rl_run.simps)
qed

lemma env_limits:
  assumes "rt_env rt ''RATE_LIMIT_WINDOW_MS'' = Some (dec_digits w)"
    and "rt_env rt ''RATE_LIMIT_MAX_REQUESTS'' = Some (dec_digits n)"
  shows "rate_limit_window rt = Some (int w) \<and> rate_limit_max rt = Some (int n)"
proof -
  have "dec_digits x \<noteq> []" for x by (subst dec_digits.simps) simp
  then show ?thesis
    using assms js_parseInt_dec_digits by (simp add: rate_limit_window_def rate_limit_max_def env_or_def)
qed

subsection \<open>Properties of the application\<close>

text \<open>
  C24. The configured rate limit bounds each client: when \<open>RATE_LIMIT_WINDOW_MS\<close> and
  \<open>RATE_LIMIT_MAX_REQUESTS\<close> hold the decimal numbers \<open>w\<close> and \<open>n\<close>, and a client's
  window opens at its request at time \<open>t0\<close>, then of its requests (preflights aside)
  before \<open>t0 + w\<close> the application serves exactly the first \<open>n\<close>, whatever other
  clients do in between; the others get the limiter's 429.
\<close>

theorem rate_limit_window_bound:
  assumes "\<forall>(rt, r) \<in> set ((rt0, r0) # rs).
             rt_env rt ''RATE_LIMIT_WINDOW_MS'' = Some (dec_digits w) \<and>
             rt_env rt ''RATE_LIMIT_MAX_REQUESTS'' = Some (dec_digits n) \<and> \<not> is_preflight r"
    and "app_limiter st (hr_ip r0) = None \<or>
         (\<exists>c. app_limiter st (hr_ip r0) = Some c \<and> rl_expired c (rt_now rt0))"
    and "\<forall>(rt, r) \<in> set rs. hr_ip r = hr_ip r0 \<longrightarrow> rt_now rt < rt_now rt0 + w"
  shows "length (filter (\<lambda>(o', rt, r). hr_ip r = hr_ip r0 \<and> \<not> rate_limited o')
                   (zip (fst (app_run ((rt0, r0) # rs) st)) ((rt0, r0) # rs))) =
         min (length (filter (\<lambda>(rt, r). hr_ip r = hr_ip r0) ((rt0, r0) # rs))) n"
proof -
  let ?qs = "(rt0, r0) # rs"
  have cfg: "\<forall>(rt, r) \<in> set ?qs. rate_limit_window rt = Some (int w) \<and> rate_limit_max rt = Some (int n) \<and> \<not> is_preflight r"
    using assms(1) env_limits by fastforce
  have win: "\<forall>(t, k') \<in> set (map hit_of rs). k' = hr_ip r0 \<longrightarrow> int t < int (rt_now rt0) + int w"
    using assms(3) by (auto simp: hit_of_def)
  have "length (filter (\<lambda>(o', rt, r). hr_ip r = hr_ip r0 \<and> \<not> rate_limited o') (zip (fst (app_run ?qs st)) ?qs)) =
        rl_admitted (hr_ip r0) (fst (rl_run (Some (int w)) (Some (int n)) (map hit_of ?qs) (app_limiter st))) (map hit_of ?qs)"
    using served_count [of "fst (app_run ?qs st)" ?qs "hr_ip r0"] app_run_length [of ?qs st]
      app_run_served [OF cfg, of st] by (simp del: app_run.simps)
  also have "\<dots> = min (count_key (hr_ip r0) (map hit_of ?qs)) n"
    using rl_run_window_open [of "app_limiter st" "hr_ip r0" "rt_now rt0" "map hit_of rs" "int w" "int n"]
      assms(2) win by (simp add: hit_of_def)
  also have "count_key (hr_ip r0) (map hit_of ?qs) = length (filter (\<lambda>(rt, r). hr_ip r = hr_ip r0) ?qs)"
    by (simp add: count_key_def filter_map comp_def hit_of_def split_def)
  finally show ?thesis .
qed


lemma rate_limit_window_bound_witness:
  "length (filter (\<lambda>(o', rt, r). hr_ip r = hr_ip health_req \<and> \<not> rate_limited o')
     (zip (fst (app_run [(limit_rt 0, health_req), (limit_rt 10, health_req), (limit_rt 20, health_req)]
                  \<lparr>app_sys = empty_sys, app_limiter = Map.empty\<rparr>))
          [(limit_rt 0, health_req), (limit_rt 10, health_req), (limit_rt 20, health_req)])) =
   min (length (filter (\<lambda>(rt, r). hr_ip r = hr_ip health_req)
          [(limit_rt 0, health_req), (limit_rt 10, health_req), (limit_rt 20, health_req)])) 2"
proof (rule rate_limit_window_bound)
  show "\<forall>(rt, r) \<in> set [(limit_rt 10, health_req), (limit_rt 20, health_req)].
          hr_ip r = hr_ip health_req \<longrightarrow> rt_now rt < rt_now (limit_rt 0) + 3600000"
    by (simp add: limit_rt_def)
qed (simp_all add: limit_rt_def is_preflight_def health_req_def js_lower_def js_lower_char_def)

text \<open>
  C25. A client refused by the limiter is served again once its window has passed: with
  \<open>max \<ge> 1\<close>, a request other than a preflight (which \<open>cors\<close> answers before the
  limiter) at or after the client's reset time is dispatched as usual and opens a new
  window with one hit.
\<close>

theorem rate_limit_window_reset:
  assumes "\<not> is_preflight r" and "app_limiter st (hr_ip r) = Some c" and "rl_expired c (rt_now rt)"
    and "rate_limit_max rt = Some l" and "1 \<le> l"
  shows "app_handle rt r st =
           (fst (app_dispatch rt r (app_sys st)),
            \<lparr>app_sys = snd (app_dispatch rt r (app_sys st)),
             app_limiter = (app_limiter st)(hr_ip r \<mapsto>
               \<lparr>rl_hits = 1, rl_reset = map_option (\<lambda>w. int (rt_now rt) + w) (rate_limit_window rt)\<rparr>)\<rparr>)"
proof -
  have c: "fst (rl_increment (rate_limit_window rt) (rt_now rt) (hr_ip r) (app_limiter st)) =
      \<lparr>rl_hits = 1, rl_reset = map_option (\<lambda>w. int (rt_now rt) + w) (rate_limit_window rt)\<rparr>"
    using assms(2,3) by (intro rl_increment_new) blast
  then have "snd (rl_increment (rate_limit_window rt) (rt_now rt) (hr_ip r) (app_limiter st)) =
      (app_limiter st)(hr_ip r \<mapsto>
         \<lparr>rl_hits = 1, rl_reset = map_option (\<lambda>w. int (rt_now rt) + w) (rate_limit_window rt)\<rparr>)"
    by (simp add: rl_increment_store [of _ _ _ "app_limiter st"])
  with c show ?thesis
    using assms(1,4,5) by (simp add: app_handle_limit split_def rl_exceeded_def)
qed

lemma rate_limit_window_reset_witness:
  "app_handle demo_rt health_req
      \<lparr>app_sys = empty_sys, app_limiter = [''10.0.0.1'' \<mapsto> \<lparr>rl_hits = 900, rl_reset = Some 1\<rparr>]\<rparr> =
   (Respond (health_check demo_rt),
    \<lparr>app_sys = empty_sys, app_limiter = [''10.0.0.1'' \<mapsto> \<lparr>rl_hits = 1, rl_reset = Some (1700000000000 + 3600000)\<rparr>]\<rparr>)"
proof -
  have "app_dispatch demo_rt health_req empty_sys = (Respond (health_check demo_rt), empty_sys)"
    by (simp add: app_dispatch_def health_req_def resolve_def app_routes_def express_path_def
        is_docs_path_def method_matches_def js_lower_def js_lower_char_def)
  moreover have "rl_expired \<lparr>rl_hits = 900, rl_reset = Some 1\<rparr> (rt_now demo_rt)"
    by (simp add: rl_expired_def demo_rt_def)
  ultimately show ?thesis
    using rate_limit_window_reset [of health_req "\<lparr>app_sys = empty_sys, app_limiter = [''10.0.0.1'' \<mapsto> \<lparr>rl_hits = 900, rl_reset = Some 1\<rparr>]\<rparr>"
        _ demo_rt 500] demo_rate_limits
    by (simp add: health_req_def demo_rt_def is_preflight_def js_lower_def js_lower_char_def)
qed

text \<open>
  C26. The limiter only filters: over any run of requests under one configuration,
  preflights are answered by \<open>cors\<close> and neither count as limiter hits nor change the
  system state; of the other requests, the application's system state is the one
  obtained by dispatching, in order, exactly those the limiter admits, and the limiter's
  store is the one their hits produce.
\<close>

theorem limiter_only_filters:
  assumes "\<forall>(rt, r) \<in> set rs. rate_limit_window rt = win \<and> rate_limit_max rt = lim"
  shows "app_limiter (snd (app_run rs st)) =
           snd (rl_run win lim (map hit_of (filter (\<lambda>q. \<not> is_preflight (snd q)) rs)) (app_limiter st)) \<and>
         app_sys (snd (app_run rs st)) =
           dispatch_run (map snd (filter fst (zip (fst (rl_run win lim
               (map hit_of (filter (\<lambda>q. \<not> is_preflight (snd q)) rs)) (app_limiter st)))
               (filter (\<lambda>q. \<not> is_preflight (snd q)) rs))))
             (app_sys st)"
  using assms
proof (induction rs arbitrary: st)
  case Nil then show ?case by simp
next
  case (Cons q rs)
  obtain rt r where q: "q = (rt, r)" by fastforce
  with Cons.prems have cfg: "rate_limit_window rt = win" "rate_limit_max rt = lim" by auto
  from Cons.prems have rest: "\<forall>(rt, r) \<in> set rs. rate_limit_window rt = win \<and> rate_limit_max rt = lim" by simp
  let ?i = "rl_increment win (rt_now rt) (hr_ip r) (app_limiter st)"
  show ?case
  proof (cases "is_preflight r")
    case True
    with Cons.IH [OF rest, of st] show ?thesis by (simp add: q app_handle_preflight app_run_Cons_parts del: app_run.simps)
  next
    case np: False
    show ?thesis
    proof (cases "rl_exceeded (rl_hits (fst ?i)) lim")
      case True
      with np Cons.IH [OF rest, of "st\<lparr>app_limiter := snd ?i\<rparr>"] show ?thesis
        by (simp add: q cfg app_handle_limit split_def Let_def hit_of_def rl_run_Cons del: rl_run.simps)
    next
      case False
      with np Cons.IH [OF rest, of "\<lparr>app_sys = snd (app_dispatch rt r (app_sys st)), app_limiter = snd ?i\<rparr>"]
      show ?thesis
        by (simp add: q cfg app_handle_limit split_def Let_def hit_of_def rl_run_Cons del: rl_run.simps)
    qed
  qed
qed

lemma limiter_only_filters_witness:
  "app_sys (snd (app_run [(demo_rt, health_req), (demo_rt, health_req)] \<lparr>app_sys = empty_sys, app_limiter = Map.empty\<rparr>)) =
   dispatch_run (map snd (filter fst (zip (fst (rl_run (Some 3600000) (Some 500)
       (map hit_of (filter (\<lambda>q. \<not> is_preflight (snd q)) [(demo_rt, health_req), (demo_rt, health_req)])) Map.empty))
       (filter (\<lambda>q. \<not> is_preflight (snd q)) [(demo_rt, health_req), (demo_rt, health_req)])))) empty_sys"
  using limiter_only_filters [of "[(demo_rt, health_req), (demo_rt, health_req)]" "Some 3600000" "Some 500"
      "\<lparr>app_sys = empty_sys, app_limiter = Map.empty\<rparr>"] demo_rate_limits
  by simp

text \<open>
  C27. A limit written as a decimal number is the limit: with
  \<open>RATE_LIMIT_MAX_REQUESTS\<close> set to the decimal rendering of \<open>n\<close>, the limiter's
  \<open>max\<close> is \<open>n\<close>.
\<close>

theorem rate_limit_max_decimal:
  assumes "rt_env rt ''RATE_LIMIT_MAX_REQUESTS'' = Some (dec_digits n)"
  shows "rate_limit_max rt = Some (int n)"
  using assms js_parseInt_dec_digits [of n] by (simp add: rate_limit_max_def env_or_def)

lemma rate_limit_max_decimal_witness:
  "rate_limit_max (demo_rt\<lparr>rt_env := (\<lambda>v. if v = ''RATE_LIMIT_MAX_REQUESTS'' then Some ''100'' else None)\<rparr>) = Some 100"
proof -
  have d: "dec_digits 100 = ''100''" by code_simp
  show ?thesis
    using rate_limit_max_decimal [of "demo_rt\<lparr>rt_env := (\<lambda>v. if v = ''RATE_LIMIT_MAX_REQUESTS'' then Some ''100'' else None)\<rparr>" 100] d
    by simp
qed

text \<open>
  C28. A rate-limit window configured with a unit, such as \<open>RATE_LIMIT_WINDOW_MS=15m\<close>,
  is read by \<open>parseInt\<close> as its leading number of milliseconds (15 ms), not rejected.
\<close>

theorem rate_limit_window_unit_suffix:
  assumes "rt_env rt ''RATE_LIMIT_WINDOW_MS'' = Some (dec_digits n @ c # u)"
    and "0 < n" and "\<not> is_digit c"
  shows "rate_limit_window rt = Some (int n)"
  using js_parseInt_digits [of "dec_digits n" "c # u"] assms dec_digits_hd_nonzero [OF assms(2)]
  by (simp add: rate_limit_window_def env_or_def dec_digits_is_digit)

lemma rate_limit_window_unit_suffix_witness:
  "rate_limit_window (demo_rt\<lparr>rt_env := (\<lambda>v. if v = ''RATE_LIMIT_WINDOW_MS'' then Some ''15m'' else None)\<rparr>) = Some 15"
proof -
  have d: "dec_digits 15 @ [CHR ''m''] = ''15m''" by code_simp
  have "\<not> is_digit CHR ''m''" by (simp add: is_digit_def)
  then show ?thesis
    using rate_limit_window_unit_suffix [of "demo_rt\<lparr>rt_env := (\<lambda>v. if v = ''RATE_LIMIT_WINDOW_MS'' then Some ''15m'' else None)\<rparr>"
        15 "CHR ''m''" "[]"] d by simp
qed

end
