(* ===== verification/Seed.thy ===== *)
theory Seed
  imports App
begin

text \<open>
  The DynamoDB seeding script \<open>src/scripts/seed-dynamodb.ts\<close> and the table names of
  \<open>src/src/data-access/dynamodb.ts\<close> (which the running server no longer uses). The script
  reads the same \<open>data.json\<close> as the JSON store (\<open>readDB\<close>, whose failure models a
  missing or unparsable file), then sends one \<open>PutCommand\<close> per user and per statistics
  record, table by table, awaiting each and logging a line to the console after it. A
  rejected send (network, missing table, throttling) aborts the script: its \<open>catch\<close>
  prints \<open>Seeding failed:\<close> and exits with code 1; the puts already sent stay in the
  tables.

  \<^item> The DynamoDB service is \<open>ddb_service\<close>: \<open>ds_reject n\<close> is the rejection, if any, of the
    \<open>n\<close>-th \<open>PutCommand\<close> the service receives.
  \<^item> The script's effects are the accepted \<open>PutCommand\<close>s, in order, and the console
    lines (\<open>seed_state\<close>); an await that throws is \<open>Some e\<close> in the first component of
    the result, with the state reached so far.
  \<^item> \<open>bcrypt.hash\<close> and \<open>new Date().toISOString()\<close> come from the runtime record, as in
    \<open>UserRepository.createUser\<close>; the clock does not advance during the run.
\<close>

subsection \<open>Tables\<close>

datatype ddb_table =
    USERS | MONTHLY_STATS | COMPANY_STATS | DEVELOPER_TRENDS | EMPLOYEE_DISTRIBUTION
  | PRODUCT_PERFORMANCE | NORMALS_CHART

primrec table_suffix :: "ddb_table \<Rightarrow> string" where
  "table_suffix USERS = ''users''"
| "table_suffix MONTHLY_STATS = ''monthly_stats''"
| "table_suffix COMPANY_STATS = ''company_stats''"
| "table_suffix DEVELOPER_TRENDS = ''developer_trends''"
| "table_suffix EMPLOYEE_DISTRIBUTION = ''employee_distribution''"
| "table_suffix PRODUCT_PERFORMANCE = ''product_performance''"
| "table_suffix NORMALS_CHART = ''normals_chart''"

text \<open>\<open>TABLE_NAMES\<close> of \<open>dynamodb.ts\<close>: each entry reads the prefix from the environment.\<close>

definition TABLE_NAMES :: "runtime \<Rightarrow> ddb_table \<Rightarrow> string" where
  "TABLE_NAMES rt t = env_or rt ''DYNAMODB_TABLE_PREFIX'' ''aidonic_prod_'' @ table_suffix t"

text \<open>\<open>TABLE_PREFIX\<close> and \<open>TABLES\<close> of the seeding script.\<close>

definition TABLE_PREFIX :: "runtime \<Rightarrow> string" where
  "TABLE_PREFIX rt = env_or rt ''DYNAMODB_TABLE_PREFIX'' ''aidonic_prod_''"

definition TABLES :: "runtime \<Rightarrow> ddb_table \<Rightarrow> string" where
  "TABLES rt t = TABLE_PREFIX rt @ table_suffix t"

subsection \<open>Items, service and console\<close>

text \<open>The \<open>Item\<close> of a \<open>PutCommand\<close>; an employee-distribution record carries the
  \<open>recordId\<close> the script adds.\<close>

datatype ddb_item =
    UserItem user
  | MonthlyItem monthly_data
  | CompanyItem company_stats
  | TrendsItem developer_trends
  | EmployeeItem employee_distribution string
  | ProductItem product_performance
  | NormalsItem normals_chart

record ddb_service =
  ds_reject :: "nat \<Rightarrow> string option"

datatype console_line = ConsoleLog string | ConsoleError string app_error

record seed_state =
  ss_puts :: "(string \<times> ddb_item) list"
  ss_console :: "console_line list"

type_synonym seed_result = "app_error option \<times> seed_state"

text \<open>Sequencing of awaits: a thrown error skips the rest and keeps the state reached.\<close>

definition seed_then :: "seed_result \<Rightarrow> (seed_state \<Rightarrow> seed_result) \<Rightarrow> seed_result" where
  "seed_then r f = (case r of (None, st) \<Rightarrow> f st | (Some e, st) \<Rightarrow> (Some e, st))"

definition console_log :: "string \<Rightarrow> seed_state \<Rightarrow> seed_state" where
  "console_log m st = st\<lparr>ss_console := ss_console st @ [ConsoleLog m]\<rparr>"

text \<open>\<open>await ddbDocClient.send(new PutCommand({TableName: t, Item: i}))\<close>.\<close>

definition ddb_send :: "ddb_service \<Rightarrow> string \<Rightarrow> ddb_item \<Rightarrow> seed_state \<Rightarrow> seed_result" where
  "ddb_send svc t i st =
     (case ds_reject svc (length (ss_puts st)) of
        Some m \<Rightarrow> (Some (JsError m), st)
      | None \<Rightarrow> (None, st\<lparr>ss_puts := ss_puts st @ [(t, i)]\<rparr>))"

text \<open>One \<open>for (const x of xs) { await send(...); console.log(...) }\<close> loop.\<close>

fun put_each :: "ddb_service \<Rightarrow> string \<Rightarrow> ('a \<Rightarrow> ddb_item) \<Rightarrow> ('a \<Rightarrow> string) \<Rightarrow> 'a list \<Rightarrow>
                 seed_state \<Rightarrow> seed_result" where
  "put_each svc t mk msg [] st = (None, st)"
| "put_each svc t mk msg (x # xs) st =
     seed_then (ddb_send svc t (mk x) st) (\<lambda>st'. put_each svc t mk msg xs (console_log (msg x) st'))"

text \<open>\<open>if (data.X) { loop }\<close>: an absent array is skipped (an empty one loops zero times).\<close>

definition seed_section :: "ddb_service \<Rightarrow> string \<Rightarrow> ('a \<Rightarrow> ddb_item) \<Rightarrow> ('a \<Rightarrow> string) \<Rightarrow>
                            'a list option \<Rightarrow> seed_state \<Rightarrow> seed_result" where
  "seed_section svc t mk msg xo st = (case xo of None \<Rightarrow> (None, st) | Some xs \<Rightarrow> put_each svc t mk msg xs st)"

text \<open>\<open>String(n)\<close> of a JSON number.\<close>

definition js_number_string :: "json_number \<Rightarrow> string" where
  "js_number_string i = (if i < 0 then CHR ''-'' # dec_digits (nat (- i)) else dec_digits (nat i))"

text \<open>\<open>{...user, password: hash, createdAt: now, updatedAt: now}\<close>.\<close>

definition seed_user_item :: "runtime \<Rightarrow> user \<Rightarrow> ddb_item" where
  "seed_user_item rt u =
     UserItem (u\<lparr>password := rt_bcrypt rt (password u), createdAt := rt_iso rt, updatedAt := rt_iso rt\<rparr>)"

text \<open>The employee loop with its counter \<open>recordId\<close>, from 1: the records numbered by
  \<open>enumerate 1\<close>, each item \<open>{...item, recordId: String(recordId++)}\<close>.\<close>

definition employee_item :: "nat \<times> employee_distribution \<Rightarrow> ddb_item" where
  "employee_item ke = (case ke of (k, e) \<Rightarrow> EmployeeItem e (dec_digits k))"

definition employee_msg :: "nat \<times> employee_distribution \<Rightarrow> string" where
  "employee_msg ke = ''Seeded employeeDistribution: '' @ js_number_string (ed_year (snd ke))"

text \<open>The UTF-8 bytes of the check mark U+2705 that opens the final line.\<close>

definition check_mark :: string where
  "check_mark = map char_of [226 :: nat, 156, 133]"

definition seed :: "runtime \<Rightarrow> ddb_service \<Rightarrow> sys \<Rightarrow> seed_state \<Rightarrow> seed_result" where
  "seed rt svc s st0 =
     (case readDB s of
        Inl e \<Rightarrow> (Some e, st0)
      | Inr d \<Rightarrow>
          seed_then (put_each svc (TABLES rt USERS) (seed_user_item rt) (\<lambda>u. ''Seeded user: '' @ email u)
                       (users d) st0) (\<lambda>st.
          seed_then (seed_section svc (TABLES rt MONTHLY_STATS) MonthlyItem
                       (\<lambda>i. ''Seeded monthlyData: '' @ md_month i) (monthlyData d) st) (\<lambda>st.
          seed_then (seed_section svc (TABLES rt COMPANY_STATS) CompanyItem
                       (\<lambda>i. ''Seeded companyStats: '' @ cs_id i) (companyStats d) st) (\<lambda>st.
          seed_then (seed_section svc (TABLES rt DEVELOPER_TRENDS) TrendsItem
                       (\<lambda>i. ''Seeded developerTrends: '' @ dt_month i) (developerTrends d) st) (\<lambda>st.
          seed_then (seed_section svc (TABLES rt EMPLOYEE_DISTRIBUTION) employee_item employee_msg
                       (map_option (enumerate 1) (employeeDistribution d)) st) (\<lambda>st.
          seed_then (seed_section svc (TABLES rt PRODUCT_PERFORMANCE) ProductItem
                       (\<lambda>i. ''Seeded productPerformance: '' @ pp_id i) (productPerformance d) st) (\<lambda>st.
          seed_then (seed_section svc (TABLES rt NORMALS_CHART) NormalsItem
                       (\<lambda>i. ''Seeded normalsChart: '' @ nc_month i) (normalsChart d) st) (\<lambda>st.
          (None, console_log (check_mark @ '' Seeding complete!'') st)))))))))"

text \<open>\<open>seed().catch(err => { console.error('Seeding failed:', err); process.exit(1) })\<close>:
  the exit code and the final state.\<close>

definition seed_main :: "runtime \<Rightarrow> ddb_service \<Rightarrow> sys \<Rightarrow> seed_state \<Rightarrow> nat \<times> seed_state" where
  "seed_main rt svc s st =
     (case seed rt svc s st of
        (None, st') \<Rightarrow> (0, st')
      | (Some e, st') \<Rightarrow> (1, st'\<lparr>ss_console := ss_console st' @ [ConsoleError ''Seeding failed:'' e]\<rparr>))"

subsection \<open>The puts the script means to send\<close>

text \<open>
  The specification of a run: the puts of all tables in the script's order, each with the
  console line that follows it. A run sends a prefix of this list, the whole of it when
  no send is rejected.
\<close>

definition seed_plan :: "runtime \<Rightarrow> db \<Rightarrow> (string \<times> ddb_item \<times> string) list" where
  "seed_plan rt d =
     map (\<lambda>u. (TABLES rt USERS, seed_user_item rt u, ''Seeded user: '' @ email u)) (users d) @
     map (\<lambda>i. (TABLES rt MONTHLY_STATS, MonthlyItem i, ''Seeded monthlyData: '' @ md_month i))
       (or_empty (monthlyData d)) @
     map (\<lambda>i. (TABLES rt COMPANY_STATS, CompanyItem i, ''Seeded companyStats: '' @ cs_id i))
       (or_empty (companyStats d)) @
     map (\<lambda>i. (TABLES rt DEVELOPER_TRENDS, TrendsItem i, ''Seeded developerTrends: '' @ dt_month i))
       (or_empty (developerTrends d)) @
     map (\<lambda>ke. (TABLES rt EMPLOYEE_DISTRIBUTION, employee_item ke, employee_msg ke))
       (enumerate 1 (or_empty (employeeDistribution d))) @
     map (\<lambda>i. (TABLES rt PRODUCT_PERFORMANCE, ProductItem i, ''Seeded productPerformance: '' @ pp_id i))
       (or_empty (productPerformance d)) @
     map (\<lambda>i. (TABLES rt NORMALS_CHART, NormalsItem i, ''Seeded normalsChart: '' @ nc_month i))
       (or_empty (normalsChart d))"

text \<open>Sending a list of planned puts in order, stopping at the first rejection.\<close>

fun send_plan :: "ddb_service \<Rightarrow> (string \<times> ddb_item \<times> string) list \<Rightarrow> seed_state \<Rightarrow> seed_result" where
  "send_plan svc [] st = (None, st)"
| "send_plan svc ((t, i, m) # ps) st =
     seed_then (ddb_send svc t i st) (\<lambda>st'. send_plan svc ps (console_log m st'))"

text \<open>The number of puts of a plan of \<open>l\<close> puts the service accepts, from its
  \<open>n\<close>-th send, before the first rejection.\<close>

definition sent_count :: "ddb_service \<Rightarrow> nat \<Rightarrow> nat \<Rightarrow> nat" where
  "sent_count svc n l = length (takeWhile (\<lambda>j. ds_reject svc (n + j) = None) [0..<l])"

subsection \<open>Lemmas\<close>

lemma TABLES_TABLE_NAMES: "TABLES rt t = TABLE_NAMES rt t"
  by (simp add: TABLES_def TABLE_PREFIX_def TABLE_NAMES_def)

lemma seed_then_simps [simp]:
  "seed_then (None, st) f = f st"
  "seed_then (Some e, st) f = (Some e, st)"
  by (simp_all add: seed_then_def)

lemma seed_then_assoc:
  "seed_then (seed_then r f) g = seed_then r (\<lambda>st. seed_then (f st) g)"
  by (simp add: seed_then_def split: prod.split option.split)

lemma put_each_send_plan:
  "put_each svc t mk msg xs st = send_plan svc (map (\<lambda>x. (t, mk x, msg x)) xs) st"
  by (induction xs arbitrary: st) (simp_all add: seed_then_def split: prod.split option.split)

lemma seed_section_send_plan:
  "seed_section svc t mk msg xo st = send_plan svc (map (\<lambda>x. (t, mk x, msg x)) (or_empty xo)) st"
  by (cases xo) (simp_all add: seed_section_def put_each_send_plan)

lemma send_plan_append:
  "send_plan svc (ps @ qs) st = seed_then (send_plan svc ps st) (send_plan svc qs)"
  by (induction svc ps st rule: send_plan.induct) (simp_all add: seed_then_assoc)

lemma seed_eq_send_plan:
  "readDB s = Inr d \<Longrightarrow>
   seed rt svc s st = seed_then (send_plan svc (seed_plan rt d) st)
                        (\<lambda>st. (None, console_log (check_mark @ '' Seeding complete!'') st))"
  by (simp add: seed_def seed_plan_def seed_section_send_plan put_each_send_plan send_plan_append
      seed_then_assoc option.map_comp or_empty_def split: option.split)

lemma sent_count_0 [simp]: "sent_count svc n 0 = 0"
  by (simp add: sent_count_def)

lemma sent_count_Suc:
  "sent_count svc n (Suc l) = (if ds_reject svc n = None then Suc (sent_count svc (Suc n) l) else 0)"
proof -
  have "[0..<Suc l] = 0 # map Suc [0..<l]" by (simp add: upt_conv_Cons map_Suc_upt)
  then show ?thesis by (simp add: sent_count_def takeWhile_map comp_def)
qed

lemma sent_count_le: "sent_count svc n l \<le> l"
  by (induction l arbitrary: n) (simp_all add: sent_count_Suc)

lemma sent_count_reject:
  "sent_count svc n l < l \<Longrightarrow> \<exists>m. ds_reject svc (n + sent_count svc n l) = Some m"
proof (induction l arbitrary: n)
  case (Suc l)
  show ?case
  proof (cases "ds_reject svc n")
    case None
    with Suc.prems Suc.IH [of "Suc n"] show ?thesis by (simp add: sent_count_Suc)
  qed (simp add: sent_count_Suc)
qed simp

lemma send_plan_result:
  "send_plan svc P st =
     (let k = sent_count svc (length (ss_puts st)) (length P)
      in (if k = length P then None else map_option JsError (ds_reject svc (length (ss_puts st) + k)),
          st\<lparr>ss_puts := ss_puts st @ map (\<lambda>(t, i, m). (t, i)) (take k P),
             ss_console := ss_console st @ map (\<lambda>(t, i, m). ConsoleLog m) (take k P)\<rparr>))"
proof (induction svc P st rule: send_plan.induct)
  case (1 svc st) then show ?case by simp
next
  case (2 svc t i m ps st)
  show ?case
  proof (cases "ds_reject svc (length (ss_puts st))")
    case None
    with 2 show ?thesis
      by (simp add: ddb_send_def console_log_def sent_count_Suc Let_def)
  next
    case (Some r)
    then show ?thesis by (simp add: ddb_send_def sent_count_Suc)
  qed
qed

lemma seed_main_read_error:
  "readDB s = Inl e \<Longrightarrow>
   seed_main rt svc s st = (1, st\<lparr>ss_console := ss_console st @ [ConsoleError ''Seeding failed:'' e]\<rparr>)"
  by (simp add: seed_main_def seed_def)

lemma employee_record_ids:
  "map (\<lambda>ke. case employee_item ke of EmployeeItem e r \<Rightarrow> js_parseInt r | _ \<Rightarrow> None) (enumerate n es) =
   map (\<lambda>k. Some (int k)) [n..<n + length es]"
proof (induction es arbitrary: n)
  case (Cons e es)
  have "[n..<n + length (e # es)] = n # [Suc n..<Suc n + length es]" by (simp del: upt_Suc add: upt_conv_Cons)
  with Cons.IH [of "Suc n"] show ?case by (simp add: employee_item_def js_parseInt_dec_digits)
qed simp

subsection \<open>The outcome of a run\<close>

text \<open>
  C23. The seeding script sends its puts in the planned order (users with their password
  replaced by its bcrypt hash and fresh timestamps, then each statistics table present in
  the file, employee records numbered from 1) and stops at the first rejected send: with
  \<open>k\<close> the number of puts the service accepts before rejecting one, exactly the first
  \<open>k\<close> planned puts are stored, each followed by its console line; the run exits with
  0 and the completion line when all were accepted, and otherwise with 1 and
  \<open>Seeding failed:\<close> with the rejection.
\<close>

theorem seed_main_result:
  assumes "readDB s = Inr d"
  shows "seed_main rt svc s st =
     (let P = seed_plan rt d; n = length (ss_puts st); k = sent_count svc n (length P)
      in (if k = length P then 0 else 1,
          st\<lparr>ss_puts := ss_puts st @ map (\<lambda>(t, i, m). (t, i)) (take k P),
             ss_console := ss_console st @ map (\<lambda>(t, i, m). ConsoleLog m) (take k P) @
               [if k = length P then ConsoleLog (check_mark @ '' Seeding complete!'')
                else ConsoleError ''Seeding failed:'' (JsError (the (ds_reject svc (n + k))))]\<rparr>))"
proof -
  let ?P = "seed_plan rt d" and ?n = "length (ss_puts st)"
  let ?k = "sent_count svc ?n (length ?P)"
  have r: "seed rt svc s st = seed_then (send_plan svc ?P st)
             (\<lambda>st. (None, console_log (check_mark @ '' Seeding complete!'') st))"
    using assms by (rule seed_eq_send_plan)
  show ?thesis
  proof (cases "?k = length ?P")
    case True
    with r show ?thesis by (simp add: seed_main_def send_plan_result console_log_def Let_def)
  next
    case False
    with sent_count_le have "?k < length ?P" by (simp add: order_less_le)
    then obtain m where "ds_reject svc (?n + ?k) = Some m" using sent_count_reject by blast
    with False r show ?thesis by (simp add: seed_main_def send_plan_result Let_def)
  qed
qed


lemma seed_main_result_witness:
  "readDB (demo_sys\<lparr>store := (store demo_sys)\<lparr>monthlyData := Some [\<lparr>md_month = ''Jan'', md_income = 45000, md_expenses = 32000\<rparr>]\<rparr>\<rparr>) =
     Inr ((store demo_sys)\<lparr>monthlyData := Some [\<lparr>md_month = ''Jan'', md_income = 45000, md_expenses = 32000\<rparr>]\<rparr>) \<and>
   seed_main demo_rt \<lparr>ds_reject = (\<lambda>n. if n = 1 then Some ''ProvisionedThroughputExceededException'' else None)\<rparr>
     (demo_sys\<lparr>store := (store demo_sys)\<lparr>monthlyData := Some [\<lparr>md_month = ''Jan'', md_income = 45000, md_expenses = 32000\<rparr>]\<rparr>\<rparr>)
     \<lparr>ss_puts = [], ss_console = []\<rparr> =
   (1, \<lparr>ss_puts = [(''aidonic_prod_users'', seed_user_item demo_rt demo_user)],
        ss_console = [ConsoleLog ''Seeded user: test@example.com'',
                      ConsoleError ''Seeding failed:'' (JsError ''ProvisionedThroughputExceededException'')]\<rparr>)"
proof -
  let ?s = "demo_sys\<lparr>store := (store demo_sys)\<lparr>monthlyData := Some [\<lparr>md_month = ''Jan'', md_income = 45000, md_expenses = 32000\<rparr>]\<rparr>\<rparr>"
  have r: "readDB ?s = Inr ((store demo_sys)\<lparr>monthlyData := Some [\<lparr>md_month = ''Jan'', md_income = 45000, md_expenses = 32000\<rparr>]\<rparr>)"
    by (simp add: readDB_def fixture_defs)
  let ?svc = "\<lparr>ds_reject = (\<lambda>n. if n = 1 then Some ''ProvisionedThroughputExceededException'' else None)\<rparr>"
  have "seed_main demo_rt ?svc ?s \<lparr>ss_puts = [], ss_console = []\<rparr> =
   (1, \<lparr>ss_puts = [(''aidonic_prod_users'', seed_user_item demo_rt demo_user)],
        ss_console = [ConsoleLog ''Seeded user: test@example.com'',
                      ConsoleError ''Seeding failed:'' (JsError ''ProvisionedThroughputExceededException'')]\<rparr>)"
    by (subst seed_main_result [OF r])
       (simp add: seed_plan_def sent_count_Suc fixture_defs TABLES_def TABLE_PREFIX_def env_or_def demo_env_def)
  with r show ?thesis by blast
qed

end
