(* ===== verification/Swagger.thy ===== *)
theory Swagger
  imports Routes
begin

text \<open>
  The published API documentation: the OpenAPI definition \<open>swaggerOptions\<close> of
  \<open>src/src/libs/swagger-config.ts\<close> (its component schemas, security scheme, servers and
  tags) and the \<open>@swagger\<close> JSDoc blocks of \<open>src/src/handlers/auth-routes.ts\<close> and
  \<open>stats-routes.ts\<close>, which \<open>swagger-jsdoc\<close> collects (the \<open>apis\<close> globs) into the paths
  served by the Swagger UI. Against it, the JSON the routes send (\<open>res.json\<close>, modelled by
  \<open>json_of_body\<close>, which leaves out \<open>undefined\<close> fields as \<open>JSON.stringify\<close> does) and
  the request bodies they read.

  \<^item> A schema is \<open>oa_schema\<close>: objects with their required and declared properties,
    arrays, strings with their enumeration and \<open>minLength\<close>, numbers, and references
    \<open>$ref: '#/components/schemas/N'\<close>. Descriptions and examples are not modelled; a
    \<open>format\<close> is kept but, as OpenAPI makes formats open annotations, not checked.
  \<^item> \<open>oa_resolve\<close> replaces each reference by the component schema it names, and fails on
    a name the components do not define; \<open>conforms\<close> is validation against a resolved
    schema, with OpenAPI's defaults (undeclared properties allowed, declared ones
    optional unless required).
\<close>

subsection \<open>JSON values and schemas\<close>

datatype json =
    OBJECT "(string \<times> json) list"
  | ARRAY "json list"
  | STRING string
  | NUMBER int
  | BOOL bool
  | NULL

datatype oa_schema =
    OaObject "string list" "(string \<times> oa_schema) list"  \<comment> \<open>required, properties\<close>
  | OaArray oa_schema
  | OaString "string option" "string list" "nat option"  \<comment> \<open>format, enum, minLength\<close>
  | OaNumber
  | OaRef string

abbreviation oa_str :: oa_schema where
  "oa_str \<equiv> OaString None [] None"

record oa_operation =
  op_path :: string
  op_method :: string
  op_tags :: "string list"
  op_secured :: bool
  op_request :: "oa_schema option"
  op_responses :: "(nat \<times> oa_schema option) list"

record swagger_definition =
  sw_openapi :: string
  sw_title :: string
  sw_version :: string
  sw_description :: string
  sw_contact :: "string \<times> string \<times> string"
  sw_license :: "string \<times> string"
  sw_servers :: "(string \<times> string) list"
  sw_security :: "string \<times> string \<times> string \<times> string"  \<comment> \<open>name, type, scheme, bearerFormat\<close>
  sw_schemas :: "(string \<times> oa_schema) list"
  sw_tags :: "(string \<times> string) list"
  sw_apis :: "string list"

subsection \<open>\<open>swaggerOptions\<close>\<close>

definition swagger_schemas :: "(string \<times> oa_schema) list" where
  "swagger_schemas =
     [(''LoginRequest'', OaObject [''email'', ''password'']
         [(''email'', OaString (Some ''email'') [] None), (''password'', OaString None [] (Some 8))]),
      (''LoginResponse'', OaObject []
         [(''token'', oa_str),
          (''user'', OaObject []
             [(''id'', oa_str), (''email'', oa_str), (''name'', oa_str),
              (''role'', OaString None [''admin'', ''manager'', ''volunteer''] None),
              (''organizationId'', oa_str),
              (''createdAt'', OaString (Some ''date-time'') [] None),
              (''updatedAt'', OaString (Some ''date-time'') [] None)])]),
      (''MonthlyData'', OaObject [] [(''month'', oa_str), (''income'', OaNumber), (''expenses'', OaNumber)]),
      (''CompanyStats'', OaObject []
         [(''id'', oa_str), (''name'', oa_str), (''value'', OaNumber), (''monthlyChange'', OaNumber)]),
      (''DeveloperTrends'', OaObject [] [(''month'', oa_str), (''react'', OaNumber), (''javascript'', OaNumber)]),
      (''EmployeeDistribution'', OaObject [] [(''year'', OaNumber), (''coders'', OaNumber), (''designers'', OaNumber)]),
      (''ProductPerformance'', OaObject []
         [(''id'', oa_str), (''name'', oa_str), (''percentage'', OaNumber), (''period'', oa_str)]),
      (''Error'', OaObject [] [(''error'', oa_str), (''statusCode'', OaNumber)])]"

definition swaggerOptions :: swagger_definition where
  "swaggerOptions =
     \<lparr>sw_openapi = ''3.0.0'', sw_title = ''AIDONIC Humanitarian Aid Management API'', sw_version = ''1.0.0'',
      sw_description = ''RESTful API for managing humanitarian aid distribution and tracking'',
      sw_contact = (''AIDONIC Team'', ''support@aidonic.org'', ''https://aidonic.org''),
      sw_license = (''MIT'', ''https://opensource.org/licenses/MIT''),
      sw_servers = [(''http://localhost:4000'', ''Development server''),
                    (''https://api.aidonic.org'', ''Production server'')],
      sw_security = (''bearerAuth'', ''http'', ''bearer'', ''JWT''),
      sw_schemas = swagger_schemas,
      sw_tags = [(''Authentication'', ''User authentication and authorization endpoints''),
                 (''Statistics'', ''Dashboard statistics and analytics endpoints'')],
      sw_apis = [''./src/handlers/*.ts'', ''./src/models/*.ts'']\<rparr>"

subsection \<open>The documented operations (JSDoc of the handlers)\<close>

definition register_doc :: oa_operation where
  "register_doc =
     \<lparr>op_path = ''/api/auth/register'', op_method = ''post'', op_tags = [''Authentication''],
      op_secured = False, op_request = Some (OaRef ''LoginRequest''),
      op_responses = [(201, None), (400, None), (409, None), (500, None)]\<rparr>"

definition login_doc :: oa_operation where
  "login_doc =
     \<lparr>op_path = ''/api/auth/login'', op_method = ''post'', op_tags = [''Authentication''],
      op_secured = False, op_request = Some (OaRef ''LoginRequest''),
      op_responses = [(200, None), (400, None), (401, None), (500, None)]\<rparr>"

definition me_doc :: oa_operation where
  "me_doc =
     \<lparr>op_path = ''/api/auth/me'', op_method = ''get'', op_tags = [''Authentication''],
      op_secured = True, op_request = None,
      op_responses = [(200, Some (OaObject [] [(''user'', OaRef ''UserResponse'')])), (401, None), (500, None)]\<rparr>"

definition refresh_doc :: oa_operation where
  "refresh_doc =
     \<lparr>op_path = ''/api/auth/refresh'', op_method = ''post'', op_tags = [''Authentication''],
      op_secured = True, op_request = None,
      op_responses = [(200, Some (OaRef ''LoginResponse'')), (401, None), (500, None)]\<rparr>"

text \<open>The six list endpoints of the statistics router share one shape: \<open>{ data: [N] }\<close>.\<close>

definition stats_list_doc :: "string \<Rightarrow> string \<Rightarrow> oa_operation" where
  "stats_list_doc p n =
     \<lparr>op_path = p, op_method = ''get'', op_tags = [''Statistics''], op_secured = True, op_request = None,
      op_responses = [(200, Some (OaObject [] [(''data'', OaArray (OaRef n))])), (401, None), (500, None)]\<rparr>"

definition monthly_data_doc :: oa_operation where
  "monthly_data_doc = stats_list_doc ''/api/stats/monthly-data'' ''MonthlyData''"

definition company_stats_doc :: oa_operation where
  "company_stats_doc = stats_list_doc ''/api/stats/company-stats'' ''CompanyStats''"

definition developer_trends_doc :: oa_operation where
  "developer_trends_doc = stats_list_doc ''/api/stats/developer-trends'' ''DeveloperTrends''"

definition employee_distribution_doc :: oa_operation where
  "employee_distribution_doc = stats_list_doc ''/api/stats/employee-distribution'' ''EmployeeDistribution''"

definition product_performance_doc :: oa_operation where
  "product_performance_doc = stats_list_doc ''/api/stats/product-performance'' ''ProductPerformance''"

definition all_stats_doc :: oa_operation where
  "all_stats_doc =
     \<lparr>op_path = ''/api/stats/all'', op_method = ''get'', op_tags = [''Statistics''], op_secured = True,
      op_request = None,
      op_responses =
        [(200, Some (OaObject []
            [(''monthlyData'', OaArray (OaRef ''MonthlyData'')),
             (''companyStats'', OaArray (OaRef ''CompanyStats'')),
             (''developerTrends'', OaArray (OaRef ''DeveloperTrends'')),
             (''employeeDistribution'', OaArray (OaRef ''EmployeeDistribution'')),
             (''productPerformance'', OaArray (OaRef ''ProductPerformance''))])),
         (401, None), (500, None)]\<rparr>"

definition normals_chart_doc :: oa_operation where
  "normals_chart_doc = stats_list_doc ''/api/stats/normals-chart'' ''NormalsChart''"

text \<open>What \<open>swagger-jsdoc\<close> collects from the files \<open>apis\<close> names.\<close>

definition api_docs :: "oa_operation list" where
  "api_docs =
     [register_doc, login_doc, me_doc, refresh_doc, monthly_data_doc, company_stats_doc,
      developer_trends_doc, employee_distribution_doc, product_performance_doc, all_stats_doc,
      normals_chart_doc]"

subsection \<open>Resolution and validation\<close>

fun oa_resolve :: "(string \<times> oa_schema) list \<Rightarrow> oa_schema \<Rightarrow> oa_schema option"
and oa_resolve_props :: "(string \<times> oa_schema) list \<Rightarrow> (string \<times> oa_schema) list \<Rightarrow>
                         (string \<times> oa_schema) list option" where
  "oa_resolve ds (OaObject req ps) = map_option (OaObject req) (oa_resolve_props ds ps)"
| "oa_resolve ds (OaArray sc) = map_option OaArray (oa_resolve ds sc)"
| "oa_resolve ds (OaRef n) = map_of ds n"
| "oa_resolve ds (OaString f e m) = Some (OaString f e m)"
| "oa_resolve ds OaNumber = Some OaNumber"
| "oa_resolve_props ds [] = Some []"
| "oa_resolve_props ds ((k, sc) # ps) =
     (case oa_resolve ds sc of
        None \<Rightarrow> None
      | Some sc' \<Rightarrow> map_option (Cons (k, sc')) (oa_resolve_props ds ps))"

fun conforms :: "oa_schema \<Rightarrow> json \<Rightarrow> bool"
and conforms_props :: "(string \<times> oa_schema) list \<Rightarrow> (string \<times> json) list \<Rightarrow> bool"
and conforms_items :: "oa_schema \<Rightarrow> json list \<Rightarrow> bool" where
  "conforms (OaObject req ps) (OBJECT fs) = (list_all (\<lambda>r. r \<in> set (map fst fs)) req \<and> conforms_props ps fs)"
| "conforms (OaArray sc) (ARRAY vs) = conforms_items sc vs"
| "conforms (OaString f e m) (STRING s) =
     ((e = [] \<or> s \<in> set e) \<and> (case m of None \<Rightarrow> True | Some n \<Rightarrow> n \<le> length s))"
| "conforms OaNumber (NUMBER i) = True"
| "conforms (OaObject req ps) (ARRAY vs) = False"
| "conforms (OaObject req ps) (STRING s) = False"
| "conforms (OaObject req ps) (NUMBER i) = False"
| "conforms (OaObject req ps) (BOOL b) = False"
| "conforms (OaObject req ps) NULL = False"
| "conforms (OaArray sc) (OBJECT fs) = False"
| "conforms (OaArray sc) (STRING s) = False"
| "conforms (OaArray sc) (NUMBER i) = False"
| "conforms (OaArray sc) (BOOL b) = False"
| "conforms (OaArray sc) NULL = False"
| "conforms (OaString f e m) (OBJECT fs) = False"
| "conforms (OaString f e m) (ARRAY vs) = False"
| "conforms (OaString f e m) (NUMBER i) = False"
| "conforms (OaString f e m) (BOOL b) = False"
| "conforms (OaString f e m) NULL = False"
| "conforms OaNumber (OBJECT fs) = False"
| "conforms OaNumber (ARRAY vs) = False"
| "conforms OaNumber (STRING s) = False"
| "conforms OaNumber (BOOL b) = False"
| "conforms OaNumber NULL = False"
| "conforms (OaRef n) v = False"
| "conforms_props [] fs = True"
| "conforms_props ((k, sc) # ps) fs =
     ((case map_of fs k of None \<Rightarrow> True | Some v \<Rightarrow> conforms sc v) \<and> conforms_props ps fs)"
| "conforms_items sc [] = True"
| "conforms_items sc (v # vs) = (conforms sc v \<and> conforms_items sc vs)"

definition doc_operation :: "string \<Rightarrow> string \<Rightarrow> oa_operation option" where
  "doc_operation p m = find (\<lambda>op. op_path op = p \<and> op_method op = m) api_docs"

text \<open>A value validates against a documented schema when the schema resolves and the
  value conforms to it.\<close>

definition doc_validates :: "oa_schema \<Rightarrow> json \<Rightarrow> bool" where
  "doc_validates sc j =
     (case oa_resolve (sw_schemas swaggerOptions) sc of None \<Rightarrow> False | Some sc' \<Rightarrow> conforms sc' j)"

text \<open>A response agrees with the documentation when its status is documented for the
  operation and, where a schema is given, its body (if its shape is known) validates.\<close>

definition doc_response_ok :: "string \<Rightarrow> string \<Rightarrow> nat \<Rightarrow> json option \<Rightarrow> bool" where
  "doc_response_ok p m st j =
     (case doc_operation p m of
        None \<Rightarrow> False
      | Some op \<Rightarrow>
          (case map_of (op_responses op) st of
             None \<Rightarrow> False
           | Some None \<Rightarrow> True
           | Some (Some sc) \<Rightarrow> (case j of None \<Rightarrow> False | Some v \<Rightarrow> doc_validates sc v)))"

definition doc_request_ok :: "string \<Rightarrow> string \<Rightarrow> json \<Rightarrow> bool" where
  "doc_request_ok p m j =
     (case doc_operation p m of
        None \<Rightarrow> False
      | Some op \<Rightarrow> (case op_request op of None \<Rightarrow> True | Some sc \<Rightarrow> doc_validates sc j))"

subsection \<open>The JSON the routes send and read\<close>

definition json_opt_field :: "string \<Rightarrow> string option \<Rightarrow> (string \<times> json) list" where
  "json_opt_field k v = (case v of None \<Rightarrow> [] | Some x \<Rightarrow> [(k, STRING x)])"

definition json_of_user_response :: "user_response \<Rightarrow> json" where
  "json_of_user_response u =
     OBJECT ([(''id'', STRING (user_id u)), (''email'', STRING (email u)), (''name'', STRING (name u)),
              (''role'', STRING (role_value (role u))), (''createdAt'', STRING (createdAt u)),
              (''updatedAt'', STRING (updatedAt u))] @ json_opt_field ''organizationId'' (organizationId u))"

definition json_of_monthly :: "monthly_data \<Rightarrow> json" where
  "json_of_monthly i = OBJECT [(''month'', STRING (md_month i)), (''income'', NUMBER (md_income i)),
                               (''expenses'', NUMBER (md_expenses i))]"

definition json_of_company :: "company_stats \<Rightarrow> json" where
  "json_of_company i = OBJECT [(''id'', STRING (cs_id i)), (''name'', STRING (cs_name i)),
                               (''value'', NUMBER (cs_value i)), (''monthlyChange'', NUMBER (cs_monthlyChange i))]"

definition json_of_trends :: "developer_trends \<Rightarrow> json" where
  "json_of_trends i = OBJECT [(''month'', STRING (dt_month i)), (''react'', NUMBER (dt_react i)),
                              (''javascript'', NUMBER (dt_javascript i))]"

definition json_of_employee :: "employee_distribution \<Rightarrow> json" where
  "json_of_employee i = OBJECT [(''year'', NUMBER (ed_year i)), (''coders'', NUMBER (ed_coders i)),
                                (''designers'', NUMBER (ed_designers i))]"

definition json_of_product :: "product_performance \<Rightarrow> json" where
  "json_of_product i = OBJECT [(''id'', STRING (pp_id i)), (''name'', STRING (pp_name i)),
                               (''percentage'', NUMBER (pp_percentage i)), (''period'', STRING (pp_period i))]"

definition json_of_normals :: "normals_chart \<Rightarrow> json" where
  "json_of_normals i = OBJECT [(''month'', STRING (nc_month i)), (''expected'', NUMBER (nc_expected i)),
                               (''actual'', NUMBER (nc_actual i))]"

definition json_data :: "('a \<Rightarrow> json) \<Rightarrow> 'a list \<Rightarrow> json" where
  "json_data f xs = OBJECT [(''data'', ARRAY (map f xs))]"

text \<open>The body of \<open>res.json(...)\<close>; the shape of a validation error's body is set by the
  error-handling middleware, which is not in the repository, and is left unknown.\<close>

primrec json_of_body :: "json_body \<Rightarrow> json option" where
  "json_of_body (JUser u) = Some (OBJECT [(''user'', json_of_user_response u)])"
| "json_of_body (JUserFields u) = Some (json_of_user_response u)"
| "json_of_body (JAuth a) = Some (OBJECT [(''token'', STRING (ar_token a)), (''user'', json_of_user_response (ar_user a))])"
| "json_of_body (JError m) = Some (OBJECT [(''error'', STRING m)])"
| "json_of_body (JIssues is) = None"
| "json_of_body (JMonthlyData xs) = Some (json_data json_of_monthly xs)"
| "json_of_body (JCompanyStats xs) = Some (json_data json_of_company xs)"
| "json_of_body (JDeveloperTrends xs) = Some (json_data json_of_trends xs)"
| "json_of_body (JEmployeeDistribution xs) = Some (json_data json_of_employee xs)"
| "json_of_body (JProductPerformance xs) = Some (json_data json_of_product xs)"
| "json_of_body (JNormalsChart xs) = Some (json_data json_of_normals xs)"
| "json_of_body (JAllStats a) =
     Some (OBJECT [(''monthlyData'', ARRAY (map json_of_monthly (as_monthlyData a))),
                   (''companyStats'', ARRAY (map json_of_company (as_companyStats a))),
                   (''developerTrends'', ARRAY (map json_of_trends (as_developerTrends a))),
                   (''employeeDistribution'', ARRAY (map json_of_employee (as_employeeDistribution a))),
                   (''productPerformance'', ARRAY (map json_of_product (as_productPerformance a)))])"

text \<open>A registration body as JSON: the fields the client sent.\<close>

definition json_of_create_user_body :: "create_user_body \<Rightarrow> json" where
  "json_of_create_user_body b =
     OBJECT (json_opt_field ''email'' (cb_email b) @ json_opt_field ''name'' (cb_name b) @
             json_opt_field ''password'' (cb_password b) @ json_opt_field ''role'' (cb_role b))"

subsection \<open>Lemmas\<close>

lemmas doc_docs_defs = register_doc_def login_doc_def me_doc_def refresh_doc_def stats_list_doc_def
  monthly_data_doc_def company_stats_doc_def developer_trends_doc_def employee_distribution_doc_def
  product_performance_doc_def all_stats_doc_def normals_chart_doc_def

lemmas api_doc_defs = doc_response_ok_def doc_request_ok_def doc_operation_def api_docs_def doc_docs_defs
  doc_validates_def swaggerOptions_def swagger_schemas_def


lemma refreshToken_Inl_status:
  "fst (refreshToken rt t s) = Inl e \<Longrightarrow> status (error_response e) \<noteq> 200"
  by (auto simp: refreshToken_def error_response_def Let_def split: sum.splits option.splits
           dest!: verifyToken_Inl_cases findById_Inl generateToken_Inl_cases) (auto simp: auth_errors_def)

lemma route_refresh_200:
  assumes "status (fst (route_refresh rt req s)) = 200"
  shows "\<exists>a. body (fst (route_refresh rt req s)) = JAuth a"
proof (cases "authenticateToken rt req")
  case (Next req')
  show ?thesis
  proof (cases "fst (refreshToken rt (the (header_token (authorization req'))) s)")
    case (Inl e)
    with refreshToken_Inl_status [OF Inl] assms Next show ?thesis
      by (auto simp: route_refresh_def authenticated_Next refresh_handler_def error_response_def
               split: option.splits sum.splits prod.splits)
  next
    case (Inr a)
    with assms Next show ?thesis
      by (auto simp: route_refresh_def authenticated_Next refresh_handler_def split: option.splits sum.splits prod.splits)
  qed
next
  case (NextError e)
  with assms show ?thesis
    by (auto simp: route_refresh_def authenticated_NextError error_response_def dest!: authenticateToken_NextError)
qed

lemma register_doc_request:
  "doc_request_ok ''/api/auth/register'' ''post'' (json_of_create_user_body b) \<longleftrightarrow>
   cb_email b \<noteq> None \<and> (\<exists>p. cb_password b = Some p \<and> 8 \<le> length p)"
  by (cases "cb_email b"; cases "cb_name b"; cases "cb_password b"; cases "cb_role b")
     (simp_all add: api_doc_defs json_of_create_user_body_def json_opt_field_def)

lemma refresh_doc_auth:
  "doc_response_ok ''/api/auth/refresh'' ''post'' 200 (json_of_body (JAuth a)) \<longleftrightarrow> role (ar_user a) = ADMIN"
  by (cases "role (ar_user a)"; cases "organizationId (ar_user a)")
     (simp_all add: api_doc_defs json_of_user_response_def json_opt_field_def)

lemma me_doc_unresolved: "\<not> doc_response_ok ''/api/auth/me'' ''get'' 200 j"
  by (simp add: api_doc_defs split: option.split)

lemma register_no_name_rejected:
  "cb_name b = None \<Longrightarrow> status (fst (route_register rt b s)) = 400"
  by (simp add: route_register_invalid createUserSchema_parse_def check_field_def Let_def error_response_def)


lemma demo_token_header:
  "header_token (Some (''Bearer '' @ jwt_token demo_hmac ''test-secret'' (user_claims demo_user 1700000000 1700086400))) =
   Some (jwt_token demo_hmac ''test-secret'' (user_claims demo_user 1700000000 1700086400))"
proof -
  have "CHR '' '' \<notin> set (jwt_token demo_hmac ''test-secret'' (user_claims demo_user 1700000000 1700086400))"
    by (simp add: jwt_token_def signing_input_def jwt_header_def demo_hmac_def Let_def encode_payload_def
        set_js_join demo_user_def pct_encode_def)
  then show ?thesis using header_token_scheme [of "''Bearer''"] by simp
qed

lemma demo_refresh_200:
  "status (fst (route_refresh demo_rt \<lparr>authorization = Some (''Bearer '' @ jwt_token demo_hmac ''test-secret''
      (user_claims demo_user 1700000000 1700086400)), req_user = None\<rparr> demo_sys)) = 200"
proof -
  let ?tok = "jwt_token demo_hmac ''test-secret'' (user_claims demo_user 1700000000 1700086400)"
  have id: "tp_userId (user_claims demo_user 1700000000 1700086400) = ''user-123''"
    by (simp add: user_claims_def user_payload_def demo_user_def token_payload.defs)
  obtain tok' where g: "generateToken demo_rt demo_user = Inr tok'"
    using generateToken_default_ttl [OF demo_config(1,2)] by blast
  show ?thesis
    using demo_token_header demo_admin_token demo_find_id g id
    by (simp add: route_refresh_def authenticated_def authenticateToken_def refresh_handler_def refreshToken_def)
qed


lemma conforms_items_map:
  "(\<And>x. conforms sc (f x)) \<Longrightarrow> conforms_items sc (map f xs)"
  by (induction xs) simp_all

lemma stats_docs_validate:
  "doc_response_ok ''/api/stats/monthly-data'' ''get'' 200 (json_of_body (JMonthlyData xs1))"
  "doc_response_ok ''/api/stats/company-stats'' ''get'' 200 (json_of_body (JCompanyStats xs2))"
  "doc_response_ok ''/api/stats/developer-trends'' ''get'' 200 (json_of_body (JDeveloperTrends xs3))"
  "doc_response_ok ''/api/stats/employee-distribution'' ''get'' 200 (json_of_body (JEmployeeDistribution xs4))"
  "doc_response_ok ''/api/stats/product-performance'' ''get'' 200 (json_of_body (JProductPerformance xs5))"
  "doc_response_ok ''/api/stats/all'' ''get'' 200 (json_of_body (JAllStats a))"
  "\<not> doc_response_ok ''/api/stats/normals-chart'' ''get'' 200 j"
  by (simp_all add: api_doc_defs json_data_def conforms_items_map json_of_monthly_def
      json_of_company_def json_of_trends_def json_of_employee_def json_of_product_def split: option.split)

lemma auth_docs_omit_404:
  "\<not> doc_response_ok ''/api/auth/me'' ''get'' 404 j" "\<not> doc_response_ok ''/api/auth/refresh'' ''post'' 404 j"
  by (simp_all add: api_doc_defs)

subsection \<open>The documentation against the code\<close>

text \<open>
  C34. The published API documentation does not describe the authentication routes the
  code implements. For \<open>/register\<close> it documents the login body (an e-mail and a
  password of at least 8 characters), so a body it accepts that has no name is answered
  400 by the route. For \<open>/refresh\<close> it documents the login response with roles
  \<open>admin\<close>, \<open>manager\<close> and \<open>volunteer\<close>, so a successful refresh validates
  against it exactly when the user is an administrator: the code's role \<open>user\<close> is not
  in the documented enumeration.
\<close>

theorem api_docs_auth_divergence:
  "(cb_email b \<noteq> None \<and> cb_password b = Some p \<and> 8 \<le> length p \<and> cb_name b = None \<longrightarrow>
      doc_request_ok ''/api/auth/register'' ''post'' (json_of_create_user_body b) \<and>
      status (fst (route_register rt b s)) = 400) \<and>
   (status (fst (route_refresh rt req s')) = 200 \<longrightarrow>
      (doc_response_ok ''/api/auth/refresh'' ''post'' 200 (json_of_body (body (fst (route_refresh rt req s')))) \<longleftrightarrow>
       (\<exists>a. body (fst (route_refresh rt req s')) = JAuth a \<and> role (ar_user a) = ADMIN)))"
proof (intro conjI impI)
  assume "cb_email b \<noteq> None \<and> cb_password b = Some p \<and> 8 \<le> length p \<and> cb_name b = None"
  then show "doc_request_ok ''/api/auth/register'' ''post'' (json_of_create_user_body b)"
    and "status (fst (route_register rt b s)) = 400"
    by (auto simp: register_doc_request register_no_name_rejected)
next
  assume "status (fst (route_refresh rt req s')) = 200"
  then obtain a where "body (fst (route_refresh rt req s')) = JAuth a" by (blast dest: route_refresh_200)
  then show "doc_response_ok ''/api/auth/refresh'' ''post'' 200 (json_of_body (body (fst (route_refresh rt req s')))) \<longleftrightarrow>
       (\<exists>a. body (fst (route_refresh rt req s')) = JAuth a \<and> role (ar_user a) = ADMIN)"
    using refresh_doc_auth [of a] by (simp del: json_of_body.simps)
qed

lemma api_docs_auth_divergence_witness:
  "doc_request_ok ''/api/auth/register'' ''post''
     (json_of_create_user_body \<lparr>cb_email = Some ''a@x.com'', cb_name = None, cb_password = Some ''longenough1'', cb_role = Some ''user''\<rparr>) \<and>
   status (fst (route_register demo_rt
     \<lparr>cb_email = Some ''a@x.com'', cb_name = None, cb_password = Some ''longenough1'', cb_role = Some ''user''\<rparr> empty_sys)) = 400 \<and>
   (doc_response_ok ''/api/auth/refresh'' ''post'' 200 (json_of_body (body (fst (route_refresh demo_rt
      \<lparr>authorization = Some (''Bearer '' @ jwt_token demo_hmac ''test-secret'' (user_claims demo_user 1700000000 1700086400)),
       req_user = None\<rparr> demo_sys)))) \<longleftrightarrow>
    (\<exists>a. body (fst (route_refresh demo_rt
      \<lparr>authorization = Some (''Bearer '' @ jwt_token demo_hmac ''test-secret'' (user_claims demo_user 1700000000 1700086400)),
       req_user = None\<rparr> demo_sys)) = JAuth a \<and> role (ar_user a) = ADMIN))"
  using api_docs_auth_divergence [of "\<lparr>cb_email = Some ''a@x.com'', cb_name = None, cb_password = Some ''longenough1'', cb_role = Some ''user''\<rparr>"
      "''longenough1''" demo_rt empty_sys
      "\<lparr>authorization = Some (''Bearer '' @ jwt_token demo_hmac ''test-secret'' (user_claims demo_user 1700000000 1700086400)),
        req_user = None\<rparr>" demo_sys] demo_refresh_200
  by simp

end
