(* ===== verification/Spec2Isabelle.thy ===== *)
theory Spec2Isabelle
  imports Concurrency App Seed Swagger
begin

text \<open>
  \<^bold>\<open>A verification library for the dashboard backend.\<close>
  The program (\<open>src/src\<close>) is an Express server with two routers: \<open>/api/auth\<close>
  (\<open>handlers/auth-routes.ts\<close>: register, login, me, refresh) and \<open>/api/stats\<close>
  (\<open>handlers/stats-routes.ts\<close>: seven read-only dashboard endpoints). Routes call the
  services (\<open>services/auth-service.ts\<close>, \<open>services/stats-service.ts\<close>), which call the
  repositories (\<open>data-access/user-repository.ts\<close> and the six statistics repositories),
  which read and replace one JSON document (\<open>data-access/json-db.ts\<close>). Requests are
  guarded by the middleware of \<open>libs/auth-middleware.ts\<close>, which verifies JSON Web Tokens
  issued by \<open>AuthService\<close> through the \<open>jsonwebtoken\<close> library.

  \<^bold>\<open>State and effects.\<close> The state is the record \<open>sys\<close> (\<open>Store\<close>): the document
  \<open>db\<close> held by \<open>data.json\<close>, the list of log entries written by \<open>libs/logger.ts\<close>, and
  the error every \<open>readDB\<close> fails with while the file is missing or corrupt
  (\<open>db_error\<close>); every repository method that reads returns \<open>Inl\<close> of that error.
  Every operation that touches them takes the state and returns it with its result;
  every \<open>throw\<close> is an \<open>Inl\<close> of \<open>app_error\<close> (\<open>CustomError\<close> with its status,
  \<open>ZodError\<close> with its issues, any other \<open>Error\<close>). What the code draws from its
  environment (\<open>process.env\<close>, \<open>Date.now\<close>, \<open>uuidv4\<close>, \<open>bcrypt.hash\<close>, the HMAC) is
  the record \<open>runtime\<close>, a parameter of each call, so that every claim holds for every
  clock, identifier, hash and key.

  \<^bold>\<open>Theories, in import order.\<close>
  \<^item> \<open>Prelude\<close>: the JavaScript string operations the code uses (\<open>toLowerCase\<close> on
    ASCII, \<open>split(' ')\<close>, \<open>join\<close>, decimal parsing, \<open>x || []\<close>) with their lemmas.
  \<^item> \<open>UserModel\<close>, \<open>StatsModel\<close>: the types of \<open>models/user.ts\<close> and
    \<open>models/stats.ts\<close> as records and datatypes, and the zod schemas
    \<open>createUserSchema\<close>, \<open>loginSchema\<close> as parsers into \<open>app_error + _\<close>; claim C29.
  \<^item> \<open>Store\<close>: \<open>readDB\<close>, \<open>writeDB\<close>, the logger, the state and runtime records.
  \<^item> \<open>UserRepository\<close>: every method of \<open>UserRepository\<close>, the invariant
    \<open>users_wf\<close> (e-mails lower-case and unique, ids unique) and the insert/lookup lemmas.
  \<^item> \<open>Jwt\<close>: the part of \<open>jsonwebtoken\<close> and \<open>ms\<close> the service uses, modelled from the
    library's documented behaviour (it is not repository code): \<open>sign\<close> with
    \<open>expiresIn\<close>, \<open>verify\<close> with its order of checks (format, signature, expiry), the
    error classes with \<open>TokenExpiredError\<close> a subclass of \<open>JsonWebTokenError\<close>. It accepts
    only the \<open>HS256\<close> header \<open>sign\<close> writes and payloads carrying \<open>exp\<close>; the library
    also accepts other HMAC headers and payloads without \<open>exp\<close>, which no token of the
    program has.
  \<^item> \<open>Fixtures\<close>: the concrete runtime, users and bodies the witnesses use, after
    the unit tests' fixtures.
  \<^item> \<open>AuthService\<close>: \<open>generateToken\<close>, \<open>verifyToken\<close>, \<open>login\<close>,
    \<open>getCurrentUser\<close>, \<open>refreshToken\<close>, each with its log lines; claims C1 to C8, C13, C30.
  \<^item> \<open>Middleware\<close>: \<open>authenticateToken\<close>, \<open>requireRole\<close>, \<open>requireAnyRole\<close>,
    \<open>optionalAuth\<close> on a request record, \<open>next()\<close> and \<open>next(err)\<close> as
    \<open>mw_outcome\<close>; claims C14 to C16, C31.
  \<^item> \<open>Routes\<close>: the four auth handlers composed with the middleware and the error
    handler (\<open>error_response\<close>, modelled from the spec: \<open>libs/error-handler\<close> is not in
    the repository); claims C9 to C11, C33.
  \<^item> \<open>Stats\<close>: the repositories' \<open>getAll\<close>, the service getters and \<open>getAllStats\<close>,
    the seven routes; claims C17 to C19, C32.
  \<^item> \<open>System\<close>: the app as a step function over requests handled one at a time and
    the reachable states as an inductive predicate; the invariant C20 by rule induction.
  \<^item> \<open>Concurrency\<close>: registrations interleaved at their awaits on the store, as an
    inductive step relation on the state and a list of threads; the two races C21, C22.
  \<^item> \<open>App\<close>: the Express application of \<open>index.ts\<close>: configuration read with
    \<open>parseInt\<close>; \<open>cors\<close>, which answers preflight (\<open>OPTIONS\<close>) requests with 204
    before the limiter; the rate limiter (\<open>express-rate-limit\<close>'s memory store, modelled
    from the documentation of version 7, as the repository pins no version); path
    matching as Express does it; dispatch to the health check, the Swagger UI, the two
    routers and the 404 handler; runs of requests with and without the limiter; claims
    C24 to C28.
  \<^item> \<open>Seed\<close>: the DynamoDB seeding script \<open>scripts/seed-dynamodb.ts\<close> and the table
    names of \<open>data-access/dynamodb.ts\<close>. The script's effects are the accepted
    \<open>PutCommand\<close>s and its console lines (\<open>seed_state\<close>); the service is a
    parameter that accepts or rejects each send (\<open>ddb_service\<close>); every \<open>await\<close> that
    throws ends the run with the state reached (\<open>seed_then\<close>), and \<open>seed_main\<close> is the
    \<open>catch\<close> with its exit code. The loops compose into one list of planned puts
    (\<open>seed_plan\<close>); claim C23.
  \<^item> \<open>Swagger\<close>: the OpenAPI documentation, \<open>libs/swagger-config.ts\<close>
    (\<open>swaggerOptions\<close>, its component schemas) and the \<open>@swagger\<close> blocks of both routers
    (one definition per block), with \<open>$ref\<close> resolution, validation of JSON against a
    schema, and the JSON the routes send (\<open>json_of_body\<close>); claim C34.
  \<^item> this theory: C12, which spans registration and login.

  \<^bold>\<open>What the lemmas show.\<close> Tokens issued at login verify to the user's claims for
  24 hours and not after (C1, C6, C7); failures are reported without revealing which
  credential was wrong (C4) and with the right status and log entry (C3, C5, C8);
  middleware admits a request only with a genuinely signed unexpired token (C14, C17);
  registration stores and finds users and refuses duplicates when requests are
  sequential (C9, C10, C20). Modelling also showed what the code does not do: expired
  tokens are never reported as expired (C2), a registered user can never log in because
  passwords are compared with their hash (C12), a bare-number TTL is read as milliseconds
  (C13), the scheme word of the header is ignored (C16), the handlers' own header checks
  are dead (C11), the schemas refuse the spec's registration example, whose name has one
  character (C29), and concurrent registrations can store one e-mail twice or lose a
  user (C21, C22). The schemas accept exactly the bodies of their type (C29) and no
  password or token reaches the log (C30). The seeding script stores exactly the puts
  the service accepts before its first rejection, in the planned order, and exits 1
  exactly when one was rejected (C23). The API documentation disagrees with the code: it
  documents the login body for \<open>/register\<close>, so bodies it accepts are refused, and a
  role enumeration without \<open>user\<close>, so only an administrator's \<open>/refresh\<close> answer
  validates (C34); two of its references name schemas it does not define. With the
  limits \<open>index.ts\<close> reads from \<open>RATE_LIMIT_WINDOW_MS\<close> and
  \<open>RATE_LIMIT_MAX_REQUESTS\<close>, the application serves exactly the first \<open>max\<close>
  requests of a client in its window (C24), serves it again once the window has passed
  (C25), and otherwise only filters: preflights never count, and the state is that of
  dispatching the admitted requests (C26). A decimal limit is read back exactly (C27),
  but a window written with a unit such as \<open>15m\<close> is read as that many milliseconds
  (C28). The role middlewares agree: \<open>requireRole r\<close> is \<open>requireAnyRole [r]\<close> (C31).
  When the data file cannot be read, user requests end in the error handler with 500
  (C33), and of the statistics endpoints only \<open>/all\<close> logs the failure: the other
  getters return the repository's promise without awaiting it, so their \<open>catch\<close> never
  runs (C32).

  \<^bold>\<open>Bounds.\<close> No loop of the program is unbounded, so no definition needs fuel: every
  recursion is structural on a list. Time is \<open>nat\<close> milliseconds and seconds
  (\<open>Date.now()\<close> and the token's \<open>iat\<close>, \<open>exp\<close>); the default lifetime is the string
  \<open>24h\<close>, 86400 seconds. \<open>ms\<close> is modelled on integer amounts with the units the
  library accepts; fractional amounts are not modelled. \<open>parseInt\<close> yields an unbounded
  integer (JavaScript would round beyond \<open>2^53\<close>, far above any configured value). The
  concurrent model needs no fuel: each registration passes at most three awaits on the
  store. The seeding script's loops are structural on the data's arrays; which send the service
  rejects is a parameter, so the claim covers every failure point.

  \<^bold>\<open>Not modelled.\<close> In \<open>index.ts\<close>: the headers helmet and cors add
  (\<open>cors_origins\<close> and cors' answer to preflights are modelled, the header logic is
  not), morgan's per-request log line (no claim reads the request log), the pages of the Swagger UI (the dispatch reaches it, as
  \<open>SwaggerUi\<close>), \<open>app.listen\<close>; in the documentation, descriptions, examples and the
  checking of formats (annotations in OpenAPI); the AWS client's region and endpoint
  (they only select the service) and the tables' key schemas (not in the repository:
  the model keeps the sequence of puts); the clock advancing during the seeding run; the
  tests (\<open>libs/test-setup.ts\<close> only configures Jest mocks); the log formatting of winston, failures of \<open>writeDB\<close>
  (writes are assumed to succeed; failed reads are modelled). The HMAC, base64url and JSON
  encodings of tokens are abstracted: the HMAC is a parameter and the payload
  encoding an escaping with a proved round trip, which is all the claims use.
\<close>

text \<open>
  C12. A user who registers through \<open>/register\<close> can never log in with the password
  they registered: \<open>createUser\<close> stores \<open>bcrypt.hash(password)\<close>, while
  \<open>verifyPassword\<close> compares the candidate with the stored field directly, so the
  login with the same e-mail and password fails with 401 whenever the hash differs from
  the plaintext (which a salted bcrypt hash always does).
\<close>

theorem registered_user_cannot_login:
  assumes "createUserSchema_parse b = Inr v" and "findByEmail (cr_email v) s = Inr None"
    and "rt_bcrypt rt (cr_password v) \<noteq> cr_password v"
    and "loginSchema_parse lb = Inr \<lparr>li_email = cr_email v, li_password = cr_password v\<rparr>"
  shows "fst (route_login rt' lb (snd (route_register rt b s))) =
           \<lparr>status = 401, body = JError ''Invalid email or password''\<rparr>"
proof -
  have reg: "snd (route_register rt b s) = snd (createUser rt v s)"
    using assms(1,2) by (simp add: route_register_created)
  have found: "findByEmail (cr_email v) (snd (createUser rt v s)) = Inr (Some (new_user rt v))"
    using assms(2) by (rule createUser_findByEmail) simp
  have "\<not> verifyPassword (new_user rt v) (cr_password v)"
    using assms(3) by (simp add: verifyPassword_def)
  then have "login rt' \<lparr>li_email = cr_email v, li_password = cr_password v\<rparr> (snd (createUser rt v s)) =
      (Inl (CustomError ''Invalid email or password'' 401),
       log_error ''Login error:'' (CustomError ''Invalid email or password'' 401) (snd (createUser rt v s)))"
    using found by (simp add: login_wrong_password)
  with reg assms(4) show ?thesis by (simp add: route_login_valid error_response_def)
qed

lemma registered_user_cannot_login_witness:
  "fst (route_login demo_rt \<lparr>lb_email = Some ''a@x.com'', lb_password = Some ''longenough1''\<rparr>
        (snd (route_register demo_rt
           \<lparr>cb_email = Some ''a@x.com'', cb_name = Some ''Alice'', cb_password = Some ''longenough1'',
            cb_role = Some ''user''\<rparr> empty_sys))) =
   \<lparr>status = 401, body = JError ''Invalid email or password''\<rparr>"
proof -
  have "rt_bcrypt demo_rt ''longenough1'' \<noteq> ''longenough1''" by (simp add: demo_rt_def)
  moreover have "loginSchema_parse \<lparr>lb_email = Some ''a@x.com'', lb_password = Some ''longenough1''\<rparr> =
      Inr \<lparr>li_email = ''a@x.com'', li_password = ''longenough1''\<rparr>"
    by (simp add: schema_defs)
  ultimately show ?thesis
    using registered_user_cannot_login [OF demo_body_parse(1) demo_empty_find] by simp
qed

end
